theory Spec2Isabelle
  imports Main
begin

chapter \<open>XSIG / Facturae extraction and the conformity report: a shallow embedding\<close>

text \<open>
  The theory follows the Python sources \<^verbatim>\<open>core/xsig_pdf.py\<close>,
  \<^verbatim>\<open>core/service.py\<close>, \<^verbatim>\<open>core/areas.py\<close> and the payload model of
  \<^verbatim>\<open>api/main.py\<close>. Every function keeps the name it has in the source (a leading
  underscore is dropped). What the code takes from outside the repository (the clock, the
  X.509 decoder, the date parsers, the file system) is an explicit argument.

  Conventions. A Python \<^verbatim>\<open>bytes\<close> value is a list of 8-bit characters. A Python
  \<^verbatim>\<open>str\<close> is a list of 8-bit characters as well, read as the code points U+0000 to
  U+00FF; text with code points above U+00FF is outside the model. An exception is a
  value: \<open>None\<close>, or the left summand of a sum type. Where the source is quoted, its
  accented letters are written without the accent; the definitions hold them as code
  points.
\<close>

section \<open>Definitions\<close>

subsection \<open>Bytes: find, rfind and slices\<close>

type_synonym bytes = "char list"

text \<open>\<open>sub\<close> occurs in \<open>xs\<close> at index \<open>i\<close>.\<close>

definition occurs_at :: "'a list \<Rightarrow> 'a list \<Rightarrow> nat \<Rightarrow> bool" where
  "occurs_at xs sub i = (i \<le> length xs \<and> take (length sub) (drop i xs) = sub)"

definition first_occurrence :: "'a list \<Rightarrow> 'a list \<Rightarrow> nat \<Rightarrow> bool" where
  "first_occurrence xs sub s =
     (occurs_at xs sub s \<and> (\<forall>j \<in> set [0..<s]. \<not> occurs_at xs sub j))"

definition last_occurrence :: "'a list \<Rightarrow> 'a list \<Rightarrow> nat \<Rightarrow> bool" where
  "last_occurrence xs sub e =
     (occurs_at xs sub e \<and> (\<forall>j \<in> set [Suc e..<Suc (length xs)]. \<not> occurs_at xs sub j))"

definition no_occurrence :: "'a list \<Rightarrow> 'a list \<Rightarrow> bool" where
  "no_occurrence xs sub = (\<forall>j \<in> set [0..<Suc (length xs)]. \<not> occurs_at xs sub j)"

text \<open>\<^verbatim>\<open>xs.find(sub)\<close>: the lowest index where \<open>sub\<close> occurs, \<open>-1\<close> when there is none.\<close>

fun bytes_find :: "'a list \<Rightarrow> 'a list \<Rightarrow> int" where
  "bytes_find [] sub = (if sub = [] then 0 else -1)"
| "bytes_find (x # xs) sub =
     (if take (length sub) (x # xs) = sub then 0
      else (let r = bytes_find xs sub in if r = -1 then -1 else r + 1))"

text \<open>\<^verbatim>\<open>xs.rfind(sub)\<close>: the highest index where \<open>sub\<close> occurs, \<open>-1\<close> when there is none.\<close>

fun bytes_rfind :: "'a list \<Rightarrow> 'a list \<Rightarrow> int" where
  "bytes_rfind [] sub = (if sub = [] then 0 else -1)"
| "bytes_rfind (x # xs) sub =
     (let r = bytes_rfind xs sub in
      if r \<noteq> -1 then r + 1
      else if take (length sub) (x # xs) = sub then 0 else -1)"

text \<open>\<^verbatim>\<open>xs[a:b]\<close>: a negative index counts from the end, and both ends are clipped.\<close>

definition py_index :: "nat \<Rightarrow> int \<Rightarrow> nat" where
  "py_index n i = (if i < 0 then nat (max (i + int n) 0) else min (nat i) n)"

definition py_slice :: "'a list \<Rightarrow> int \<Rightarrow> int \<Rightarrow> 'a list" where
  "py_slice xs a b =
     (let lo = py_index (length xs) a; hi = py_index (length xs) b
      in take (hi - lo) (drop lo xs))"

subsection \<open>The container unwrapper\<close>

text \<open>
  \<^verbatim>\<open>
  def _extract_xml_from_xsig_bytes(xsig_bytes: bytes) -> bytes:
      xml_start = xsig_bytes.find(b"<?xml")
      xml_end = xsig_bytes.rfind(b">") + 1
      if xml_start != -1 and xml_end > xml_start:
          return xsig_bytes[xml_start:xml_end]
      return xsig_bytes
  \<close>
\<close>

definition extract_xml_from_xsig_bytes :: "bytes \<Rightarrow> bytes" where
  "extract_xml_from_xsig_bytes xsig_bytes =
     (let xml_start = bytes_find xsig_bytes ''<?xml'';
          xml_end = bytes_rfind xsig_bytes ''>'' + 1
      in if xml_start \<noteq> -1 \<and> xml_end > xml_start
         then py_slice xsig_bytes xml_start xml_end
         else xsig_bytes)"

subsection \<open>Text: the string methods the code calls\<close>

text \<open>
  \<^verbatim>\<open>str.isspace\<close> on one character. Below U+0100 the white-space characters are
  U+0009 to U+000D, U+001C to U+0020, U+0085 and U+00A0.
\<close>

definition isspace :: "char \<Rightarrow> bool" where
  "isspace c = ((of_char c :: nat) \<in> set [9, 10, 11, 12, 13, 28, 29, 30, 31, 32, 133, 160])"

text \<open>\<^verbatim>\<open>s.strip()\<close>, and \<^verbatim>\<open>s.rstrip(chars)\<close> for a given set of characters.\<close>

definition rstrip_chars :: "string \<Rightarrow> string \<Rightarrow> string" where
  "rstrip_chars chars s = rev (dropWhile (\<lambda>c. c \<in> set chars) (rev s))"

definition strip :: "string \<Rightarrow> string" where
  "strip s = rev (dropWhile isspace (rev (dropWhile isspace s)))"

text \<open>\<^verbatim>\<open>s.replace(a, b)\<close> for single characters \<open>a\<close> and \<open>b\<close>.\<close>

definition replace_char :: "char \<Rightarrow> char \<Rightarrow> string \<Rightarrow> string" where
  "replace_char a b s = map (\<lambda>c. if c = a then b else c) s"

text \<open>
  \<^verbatim>\<open>str.isdigit\<close>: the string is not empty and every character is a digit. Below
  U+0100 the digits are \<^verbatim>\<open>0\<close> to \<^verbatim>\<open>9\<close> and the superscripts U+00B2, U+00B3
  and U+00B9; only the former are decimal digits, which \<^verbatim>\<open>int\<close> and \<^verbatim>\<open>float\<close>
  accept.
\<close>

definition is_decimal_char :: "char \<Rightarrow> bool" where
  "is_decimal_char c = (48 \<le> (of_char c :: nat) \<and> (of_char c :: nat) \<le> 57)"

definition isdigit_char :: "char \<Rightarrow> bool" where
  "isdigit_char c = (is_decimal_char c \<or> (of_char c :: nat) \<in> set [178, 179, 185])"

definition isdigit :: "string \<Rightarrow> bool" where
  "isdigit s = (s \<noteq> [] \<and> list_all isdigit_char s)"

text \<open>
  \<^verbatim>\<open>s.zfill(width)\<close>: zeros are added on the left up to \<open>width\<close> characters; after a
  leading sign when there is one.
\<close>

definition zfill :: "nat \<Rightarrow> string \<Rightarrow> string" where
  "zfill width s =
     (if width \<le> length s then s
      else (case s of
              [] \<Rightarrow> replicate width (CHR ''0'')
            | c # rest \<Rightarrow>
                if c = CHR ''+'' \<or> c = CHR ''-''
                then c # replicate (width - length s) (CHR ''0'') @ rest
                else replicate (width - length s) (CHR ''0'') @ s))"

text \<open>Decimal numerals.\<close>

definition digit_char :: "nat \<Rightarrow> char" where
  "digit_char d = char_of (48 + d)"

definition digit_val :: "char \<Rightarrow> nat" where
  "digit_val c = of_char c - 48"

fun show_nat :: "nat \<Rightarrow> string" where
  "show_nat n = (if n < 10 then [digit_char n] else show_nat (n div 10) @ [digit_char (n mod 10)])"

declare show_nat.simps [simp del]

definition digits_val :: "string \<Rightarrow> nat" where
  "digits_val ds = foldl (\<lambda>acc c. 10 * acc + digit_val c) 0 ds"

text \<open>
  The digit groups of \<^verbatim>\<open>int\<close> and \<^verbatim>\<open>float\<close> literals: digits with single
  underscores between them. \<open>strip_underscores\<close> returns the digits, or \<open>None\<close> when an
  underscore is not between two digits; it follows the scan of the interpreter, which
  accepts an underscore only after a digit and only before a digit.
\<close>

fun underscores_ok :: "char \<Rightarrow> string \<Rightarrow> bool" where
  "underscores_ok prev [] = (prev \<noteq> CHR ''_'')"
| "underscores_ok prev (c # cs) =
     (if c = CHR ''_'' then is_decimal_char prev \<and> underscores_ok c cs
      else (prev = CHR ''_'' \<longrightarrow> is_decimal_char c) \<and> underscores_ok c cs)"

definition strip_underscores :: "string \<Rightarrow> string option" where
  "strip_underscores s =
     (if underscores_ok (CHR 0x00) s then Some (filter (\<lambda>c. c \<noteq> CHR ''_'') s) else None)"

text \<open>
  \<^verbatim>\<open>int(s)\<close> for a string, base 10: white space around, an optional sign, then digits
  with optional single underscores between them. \<open>None\<close> stands for \<^verbatim>\<open>ValueError\<close>.
\<close>

definition split_sign :: "string \<Rightarrow> bool \<times> string" where
  "split_sign s =
     (case s of
        c # rest \<Rightarrow> if c = CHR ''-'' then (True, rest)
                   else if c = CHR ''+'' then (False, rest) else (False, s)
      | [] \<Rightarrow> (False, s))"

definition py_int :: "string \<Rightarrow> int option" where
  "py_int s =
     (let (neg, body) = split_sign (strip s) in
      case strip_underscores body of
        None \<Rightarrow> None
      | Some ds \<Rightarrow>
          if ds \<noteq> [] \<and> list_all is_decimal_char ds
          then Some (if neg then - int (digits_val ds) else int (digits_val ds))
          else None)"

text \<open>\<^verbatim>\<open>f"{n:02d}"\<close>: at least two characters, zeros after the sign.\<close>

definition format_02d :: "int \<Rightarrow> string" where
  "format_02d n = (if n < 0 then CHR ''-'' # show_nat (nat (- n)) else zfill 2 (show_nat (nat n)))"

text \<open>\<^verbatim>\<open>sep.join(parts)\<close>.\<close>

fun join :: "string \<Rightarrow> string list \<Rightarrow> string" where
  "join sep [] = []"
| "join sep [p] = p"
| "join sep (p # q # ps) = p @ sep @ join sep (q # ps)"

subsection \<open>Area codes\<close>

text \<open>
  \<^verbatim>\<open>
  def _normalize_area_code(area_code: Optional[str]) -> str:
      if not area_code:
          return ""
      ac = str(area_code).strip()
      if ac.isdigit():
          return ac.zfill(2)
      return ac
  \<close>
  The argument is \<^verbatim>\<open>Optional[str]\<close>: \<open>None\<close> or a string.
\<close>

definition normalize_area_code :: "string option \<Rightarrow> string" where
  "normalize_area_code area_code =
     (case area_code of
        None \<Rightarrow> []
      | Some a \<Rightarrow>
          if a = [] then []
          else (let ac = strip a in if isdigit ac then zfill 2 ac else ac))"

text \<open>
  \<^verbatim>\<open>
  def normalizar_area(area_val):
      if area_val is None:
          return ""
      s = str(area_val).strip()
      try:
          n = int(s)
          return f"{n:02d}"
      except Exception:
          return s.zfill(2) if s.isdigit() else s
  \<close>
\<close>

definition normalizar_area :: "string option \<Rightarrow> string" where
  "normalizar_area area_val =
     (case area_val of
        None \<Rightarrow> []
      | Some a \<Rightarrow>
          (let s = strip a in
           case py_int s of
             Some n \<Rightarrow> format_02d n
           | None \<Rightarrow> if isdigit s then zfill 2 s else s))"

subsection \<open>The area table\<close>

text \<open>
  The file system as the loader sees it: a path names no file; a file that cannot be opened
  or read (\<^verbatim>\<open>OSError\<close>, for instance a directory), whose bytes are not UTF-8
  (\<^verbatim>\<open>UnicodeDecodeError\<close>) or that the CSV reader refuses (\<^verbatim>\<open>csv.Error\<close>), each
  exception kept as its message; or a file whose content the CSV reader splits into rows
  of fields at the semicolons.
\<close>

datatype file_state =
    Missing
  | Unreadable string
  | Undecodable string
  | Malformed string
  | Rows "string list list"

type_synonym file_system = "string \<Rightarrow> file_state"

text \<open>The exceptions the program raises or lets through, each with its message.\<close>

datatype error =
    IOError string
  | UnicodeDecodeError string
  | CsvError string
  | ValueError string
  | AttributeError string
  | TypeError string

text \<open>
  \<^verbatim>\<open>
  for row in reader:
      if not row or len(row) < 2:
          continue
      area_raw = str(row[0]).strip()
      nombre = str(row[1]).strip()
      if area_raw:
          key = area_raw.zfill(2)
          d[key] = nombre
  \<close>
\<close>

fun load_rows :: "string list list \<Rightarrow> (string \<rightharpoonup> string) \<Rightarrow> (string \<rightharpoonup> string)" where
  "load_rows [] d = d"
| "load_rows (row # rows) d =
     (if row = [] \<or> length row < 2 then load_rows rows d
      else (let area_raw = strip (row ! 0); nombre = strip (row ! 1)
            in if area_raw \<noteq> []
               then load_rows rows (d(zfill 2 area_raw \<mapsto> nombre))
               else load_rows rows d))"

text \<open>
  The body of \<^verbatim>\<open>cargar_diccionario_areas\<close>, without its cache:
  \<^verbatim>\<open>
  d = {}
  if not csv_path or not os.path.exists(csv_path):
      return d
  with open(csv_path, "r", encoding="utf-8-sig", newline="") as f:
      reader = csv.reader(f, delimiter=';')
      for row in reader: ...
  return d
  \<close>
\<close>

definition cargar_diccionario_areas_wrapped ::
  "file_system \<Rightarrow> string option \<Rightarrow> error + (string \<rightharpoonup> string)" where
  "cargar_diccionario_areas_wrapped fs csv_path =
     (case csv_path of
        None \<Rightarrow> Inr Map.empty
      | Some p \<Rightarrow>
          if p = [] then Inr Map.empty
          else (case fs p of
                  Missing \<Rightarrow> Inr Map.empty
                | Unreadable msg \<Rightarrow> Inl (IOError msg)
                | Undecodable msg \<Rightarrow> Inl (UnicodeDecodeError msg)
                | Malformed msg \<Rightarrow> Inl (CsvError msg)
                | Rows rows \<Rightarrow> Inr (load_rows rows Map.empty)))"

text \<open>
  The function is decorated with \<^verbatim>\<open>@lru_cache(maxsize=1)\<close>: the last result is kept
  with its argument, a call with that argument returns it without running the body, and an
  exception is not stored. The cache is passed in and returned.
\<close>

type_synonym areas_cache = "(string option \<times> (string \<rightharpoonup> string)) option"

definition cargar_diccionario_areas ::
  "areas_cache \<Rightarrow> file_system \<Rightarrow> string option \<Rightarrow> (error + (string \<rightharpoonup> string)) \<times> areas_cache" where
  "cargar_diccionario_areas cache fs csv_path =
     (let miss = (case cargar_diccionario_areas_wrapped fs csv_path of
                    Inl e \<Rightarrow> (Inl e, cache)
                  | Inr d \<Rightarrow> (Inr d, Some (csv_path, d)))
      in case cache of
           None \<Rightarrow> miss
         | Some (p, d) \<Rightarrow> if p = csv_path then (Inr d, cache) else miss)"

text \<open>
  The cache after a run of earlier calls, each with the file system as it was at that call
  and its argument, the latest call first; the process starts with the empty cache.
\<close>

fun cache_after :: "(file_system \<times> string option) list \<Rightarrow> areas_cache" where
  "cache_after [] = None"
| "cache_after (c # calls) = snd (cargar_diccionario_areas (cache_after calls) (fst c) (snd c))"

text \<open>
  Two states of the file system: one table at \<^verbatim>\<open>areas.csv\<close>, and the same directory after
  the file has been deleted.
\<close>

definition sample_rows :: "string list list" where
  "sample_rows = [[''1'', '' Hacienda ''], ['' 12 '', ''Cultura''], [''solo''], ['' '', ''x'']]"

definition fs_with_table :: file_system where
  "fs_with_table = (\<lambda>p. if p = ''areas.csv'' then Rows sample_rows else Missing)"

definition fs_without_table :: file_system where
  "fs_without_table = (\<lambda>p. Missing)"

subsection \<open>The conformity report\<close>

text \<open>
  The payload is a \<^verbatim>\<open>Dict[str, Any]\<close>: its values are what a JSON document, or the dump
  of the request model, puts there: \<^verbatim>\<open>None\<close>, a boolean, an integer, a string, a list
  or a dictionary. A dictionary is the list of its items; a key is looked up from the
  front.
\<close>

datatype json =
    JNull
  | JBool bool
  | JNum int
  | JStr string
  | JList "json list"
  | JObj "(string \<times> json) list"

type_synonym payload = "(string \<times> json) list"

text \<open>The truth value of a value, as \<^verbatim>\<open>not\<close>, \<^verbatim>\<open>or\<close> and \<^verbatim>\<open>bool()\<close> take it.\<close>

fun truthy :: "json \<Rightarrow> bool" where
  "truthy JNull = False"
| "truthy (JBool b) = b"
| "truthy (JNum n) = (n \<noteq> 0)"
| "truthy (JStr s) = (s \<noteq> [])"
| "truthy (JList xs) = (xs \<noteq> [])"
| "truthy (JObj kvs) = (kvs \<noteq> [])"

text \<open>\<^verbatim>\<open>a or b\<close>.\<close>

definition py_or :: "json \<Rightarrow> json \<Rightarrow> json" where
  "py_or a b = (if truthy a then a else b)"

text \<open>\<^verbatim>\<open>d.get(key)\<close> and \<^verbatim>\<open>d.get(key, default)\<close>.\<close>

definition dict_get :: "(string \<times> json) list \<Rightarrow> string \<Rightarrow> json" where
  "dict_get d k = (case map_of d k of None \<Rightarrow> JNull | Some v \<Rightarrow> v)"

definition dict_get_default :: "(string \<times> json) list \<Rightarrow> string \<Rightarrow> json \<Rightarrow> json" where
  "dict_get_default d k dflt = (case map_of d k of None \<Rightarrow> dflt | Some v \<Rightarrow> v)"

text \<open>The name of the type of a value, as the messages of the interpreter print it.\<close>

fun type_name :: "json \<Rightarrow> string" where
  "type_name JNull = ''NoneType''"
| "type_name (JBool b) = ''bool''"
| "type_name (JNum n) = ''int''"
| "type_name (JStr s) = ''str''"
| "type_name (JList xs) = ''list''"
| "type_name (JObj kvs) = ''dict''"

definition no_attribute :: "json \<Rightarrow> string \<Rightarrow> error" where
  "no_attribute v attr =
     AttributeError ([CHR 0x27] @ type_name v @ [CHR 0x27] @ '' object has no attribute ''
                       @ [CHR 0x27] @ attr @ [CHR 0x27])"

definition not_iterable :: "json \<Rightarrow> error" where
  "not_iterable v = TypeError ([CHR 0x27] @ type_name v @ [CHR 0x27] @ '' object is not iterable'')"

text \<open>\<^verbatim>\<open>v.strip()\<close>: only a string has the method.\<close>

definition py_strip :: "json \<Rightarrow> error + string" where
  "py_strip v = (case v of JStr s \<Rightarrow> Inr (strip s) | _ \<Rightarrow> Inl (no_attribute v ''strip''))"

text \<open>\<^verbatim>\<open>item.get(key)\<close>: only a dictionary has the method.\<close>

definition item_get :: "json \<Rightarrow> string \<Rightarrow> error + json" where
  "item_get item k =
     (case item of JObj kvs \<Rightarrow> Inr (dict_get kvs k) | _ \<Rightarrow> Inl (no_attribute item ''get''))"

text \<open>
  \<^verbatim>\<open>item.get(k1) or item.get(k2) or ... or ""\<close>: the keys are tried from the left, and
  the first value that is true is the result.
\<close>

fun get_first :: "json \<Rightarrow> string list \<Rightarrow> error + json" where
  "get_first item [] = Inr (JStr [])"
| "get_first item (k # ks) =
     (case item_get item k of
        Inl e \<Rightarrow> Inl e
      | Inr v \<Rightarrow> if truthy v then Inr v else get_first item ks)"

definition stripped_first :: "json \<Rightarrow> string list \<Rightarrow> error + string" where
  "stripped_first item ks = (case get_first item ks of Inl e \<Rightarrow> Inl e | Inr v \<Rightarrow> py_strip v)"

text \<open>
  The items a \<^verbatim>\<open>for\<close> loop takes from a value: the elements of a list, the characters
  of a string, the keys of a dictionary; the other values are not iterable.
\<close>

definition py_iter :: "json \<Rightarrow> error + json list" where
  "py_iter v =
     (case v of
        JList xs \<Rightarrow> Inr xs
      | JStr s \<Rightarrow> Inr (map (\<lambda>c. JStr [c]) s)
      | JObj kvs \<Rightarrow> Inr (map (\<lambda>kv. JStr (fst kv)) kvs)
      | _ \<Rightarrow> Inl (not_iterable v))"

text \<open>
  \<^verbatim>\<open>
  for item in aplicaciones_in:
      org = (item.get("org") or item.get("vaplorg") or "").strip()
      fun = (item.get("fun") or item.get("vaplfun") or "").strip()
      eco = (item.get("eco") or item.get("vapleco") or item.get("vapleco") or "").strip()
      aplicaciones.append((org, fun, eco))
  \<close>
  The first exception ends the loop and the function.
\<close>

fun aplicaciones_of :: "json list \<Rightarrow> error + (string \<times> string \<times> string) list" where
  "aplicaciones_of [] = Inr []"
| "aplicaciones_of (item # items) =
     (case stripped_first item [''org'', ''vaplorg''] of
        Inl e \<Rightarrow> Inl e
      | Inr org \<Rightarrow>
     (case stripped_first item [''fun'', ''vaplfun''] of
        Inl e \<Rightarrow> Inl e
      | Inr fun_ \<Rightarrow>
     (case stripped_first item [''eco'', ''vapleco'', ''vapleco''] of
        Inl e \<Rightarrow> Inl e
      | Inr eco \<Rightarrow>
     (case aplicaciones_of items of
        Inl e \<Rightarrow> Inl e
      | Inr rest \<Rightarrow> Inr ((org, fun_, eco) # rest)))))"

text \<open>
  The dictionary handed to the renderer of the report, with the keys of the source:
  \<^verbatim>\<open>
  data = {
      "punto_entrada": payload.get("punto_entrada", ""),
      "id_punto_entrada": payload.get("id_punto_entrada", ""),
      "fecha_hora_entrada": payload.get("fecha_hora_entrada", ""),
      "num_rcf": payload.get("num_rcf", ""),
      "proveedor": payload.get("proveedor", ""),
      "nif_proveedor": payload.get("nif_proveedor", ""),
      "fecha_expedicion": payload.get("fecha_expedicion", ""),
      "vfacnum": payload.get("vfacnum", ""),
      "importe_total": payload.get("importe_total", ""),
      "concepto": payload.get("concepto", ""),
      "area_code": area_code,
      "area_name": area_name,
      "area_logo": area_logo,
      "area": area_name,
      "unidad": payload.get("unidad", "") or "",
      "aplicaciones": aplicaciones,
      "expediente_contrato": payload.get("expediente_contrato", "") or "",
      "apps_single_row": bool(payload.get("apps_single_row", True)),
      "resultado_conformidad": resultado,
      "motivo_no_conformidad": (payload.get("motivo_no_conformidad") or "").strip(),
      "observaciones": observaciones,
  }
  \<close>
\<close>

record report_data =
  punto_entrada :: json
  id_punto_entrada :: json
  fecha_hora_entrada :: json
  num_rcf :: json
  proveedor :: json
  nif_proveedor :: json
  fecha_expedicion :: json
  vfacnum :: json
  importe_total :: json
  concepto :: json
  area_code :: string
  area_name :: json
  area_logo :: "string option"
  area :: json
  unidad :: json
  aplicaciones :: "(string \<times> string \<times> string) list"
  expediente_contrato :: json
  apps_single_row :: bool
  resultado_conformidad :: json
  motivo_no_conformidad :: string
  observaciones :: string

text \<open>
  What the function takes from outside the program: \<^verbatim>\<open>os.path.isfile\<close>, the text
  \<^verbatim>\<open>str()\<close> gives for a list or a dictionary, and the renderer \<^verbatim>\<open>generate_acta_pdf\<close>
  with the bytes of the document it returns, or the exception it raises.
\<close>

record environment =
  isfile :: "string \<Rightarrow> bool"
  py_repr :: "json \<Rightarrow> string"
  generate_acta_pdf :: "report_data \<Rightarrow> error + string"

text \<open>\<^verbatim>\<open>str(v)\<close>.\<close>

definition py_str :: "environment \<Rightarrow> json \<Rightarrow> string" where
  "py_str env v =
     (case v of
        JNull \<Rightarrow> ''None''
      | JBool b \<Rightarrow> (if b then ''True'' else ''False'')
      | JNum n \<Rightarrow> (if n < 0 then CHR ''-'' # show_nat (nat (- n)) else show_nat (nat n))
      | JStr s \<Rightarrow> s
      | _ \<Rightarrow> py_repr env v)"

text \<open>
  The argument \<^verbatim>\<open>_normalize_area_code\<close> receives, \<^verbatim>\<open>payload.get("area_code")\<close>: a
  value that is not true gives the empty code, as \<^verbatim>\<open>None\<close> does, and any other value
  is read through \<^verbatim>\<open>str()\<close>.
\<close>

definition area_code_argument :: "environment \<Rightarrow> json \<Rightarrow> string option" where
  "area_code_argument env v = (if truthy v then Some (py_str env v) else None)"

text \<open>
  \<^verbatim>\<open>
  def _find_logo_for_area(area_code: str) -> Optional[str]:
      if not area_code:
          return None
      exts = ("png", "jpg", "jpeg", "gif", "bmp")
      search_roots = ["images", ".", "assets", "static"]
      for root in search_roots:
          for ext in exts:
              p = os.path.join(root, f"logo_{area_code}.{ext}")
              if os.path.isfile(p):
                  return p
      return None
  \<close>
\<close>

definition logo_candidates :: "string \<Rightarrow> string list" where
  "logo_candidates code =
     concat (map (\<lambda>root. map (\<lambda>ext. root @ ''/'' @ ''logo_'' @ code @ ''.'' @ ext)
                            [''png'', ''jpg'', ''jpeg'', ''gif'', ''bmp''])
                 [''images'', ''.'', ''assets'', ''static''])"

definition find_logo_for_area :: "environment \<Rightarrow> string \<Rightarrow> string option" where
  "find_logo_for_area env code =
     (if code = [] then None else find (isfile env) (logo_candidates code))"

definition resultado_msg :: string where
  "resultado_msg =
     ''resultado_conformidad debe ser '' @ [CHR 0x27] @ ''conforme'' @ [CHR 0x27]
       @ '' o '' @ [CHR 0x27] @ ''no_conforme'' @ [CHR 0x27]"

definition motivo_msg :: string where
  "motivo_msg =
     ''motivo_no_conformidad es obligatorio cuando resultado_conformidad = ''
       @ [CHR 0x27] @ ''no_conforme'' @ [CHR 0x27]"

text \<open>
  The rule of the function:
  \<^verbatim>\<open>
  resultado = payload.get("resultado_conformidad", "conforme")
  if resultado not in ("conforme", "no_conforme"):
      raise ValueError("resultado_conformidad debe ser 'conforme' o 'no_conforme'")
  if resultado == "no_conforme" and not (payload.get("motivo_no_conformidad") or "").strip():
      raise ValueError("motivo_no_conformidad es obligatorio cuando resultado_conformidad = 'no_conforme'")
  \<close>
  The reason is read, and trimmed, only when the result is \<^verbatim>\<open>no_conforme\<close>.
\<close>

definition conformidad :: "payload \<Rightarrow> error + json" where
  "conformidad payload =
     (let resultado = dict_get_default payload ''resultado_conformidad'' (JStr ''conforme'')
      in if resultado \<noteq> JStr ''conforme'' \<and> resultado \<noteq> JStr ''no_conforme''
         then Inl (ValueError resultado_msg)
         else if resultado = JStr ''no_conforme''
         then (case py_strip (py_or (dict_get payload ''motivo_no_conformidad'') (JStr [])) of
                 Inl e \<Rightarrow> Inl e
               | Inr motivo \<Rightarrow> if motivo = [] then Inl (ValueError motivo_msg) else Inr resultado)
         else Inr resultado)"

text \<open>
  The function after the area table has been loaded (lines 71 to 129 of
  \<^verbatim>\<open>core/service.py\<close>), in the order of the source: the area, its name
  \<^verbatim>\<open>
  payload.get("area_name") or areas_dict.get(area_code) or (f"Area {area_code}" if area_code else "")
  \<close>
  and its logo; the loop over the applications; the rule; the observations; the dictionary
  of the report, whose entry for the reason trims the reason once more; the renderer.
\<close>

definition informe_con_areas ::
  "environment \<Rightarrow> (string \<rightharpoonup> string) \<Rightarrow> payload \<Rightarrow> error + string" where
  "informe_con_areas env areas_dict payload =
     (let code = normalize_area_code (area_code_argument env (dict_get payload ''area_code''));
          name = py_or (dict_get payload ''area_name'')
                   (py_or (case areas_dict code of None \<Rightarrow> JNull | Some n \<Rightarrow> JStr n)
                      (JStr (if code \<noteq> [] then [CHR 0xC1] @ ''rea '' @ code else [])));
          logo = (if code \<noteq> [] then find_logo_for_area env code else None)
      in case py_iter (py_or (dict_get payload ''aplicaciones'') (JList [])) of
           Inl e \<Rightarrow> Inl e
         | Inr aplicaciones_in \<Rightarrow>
        (case aplicaciones_of aplicaciones_in of
           Inl e \<Rightarrow> Inl e
         | Inr apps \<Rightarrow>
        (case conformidad payload of
           Inl e \<Rightarrow> Inl e
         | Inr resultado \<Rightarrow>
        (case py_strip (py_or (dict_get payload ''observaciones'') (JStr [])) of
           Inl e \<Rightarrow> Inl e
         | Inr obs \<Rightarrow>
        (case py_strip (py_or (dict_get payload ''motivo_no_conformidad'') (JStr [])) of
           Inl e \<Rightarrow> Inl e
         | Inr motivo \<Rightarrow>
             generate_acta_pdf env
               \<lparr> punto_entrada = dict_get_default payload ''punto_entrada'' (JStr []),
                 id_punto_entrada = dict_get_default payload ''id_punto_entrada'' (JStr []),
                 fecha_hora_entrada = dict_get_default payload ''fecha_hora_entrada'' (JStr []),
                 num_rcf = dict_get_default payload ''num_rcf'' (JStr []),
                 proveedor = dict_get_default payload ''proveedor'' (JStr []),
                 nif_proveedor = dict_get_default payload ''nif_proveedor'' (JStr []),
                 fecha_expedicion = dict_get_default payload ''fecha_expedicion'' (JStr []),
                 vfacnum = dict_get_default payload ''vfacnum'' (JStr []),
                 importe_total = dict_get_default payload ''importe_total'' (JStr []),
                 concepto = dict_get_default payload ''concepto'' (JStr []),
                 area_code = code,
                 area_name = name,
                 area_logo = logo,
                 area = name,
                 unidad = py_or (dict_get_default payload ''unidad'' (JStr [])) (JStr []),
                 aplicaciones = apps,
                 expediente_contrato =
                   py_or (dict_get_default payload ''expediente_contrato'' (JStr [])) (JStr []),
                 apps_single_row =
                   truthy (dict_get_default payload ''apps_single_row'' (JBool True)),
                 resultado_conformidad = resultado,
                 motivo_no_conformidad = motivo,
                 observaciones = obs \<rparr>)))))"

text \<open>
  \<^verbatim>\<open>
  def generar_informe_conformidad_pdf_desde_payload(*, payload, areas_csv_path="areas.csv"):
      areas_dict = cargar_diccionario_areas(areas_csv_path)
      ...
      pdf_io = generate_acta_pdf(data)
      return pdf_io.getvalue()
  \<close>
  The area table is loaded first, through the cache; an exception of the loader ends the
  function before the payload is read.
\<close>

definition generar_informe_conformidad_pdf_desde_payload ::
  "environment \<Rightarrow> areas_cache \<Rightarrow> file_system \<Rightarrow> payload \<Rightarrow> string
     \<Rightarrow> (error + string) \<times> areas_cache" where
  "generar_informe_conformidad_pdf_desde_payload env cache fs payload areas_csv_path =
     (case cargar_diccionario_areas cache fs (Some areas_csv_path) of
        (Inl e, cache') \<Rightarrow> (Inl e, cache')
      | (Inr areas_dict, cache') \<Rightarrow> (informe_con_areas env areas_dict payload, cache'))"

text \<open>
  The validator of the request model, which runs on a reason that is already a string or
  \<^verbatim>\<open>None\<close>:
  \<^verbatim>\<open>
  @field_validator("motivo_no_conformidad")
  def _motivo_required_when_no_conforme(cls, v, info):
      values = info.data
      if values.get("resultado_conformidad") == "no_conforme":
          if not (v or "").strip():
              raise ValueError("motivo_no_conformidad es obligatorio cuando resultado_conformidad = 'no_conforme'")
      return v
  \<close>
\<close>

definition motivo_required_when_no_conforme ::
  "string option \<Rightarrow> payload \<Rightarrow> error + string option" where
  "motivo_required_when_no_conforme v vals =
     (if dict_get vals ''resultado_conformidad'' = JStr ''no_conforme''
      then (if strip (case v of None \<Rightarrow> [] | Some s \<Rightarrow> s) = []
            then Inl (ValueError motivo_msg) else Inr v)
      else Inr v)"

text \<open>
  Payloads by their content. A reason is blank when the key is absent or its value is
  \<^verbatim>\<open>None\<close>, the empty string or white space only. An item of the applications is well
  formed when it is a dictionary whose values at the keys read are strings or \<^verbatim>\<open>None\<close>,
  and the applications are when the key is absent or holds \<^verbatim>\<open>None\<close> or a list of
  such items.
\<close>

definition blank_reason :: "json option \<Rightarrow> bool" where
  "blank_reason m =
     (case m of None \<Rightarrow> True | Some JNull \<Rightarrow> True | Some (JStr s) \<Rightarrow> strip s = []
      | _ \<Rightarrow> False)"

definition string_or_none :: "json \<Rightarrow> bool" where
  "string_or_none v = (case v of JNull \<Rightarrow> True | JStr s \<Rightarrow> True | _ \<Rightarrow> False)"

definition aplicacion_item :: "json \<Rightarrow> bool" where
  "aplicacion_item item =
     (case item of
        JObj kvs \<Rightarrow> list_all (\<lambda>k. string_or_none (dict_get kvs k))
                      [''org'', ''vaplorg'', ''fun'', ''vaplfun'', ''eco'', ''vapleco'']
      | _ \<Rightarrow> False)"

definition aplicaciones_payload :: "payload \<Rightarrow> bool" where
  "aplicaciones_payload payload =
     (case map_of payload ''aplicaciones'' of
        None \<Rightarrow> True
      | Some JNull \<Rightarrow> True
      | Some (JList items) \<Rightarrow> list_all aplicacion_item items
      | _ \<Rightarrow> False)"

text \<open>
  Sample payloads: a rejection without a reason, one with a reason, and one whose
  applications hold a string where a dictionary is expected. A directory stands where
  the area table is looked for.
\<close>

definition payload_without_reason :: payload where
  "payload_without_reason =
     [(''num_rcf'', JStr ''2025-0001''), (''resultado_conformidad'', JStr ''no_conforme''),
      (''motivo_no_conformidad'', JStr ''  '')]"

definition payload_with_reason :: payload where
  "payload_with_reason =
     [(''num_rcf'', JStr ''2025-0001''), (''area_code'', JStr ''1''),
      (''aplicaciones'', JList [JObj [(''org'', JStr '' 12 ''), (''vaplfun'', JStr ''920''),
                                       (''eco'', JNull)]]),
      (''resultado_conformidad'', JStr ''no_conforme''),
      (''motivo_no_conformidad'', JStr '' falta firma '')]"

definition payload_bad_item :: payload where
  "payload_bad_item =
     [(''aplicaciones'', JList [JStr ''12/920/22000'']),
      (''resultado_conformidad'', JStr ''no_conforme'')]"

definition fs_directory :: file_system where
  "fs_directory =
     (\<lambda>p. if p = ''images''
           then Unreadable (''[Errno 21] Is a directory: '' @ [CHR 0x27] @ ''images'' @ [CHR 0x27])
           else Missing)"

definition sample_environment :: environment where
  "sample_environment =
     \<lparr> isfile = (\<lambda>p. p = ''./logo_01.png''),
       py_repr = (\<lambda>v. ''[]''),
       generate_acta_pdf = (\<lambda>data. Inr (''%PDF '' @ motivo_no_conformidad data)) \<rparr>"

subsection \<open>Dictionaries and the parsed document\<close>

text \<open>
  A dictionary from strings to strings is an association list in insertion order:
  assigning to a key replaces its value in place, or adds the key at the end, as a Python
  dictionary does. The empty dictionary is the only one that is false in a condition.
\<close>

type_synonym dict = "(string \<times> string) list"

fun dict_set :: "dict \<Rightarrow> string \<Rightarrow> string \<Rightarrow> dict" where
  "dict_set [] k v = [(k, v)]"
| "dict_set ((k', v') # d) k v = (if k' = k then (k, v) # d else (k', v') # dict_set d k v)"

definition dict_of :: "(string \<times> string) list \<Rightarrow> dict" where
  "dict_of kvs = foldl (\<lambda>d (k, v). dict_set d k v) [] kvs"

definition dict_str_get :: "dict \<Rightarrow> string \<Rightarrow> string \<Rightarrow> string" where
  "dict_str_get d k dflt = (case map_of d k of None \<Rightarrow> dflt | Some v \<Rightarrow> v)"

text \<open>\<^verbatim>\<open>a or b\<close> for strings and for dictionaries.\<close>

definition str_or :: "string \<Rightarrow> string \<Rightarrow> string" where
  "str_or a b = (if a = [] then b else a)"

definition dict_or :: "dict \<Rightarrow> dict \<Rightarrow> dict" where
  "dict_or a b = (if a = [] then b else a)"

text \<open>
  An element of the parsed tree: its tag, its text (\<^verbatim>\<open>None\<close> when it has none) and its
  children in document order. The code reads nothing else of an element.
\<close>

datatype element = Element (etag: string) (etext: "string option") (echildren: "element list")

text \<open>
  The paths the code uses are made of two kinds of steps: \<^verbatim>\<open>tag\<close> (the children with
  that tag) and \<^verbatim>\<open>.//tag\<close> (the descendants with that tag, in document order, the
  element itself excluded). \<^verbatim>\<open>.//a/b\<close> is the step \<^verbatim>\<open>.//a\<close> followed by the step
  \<^verbatim>\<open>b\<close>.
\<close>

datatype step = Child string | Descendant string

fun descendants :: "element \<Rightarrow> element list" where
  "descendants (Element t x cs) = concat (map (\<lambda>c. c # descendants c) cs)"

definition select_step :: "step \<Rightarrow> element list \<Rightarrow> element list" where
  "select_step st result =
     (case st of
        Child t \<Rightarrow> concat (map (\<lambda>e. filter (\<lambda>c. etag c = t) (echildren e)) result)
      | Descendant t \<Rightarrow> concat (map (\<lambda>e. filter (\<lambda>c. etag c = t) (descendants e)) result))"

text \<open>\<^verbatim>\<open>findall\<close>, \<^verbatim>\<open>find\<close> and \<^verbatim>\<open>findtext\<close> of \<^verbatim>\<open>xml.etree.ElementTree\<close>.\<close>

definition et_findall :: "element \<Rightarrow> step list \<Rightarrow> element list" where
  "et_findall e path = foldl (\<lambda>result st. select_step st result) [e] path"

definition et_find :: "element \<Rightarrow> step list \<Rightarrow> element option" where
  "et_find e path = (case et_findall e path of [] \<Rightarrow> None | x # _ \<Rightarrow> Some x)"

definition et_findtext :: "element \<Rightarrow> step list \<Rightarrow> string \<Rightarrow> string" where
  "et_findtext e path dflt =
     (case et_find e path of
        None \<Rightarrow> dflt
      | Some x \<Rightarrow> (case etext x of None \<Rightarrow> [] | Some t \<Rightarrow> t))"

subsection \<open>Parties\<close>

definition na :: string where
  "na = ''N/A''"

text \<open>The key \<^verbatim>\<open>"Direccion"\<close>, whose eighth letter is the accented o, U+00F3.\<close>

definition k_Direccion :: string where
  "k_Direccion = ''Direcci'' @ [CHR 0xF3] @ ''n''"

text \<open>
  \<^verbatim>\<open>
  def _address_components(entity_root):
      result = {"Direccion": "N/A", "Poblacion": "N/A", "Cod.Postal": "N/A", "Provincia": "N/A"}
      if entity_root is None:
          return result
      addr_es = entity_root.find("AddressInSpain")
      if addr_es is not None:
          address = addr_es.findtext("Address", default="") or ""
          postcode = addr_es.findtext("PostCode", default="") or ""
          town = addr_es.findtext("Town", default="") or ""
          province = addr_es.findtext("Province", default="") or ""
          country = addr_es.findtext("CountryCode", default="") or ""
          address_fmt = ", ".join([p for p in [address, f"{postcode} {town}".strip(), province, country] if p])
          result.update({"Direccion": address_fmt or "N/A", "Poblacion": town or "N/A",
                         "Cod.Postal": postcode or "N/A", "Provincia": province or "N/A"})
          return result
      addr_ov = entity_root.find("OverseasAddress")
      if addr_ov is not None:
          line = addr_ov.findtext("Address", default="") or ""
          post = addr_ov.findtext("PostCodeAndTown", default="") or ""
          prov = addr_ov.findtext("Province", default="") or ""
          country = addr_ov.findtext("CountryCode", default="") or ""
          address_fmt = ", ".join([p for p in [line, post, prov, country] if p]) or "N/A"
          result["Direccion"] = address_fmt
      return result
  \<close>
\<close>

definition address_components :: "element option \<Rightarrow> dict" where
  "address_components entity_root =
     (let result = dict_of [(k_Direccion, na), (''Poblacion'', na), (''Cod.Postal'', na),
                            (''Provincia'', na)]
      in case entity_root of
           None \<Rightarrow> result
         | Some entity \<Rightarrow>
             (case et_find entity [Child ''AddressInSpain''] of
                Some addr_es \<Rightarrow>
                  (let address = str_or (et_findtext addr_es [Child ''Address''] []) [];
                       postcode = str_or (et_findtext addr_es [Child ''PostCode''] []) [];
                       town = str_or (et_findtext addr_es [Child ''Town''] []) [];
                       province = str_or (et_findtext addr_es [Child ''Province''] []) [];
                       country = str_or (et_findtext addr_es [Child ''CountryCode''] []) [];
                       address_fmt = join '', ''
                         (filter (\<lambda>p. p \<noteq> [])
                            [address, strip (postcode @ '' '' @ town), province, country])
                   in dict_set (dict_set (dict_set (dict_set result
                        k_Direccion (str_or address_fmt na))
                        ''Poblacion'' (str_or town na))
                        ''Cod.Postal'' (str_or postcode na))
                        ''Provincia'' (str_or province na))
              | None \<Rightarrow>
                  (case et_find entity [Child ''OverseasAddress''] of
                     Some addr_ov \<Rightarrow>
                       (let line = str_or (et_findtext addr_ov [Child ''Address''] []) [];
                            post = str_or (et_findtext addr_ov [Child ''PostCodeAndTown''] []) [];
                            prov = str_or (et_findtext addr_ov [Child ''Province''] []) [];
                            country = str_or (et_findtext addr_ov [Child ''CountryCode''] []) [];
                            address_fmt = str_or
                              (join '', '' (filter (\<lambda>p. p \<noteq> []) [line, post, prov, country])) na
                        in dict_set result k_Direccion address_fmt)
                   | None \<Rightarrow> result)))"

text \<open>
  \<^verbatim>\<open>
  def _extract_party_full(parent, party_tag):
      party = parent.find(f".//{party_tag}")
      if party is None:
          return {}
      tax_id = party.findtext(".//TaxIdentification/TaxIdentificationNumber", default="N/A") or "N/A"
      legal = party.find(".//LegalEntity")
      individual = party.find(".//Individual")
      if legal is not None:
          name = (legal.findtext("CorporateName", default="") or "").strip() or "N/A"
          addr_parts = _address_components(legal)
      elif individual is not None:
          name = ((individual.findtext("Name", default="") or "").strip() + " " +
                  (individual.findtext("FirstSurname", default="") or "").strip() + " " +
                  (individual.findtext("SecondSurname", default="") or "").strip()).strip() or "N/A"
          addr_parts = _address_components(individual)
      else:
          name = "N/A"
          addr_parts = {"Direccion": "N/A", "Poblacion": "N/A", "Cod.Postal": "N/A", "Provincia": "N/A"}
      out = {"Nombre": name, "NIF": tax_id, "Direccion": addr_parts.get("Direccion", "N/A")}
      if "Poblacion" in addr_parts:
          out["Poblacion"] = addr_parts["Poblacion"]
      if "Cod.Postal" in addr_parts:
          out["Cod.Postal"] = addr_parts["Cod.Postal"]
      if "Provincia" in addr_parts:
          out["Provincia"] = addr_parts["Provincia"]
      return out
  \<close>
\<close>

definition copy_if_present :: "dict \<Rightarrow> string \<Rightarrow> dict \<Rightarrow> dict" where
  "copy_if_present src k out = (case map_of src k of None \<Rightarrow> out | Some v \<Rightarrow> dict_set out k v)"

definition extract_party_full :: "element \<Rightarrow> string \<Rightarrow> dict" where
  "extract_party_full parent party_tag =
     (case et_find parent [Descendant party_tag] of
        None \<Rightarrow> []
      | Some party \<Rightarrow>
          (let tax_id = str_or (et_findtext party
                 [Descendant ''TaxIdentification'', Child ''TaxIdentificationNumber''] na) na;
               legal = et_find party [Descendant ''LegalEntity''];
               individual = et_find party [Descendant ''Individual''];
               (name, addr_parts) =
                 (case legal of
                    Some l \<Rightarrow>
                      (str_or (strip (str_or (et_findtext l [Child ''CorporateName''] []) [])) na,
                       address_components (Some l))
                  | None \<Rightarrow>
                      (case individual of
                         Some i \<Rightarrow>
                           (str_or (strip
                              (strip (str_or (et_findtext i [Child ''Name''] []) []) @ '' '' @
                               strip (str_or (et_findtext i [Child ''FirstSurname''] []) []) @ '' '' @
                               strip (str_or (et_findtext i [Child ''SecondSurname''] []) []))) na,
                            address_components (Some i))
                       | None \<Rightarrow>
                           (na, dict_of [(k_Direccion, na), (''Poblacion'', na),
                                         (''Cod.Postal'', na), (''Provincia'', na)])));
               out = dict_of [(''Nombre'', name), (''NIF'', tax_id),
                              (k_Direccion, dict_str_get addr_parts k_Direccion na)]
           in copy_if_present addr_parts ''Provincia''
                (copy_if_present addr_parts ''Cod.Postal''
                  (copy_if_present addr_parts ''Poblacion'' out))))"

subsection \<open>The signature and its certificate\<close>

text \<open>
  An instant is a number of microseconds since the epoch, in UTC. A
  \<^verbatim>\<open>datetime\<close> is naive (a wall-clock reading) or aware (a wall-clock reading and its
  offset from UTC), and lies between the first instant of year 1 and the last of year 9999.
\<close>

datatype datetime = Naive int | Aware int int

definition datetime_min :: int where
  "datetime_min = - 62135596800000000"

definition datetime_max :: int where
  "datetime_max = 253402300799999999"

text \<open>
  The validity window of a certificate comes from the library aware in UTC (the
  \<^verbatim>\<open>*_utc\<close> properties) or naive (the older properties); the code makes a naive one
  aware by \<^verbatim>\<open>replace(tzinfo=timezone.utc)\<close>, which reads the wall clock as UTC.
\<close>

definition utc_instant :: "datetime \<Rightarrow> int" where
  "utc_instant d = (case d of Naive wall \<Rightarrow> wall | Aware wall offset \<Rightarrow> wall - offset)"

text \<open>
  The signing time, once parsed:
  \<^verbatim>\<open>
  if signing_datetime.tzinfo is None:
      signing_datetime = signing_datetime.replace(tzinfo=timezone.utc)
  else:
      signing_datetime = signing_datetime.astimezone(timezone.utc)
  \<close>
  \<^verbatim>\<open>astimezone\<close> raises \<^verbatim>\<open>OverflowError\<close> when the instant in UTC is not a
  \<^verbatim>\<open>datetime\<close>.
\<close>

definition signing_utc :: "datetime \<Rightarrow> string + int" where
  "signing_utc d =
     (case d of
        Naive wall \<Rightarrow> Inr wall
      | Aware wall offset \<Rightarrow>
          if datetime_min \<le> wall - offset \<and> wall - offset \<le> datetime_max
          then Inr (wall - offset)
          else Inl ''date value out of range'')"

text \<open>
  What the code reads of a decoded certificate. A field is \<open>None\<close> when reading it
  raises (the subject has no such attribute, the certificate names no hash algorithm).
\<close>

record certificate =
  subject_common_name :: "string option"
  subject_serial_number :: "string option"
  issuer_common_name :: "string option"
  signature_hash_name :: "string option"
  not_valid_before :: datetime
  not_valid_after :: datetime

text \<open>
  The library functions of the extractor. \<open>load_certificate\<close> is
  \<^verbatim>\<open>x509.load_der_x509_certificate(base64.b64decode(text))\<close>, \<open>dateutil_parse\<close> is
  \<^verbatim>\<open>dateutil.parser.parse\<close>; both return the message of the exception on the left when
  they raise. The parser is called without a default date, so it fills the fields a text
  lacks from its own reading of the clock, \<^verbatim>\<open>datetime.now()\<close>: that reading is the
  first argument of \<open>dateutil_parse\<close>. \<open>strftime_ymd\<close> is \<^verbatim>\<open>strftime("%Y-%m-%d")\<close> of an instant, and
  \<open>reformat_date\<close> is
  \<^verbatim>\<open>datetime.strptime(s, "%Y-%m-%d").strftime("%d/%m/%Y")\<close>, \<open>None\<close> when it raises.
\<close>

record externals =
  load_certificate :: "string \<Rightarrow> string + certificate"
  dateutil_parse :: "int \<Rightarrow> string \<Rightarrow> string + datetime"
  strftime_ymd :: "int \<Rightarrow> string"
  reformat_date :: "string \<Rightarrow> string option"

text \<open>\<^verbatim>\<open>name.upper()\<close>; the names of hash algorithms are ASCII.\<close>

definition upper :: "string \<Rightarrow> string" where
  "upper s = map (\<lambda>c. if 97 \<le> (of_char c :: nat) \<and> (of_char c :: nat) \<le> 122
                        then char_of ((of_char c :: nat) - 32) else c) s"

definition ds_X509Certificate :: string where
  "ds_X509Certificate = ''{http://www.w3.org/2000/09/xmldsig#}X509Certificate''"

definition xades_SigningTime :: string where
  "xades_SigningTime = ''{http://uri.etsi.org/01903/v1.3.2#}SigningTime''"

text \<open>The texts of the outcomes; \<open>0xE1\<close>, \<open>0xF3\<close> and \<open>0xFA\<close> are the accented a, o and u.\<close>

definition estado_no_encontrado :: string where
  "estado_no_encontrado = ''No se encontr'' @ [CHR 0xF3] @ '' certificado''"

definition estado_firma_encontrada :: string where
  "estado_firma_encontrada = ''Firma encontrada''"

definition estado_error :: "string \<Rightarrow> string" where
  "estado_error detail = ''Error al extraer firma: '' @ detail"

definition certificado_aun_no_valido :: string where
  "certificado_aun_no_valido =
     ''Certificado a'' @ [CHR 0xFA] @ ''n no v'' @ [CHR 0xE1] @ ''lido (vigencia futura)''"

definition certificado_caducado :: string where
  "certificado_caducado = ''Certificado caducado''"

definition certificado_actualmente_valido :: string where
  "certificado_actualmente_valido = ''Certificado actualmente v'' @ [CHR 0xE1] @ ''lido''"

definition valido_en_firma :: string where
  "valido_en_firma = ''Certificado v'' @ [CHR 0xE1] @ ''lido en la fecha de la firma''"

definition no_valido_en_firma :: string where
  "no_valido_en_firma =
     ''Certificado NO era v'' @ [CHR 0xE1] @ ''lido en la fecha de la firma''"

definition no_se_pudo_validar :: "string \<Rightarrow> string" where
  "no_se_pudo_validar detail = ''No se pudo validar la fecha de firma: '' @ detail"

text \<open>
  \<^verbatim>\<open>
  now = datetime.now(timezone.utc)
  if now < valido_desde:
      estado_actual = "Certificado aun no valido (vigencia futura)"
  elif now > valido_hasta:
      estado_actual = "Certificado caducado"
  else:
      estado_actual = "Certificado actualmente valido"
  \<close>
\<close>

definition estado_actual :: "int \<Rightarrow> int \<Rightarrow> int \<Rightarrow> string" where
  "estado_actual now valido_desde valido_hasta =
     (if now < valido_desde then certificado_aun_no_valido
      else if now > valido_hasta then certificado_caducado
      else certificado_actualmente_valido)"

text \<open>
  \<^verbatim>\<open>
  try:
      signing_datetime = date_parser.parse(signing_time_str)
      if signing_datetime.tzinfo is None:
          signing_datetime = signing_datetime.replace(tzinfo=timezone.utc)
      else:
          signing_datetime = signing_datetime.astimezone(timezone.utc)
      if valido_desde <= signing_datetime <= valido_hasta:
          validez_en_firma = "Certificado valido en la fecha de la firma"
      else:
          validez_en_firma = "Certificado NO era valido en la fecha de la firma"
  except Exception as e:
      validez_en_firma = f"No se pudo validar la fecha de firma: {e}"
  \<close>
\<close>

definition validez_en_firma :: "externals \<Rightarrow> int \<Rightarrow> string \<Rightarrow> int \<Rightarrow> int \<Rightarrow> string" where
  "validez_en_firma ext today signing_time_str valido_desde valido_hasta =
     (case dateutil_parse ext today signing_time_str of
        Inl e \<Rightarrow> no_se_pudo_validar e
      | Inr parsed \<Rightarrow>
          (case signing_utc parsed of
             Inl e \<Rightarrow> no_se_pudo_validar e
           | Inr signing_datetime \<Rightarrow>
               if valido_desde \<le> signing_datetime \<and> signing_datetime \<le> valido_hasta
               then valido_en_firma else no_valido_en_firma))"

text \<open>
  \<^verbatim>\<open>_extract_signature_info_from_xml\<close>. The whole body is inside
  \<^verbatim>\<open>try: ... except Exception as e: return {"estado": f"Error al extraer firma: {str(e)}"}\<close>;
  the lookups of the certificate's attributes have handlers of their own, which give
  \<^verbatim>\<open>"N/A"\<close> or \<^verbatim>\<open>"No disponible"\<close>. The clock is read twice: \<open>now\<close> is
  \<^verbatim>\<open>datetime.now(timezone.utc)\<close>, and \<open>today\<close> is the reading the date parser takes.
\<close>

definition extract_signature_info_from_xml ::
  "externals \<Rightarrow> int \<Rightarrow> int \<Rightarrow> element \<Rightarrow> dict" where
  "extract_signature_info_from_xml ext now today xml_root =
     (let cert_base64 = et_findtext xml_root [Descendant ds_X509Certificate] []
      in if cert_base64 = [] then dict_of [(''estado'', estado_no_encontrado)]
         else (case load_certificate ext cert_base64 of
                 Inl e \<Rightarrow> dict_of [(''estado'', estado_error e)]
               | Inr cert \<Rightarrow>
                   (let cn = (case subject_common_name cert of Some v \<Rightarrow> v | None \<Rightarrow> na);
                        nif = (case subject_serial_number cert of Some v \<Rightarrow> v | None \<Rightarrow> na);
                        cert_issuer = (case issuer_common_name cert of
                                         Some v \<Rightarrow> v | None \<Rightarrow> ''No disponible'');
                        algorithm = (case signature_hash_name cert of
                                       Some v \<Rightarrow> upper v | None \<Rightarrow> na);
                        signing_time_str =
                          et_findtext xml_root [Descendant xades_SigningTime] ''No especificada'';
                        valido_desde = utc_instant (not_valid_before cert);
                        valido_hasta = utc_instant (not_valid_after cert)
                    in dict_of
                         [(''estado'', estado_firma_encontrada),
                          (''firmante'', cn),
                          (''nif'', nif),
                          (''algoritmo'', algorithm),
                          (''fecha_firma'', signing_time_str),
                          (''valido_desde'', strftime_ymd ext valido_desde),
                          (''valido_hasta'', strftime_ymd ext valido_hasta),
                          (''estado_certificado'', estado_actual now valido_desde valido_hasta),
                          (''validez_en_firma'',
                             validez_en_firma ext today signing_time_str valido_desde valido_hasta),
                          (''autoridad_certificadora'', cert_issuer)])))"

subsection \<open>The invoice extractor\<close>

text \<open>The two fixed tables. An unknown class gives \<^verbatim>\<open>"N/A"\<close>, an unknown means its code.\<close>

definition invoice_class_map :: dict where
  "invoice_class_map =
     [(''OO'', ''Original''), (''OR'', ''Original Rectificativa''),
      (''OC'', ''Original Recapitulativa''), (''CO'', ''Duplicado Original''),
      (''CR'', ''Duplicado Rectificativa''), (''CC'', ''Duplicado Recapitulativa'')]"

definition payment_means_map :: dict where
  "payment_means_map =
     [(''01'', ''Al contado''), (''02'', ''Recibo domiciliado''), (''03'', ''Recibo''),
      (''04'', ''Transferencia''), (''05'', ''Letra aceptada''),
      (''06'', ''Cr'' @ [CHR 0xE9] @ ''dito documentario''),
      (''07'', ''Contrato adjudicaci'' @ [CHR 0xF3] @ ''n''), (''08'', ''Letra de cambio''),
      (''09'', ''Pagar'' @ [CHR 0xE9] @ '' a la orden''),
      (''10'', ''Pagar'' @ [CHR 0xE9] @ '' no a la orden''), (''11'', ''Cheque''),
      (''12'', ''Reposici'' @ [CHR 0xF3] @ ''n''), (''13'', ''Especiales''),
      (''14'', ''Compensaci'' @ [CHR 0xF3] @ ''n''), (''15'', ''Giro postal''),
      (''16'', ''Cheque conformado''), (''17'', ''Cheque bancario''),
      (''18'', ''Pago contra reembolso''), (''19'', ''Pago mediante tarjeta'')]"

definition invoice_class_desc_of :: "string \<Rightarrow> string" where
  "invoice_class_desc_of invoice_class = dict_str_get invoice_class_map invoice_class na"

definition payment_means_of :: "string \<Rightarrow> string" where
  "payment_means_of payment_means_code =
     dict_str_get payment_means_map payment_means_code payment_means_code"

text \<open>
  The buyer and its administrative centres:
  \<^verbatim>\<open>
  receptor = _extract_party_full(xml_root, "BuyerParty") or {
      "Nombre": "N/A", "NIF": "N/A", "Direccion": "N/A"}
  buyer_party = xml_root.find(".//BuyerParty")
  destinos = []
  if buyer_party is not None:
      for admin in buyer_party.findall(".//AdministrativeCentres/AdministrativeCentre"):
          code = admin.findtext("CentreCode", default="N/A")
          desc = admin.findtext("Name", default="N/A")
          destinos.append(f"{code} - {desc}")
  receptor["OfiCont"] = destinos[0] if len(destinos) > 0 else "N/A"
  receptor["OrgGest"] = destinos[1] if len(destinos) > 1 else "N/A"
  receptor["Und.Tram"] = destinos[2] if len(destinos) > 2 else "N/A"
  receptor["UndTram"] = receptor["Und.Tram"]
  \<close>
\<close>

definition destinos_of :: "element \<Rightarrow> string list" where
  "destinos_of xml_root =
     (case et_find xml_root [Descendant ''BuyerParty''] of
        None \<Rightarrow> []
      | Some buyer_party \<Rightarrow>
          map (\<lambda>admin. et_findtext admin [Child ''CentreCode''] na @ '' - '' @
                        et_findtext admin [Child ''Name''] na)
            (et_findall buyer_party
               [Descendant ''AdministrativeCentres'', Child ''AdministrativeCentre'']))"

definition nth_or :: "string list \<Rightarrow> nat \<Rightarrow> string \<Rightarrow> string" where
  "nth_or xs i dflt = (if length xs > i then xs ! i else dflt)"

definition emitter_of :: "element \<Rightarrow> dict" where
  "emitter_of xml_root =
     dict_or (extract_party_full xml_root ''SellerParty'')
       (dict_of [(''Nombre'', na), (''NIF'', na), (k_Direccion, na), (''Poblacion'', na),
                 (''Cod.Postal'', na), (''Provincia'', na)])"

definition receptor_of :: "element \<Rightarrow> dict" where
  "receptor_of xml_root =
     (let receptor = dict_or (extract_party_full xml_root ''BuyerParty'')
                       (dict_of [(''Nombre'', na), (''NIF'', na), (k_Direccion, na)]);
          destinos = destinos_of xml_root;
          receptor = dict_set receptor ''OfiCont'' (nth_or destinos 0 na);
          receptor = dict_set receptor ''OrgGest'' (nth_or destinos 1 na);
          receptor = dict_set receptor ''Und.Tram'' (nth_or destinos 2 na)
      in dict_set receptor ''UndTram'' (dict_str_get receptor ''Und.Tram'' na))"

text \<open>
  The header. \<^verbatim>\<open>try: issue_date = reformat(raw_date) except: issue_date = raw_date\<close>, and
  for the invoicing period
  \<^verbatim>\<open>
  def _fmt_date(d):
      try:
          return datetime.strptime(d, "%Y-%m-%d").strftime("%d/%m/%Y")
      except Exception:
          return d or "N/A"
  \<close>
\<close>

definition fmt_date :: "externals \<Rightarrow> string \<Rightarrow> string" where
  "fmt_date ext d = (case reformat_date ext d of Some r \<Rightarrow> r | None \<Rightarrow> str_or d na)"

definition invoicing_period_of :: "externals \<Rightarrow> element \<Rightarrow> dict" where
  "invoicing_period_of ext invoice_element =
     (case et_find invoice_element [Child ''InvoiceIssueData''] of
        None \<Rightarrow> []
      | Some issue_data \<Rightarrow>
          (case et_find issue_data [Child ''InvoicingPeriod''] of
             None \<Rightarrow> []
           | Some invp \<Rightarrow>
               (let start = str_or (et_findtext invp [Child ''StartDate''] []) [];
                    end_date = str_or (et_findtext invp [Child ''EndDate''] []) []
                in dict_of [(''Inicio'', fmt_date ext start), (''Fin'', fmt_date ext end_date)])))"

record header =
  invoice_number :: string
  issue_date :: string
  invoice_type :: string
  invoice_currency :: string
  invoice_class_desc :: string
  invoicing_period :: dict

definition header_of :: "externals \<Rightarrow> element option \<Rightarrow> header" where
  "header_of ext invoice_element =
     (case invoice_element of
        Some invoice \<Rightarrow>
          (let number = et_findtext invoice [Descendant ''InvoiceHeader'', Child ''InvoiceNumber''] na;
               series = str_or
                 (et_findtext invoice [Descendant ''InvoiceHeader'', Child ''InvoiceSeriesCode''] []) [];
               doc_type =
                 et_findtext invoice [Descendant ''InvoiceHeader'', Child ''InvoiceDocumentType''] na;
               currency =
                 et_findtext invoice [Descendant ''InvoiceIssueData'', Child ''InvoiceCurrencyCode''] na;
               raw_date = et_findtext invoice [Descendant ''InvoiceIssueData'', Child ''IssueDate''] na;
               invoice_class =
                 et_findtext invoice [Descendant ''InvoiceHeader'', Child ''InvoiceClass''] na
           in \<lparr>invoice_number = series @ number,
               issue_date = (case reformat_date ext raw_date of Some r \<Rightarrow> r | None \<Rightarrow> raw_date),
               invoice_type = doc_type,
               invoice_currency = currency,
               invoice_class_desc = invoice_class_desc_of invoice_class,
               invoicing_period = invoicing_period_of ext invoice\<rparr>)
      | None \<Rightarrow>
          \<lparr>invoice_number = na, issue_date = na, invoice_type = na, invoice_currency = na,
           invoice_class_desc = na, invoicing_period = []\<rparr>)"

text \<open>
  \<^verbatim>\<open>
  legal_references = [ref.text.strip()
                      for ref in xml_root.findall(".//LegalLiterals/LegalReference")
                      if ref.text and ref.text.strip() != ""]
  \<close>
\<close>

definition legal_references_of :: "element \<Rightarrow> string list" where
  "legal_references_of xml_root =
     concat (map (\<lambda>r. case etext r of
                         None \<Rightarrow> []
                       | Some t \<Rightarrow> if t \<noteq> [] \<and> strip t \<noteq> [] then [strip t] else [])
               (et_findall xml_root [Descendant ''LegalLiterals'', Child ''LegalReference'']))"

text \<open>The totals: a dictionary that stays empty when the invoice has no \<^verbatim>\<open>InvoiceTotals\<close>.\<close>

definition totals_of :: "element option \<Rightarrow> dict" where
  "totals_of invoice_element =
     (case invoice_element of
        None \<Rightarrow> []
      | Some invoice \<Rightarrow>
          (case et_find invoice [Descendant ''InvoiceTotals''] of
             None \<Rightarrow> []
           | Some t \<Rightarrow>
               dict_of
                 [(''TotalGrossAmount'', et_findtext t [Child ''TotalGrossAmount''] ''0.00''),
                  (''TotalGeneralDiscounts'', et_findtext t [Child ''TotalGeneralDiscounts''] ''0.00''),
                  (''TotalGrossAmountBeforeTaxes'',
                     et_findtext t [Child ''TotalGrossAmountBeforeTaxes''] na),
                  (''TotalTaxOutputs'', et_findtext t [Child ''TotalTaxOutputs''] na),
                  (''TotalTaxesWithheld'', et_findtext t [Child ''TotalTaxesWithheld''] na),
                  (''InvoiceTotal'', et_findtext t [Child ''InvoiceTotal''] na),
                  (''TotalOutstandingAmount'', et_findtext t [Child ''TotalOutstandingAmount''] na),
                  (''TotalExecutableAmount'', et_findtext t [Child ''TotalExecutableAmount''] na)]))"

text \<open>\<^verbatim>\<open>(e.findtext(path, default=d) or d).strip()\<close>, the lookup of the tax and payment blocks.\<close>

definition text_or :: "element \<Rightarrow> step list \<Rightarrow> string \<Rightarrow> string" where
  "text_or e path d = strip (str_or (et_findtext e path d) d)"

definition taxes_withheld_details_of :: "element option \<Rightarrow> dict list" where
  "taxes_withheld_details_of invoice_element =
     (case invoice_element of
        None \<Rightarrow> []
      | Some invoice \<Rightarrow>
          (case et_find invoice [Descendant ''TaxesWithheld''] of
             None \<Rightarrow> []
           | Some taxes_withheld \<Rightarrow>
               map (\<lambda>tax. dict_of
                      [(''code'', text_or tax [Child ''TaxTypeCode''] []),
                       (''rate'', text_or tax [Child ''TaxRate''] []),
                       (''amount'', text_or tax [Descendant ''TaxAmount'', Child ''TotalAmount''] []),
                       (''taxable_base'',
                          text_or tax [Descendant ''TaxableBase'', Child ''TotalAmount''] [])])
                 (et_findall taxes_withheld [Child ''Tax''])))"

definition taxes_output_details_of :: "element option \<Rightarrow> dict list" where
  "taxes_output_details_of invoice_element =
     (case invoice_element of
        None \<Rightarrow> []
      | Some invoice \<Rightarrow>
          (case et_find invoice [Descendant ''TaxesOutputs''] of
             None \<Rightarrow> []
           | Some taxes_outputs \<Rightarrow>
               map (\<lambda>tax. dict_of
                      [(''type_code'', text_or tax [Child ''TaxTypeCode''] ''01''),
                       (''rate'', text_or tax [Child ''TaxRate''] ''21''),
                       (''base'', text_or tax [Descendant ''TaxableBase'', Child ''TotalAmount''] ''0''),
                       (''amount'', text_or tax [Descendant ''TaxAmount'', Child ''TotalAmount''] ''0''),
                       (''surcharge'', text_or tax [Child ''EquivalenceSurcharge''] ''0''),
                       (''surcharge_amount'',
                          text_or tax
                            [Descendant ''EquivalenceSurchargeAmount'', Child ''TotalAmount''] ''0'')])
                 (et_findall taxes_outputs [Child ''Tax''])))"

text \<open>
  The payment terms:
  \<^verbatim>\<open>
  payment_details = {}
  if invoice_element is not None:
      payment = invoice_element.find(".//PaymentDetails/Installment")
      if payment is not None:
          due_date_raw = (payment.findtext("InstallmentDueDate", default="") or "").strip()
          try:
              due_date = datetime.strptime(due_date_raw, "%Y-%m-%d").strftime("%d/%m/%Y") if due_date_raw else ""
          except Exception:
              due_date = due_date_raw
          payment_means_code = (payment.findtext("PaymentMeans", default="") or "").strip()
          payment_means = payment_means_map.get(payment_means_code, payment_means_code)
          iban = (payment.findtext(".//AccountToBeCredited/IBAN", default="") or "").strip()
          payment_details = {"due_date": due_date,
              "amount": (payment.findtext("InstallmentAmount", default="") or "").strip(),
              "means": payment_means, "means_code": payment_means_code, "iban": iban}
  \<close>
\<close>

definition payment_details_of :: "externals \<Rightarrow> element option \<Rightarrow> dict" where
  "payment_details_of ext invoice_element =
     (case invoice_element of
        None \<Rightarrow> []
      | Some invoice \<Rightarrow>
          (case et_find invoice [Descendant ''PaymentDetails'', Child ''Installment''] of
             None \<Rightarrow> []
           | Some payment \<Rightarrow>
               (let due_date_raw = text_or payment [Child ''InstallmentDueDate''] [];
                    due_date = (if due_date_raw \<noteq> []
                                then (case reformat_date ext due_date_raw of
                                        Some r \<Rightarrow> r | None \<Rightarrow> due_date_raw)
                                else []);
                    payment_means_code = text_or payment [Child ''PaymentMeans''] [];
                    payment_means = payment_means_of payment_means_code;
                    iban = text_or payment [Descendant ''AccountToBeCredited'', Child ''IBAN''] []
                in dict_of
                     [(''due_date'', due_date),
                      (''amount'', text_or payment [Child ''InstallmentAmount''] []),
                      (''means'', payment_means),
                      (''means_code'', payment_means_code),
                      (''iban'', iban)])))"

text \<open>
  The lines. U+2013, the dash between the two dates of a line's period, is not an 8-bit
  character; it stands here as the three bytes of its UTF-8 form.
\<close>

definition en_dash :: string where
  "en_dash = [CHR 0xE2, CHR 0x80, CHR 0x93]"

text \<open>
  \<^verbatim>\<open>
  lp = line.find("LineItemPeriod")
  periodo_linea = ""
  if lp is not None:
      lp_start = (lp.findtext("StartDate", default="") or "")
      lp_end = (lp.findtext("EndDate", default="") or "")
      try:
          lp_start_f = datetime.strptime(lp_start, "%Y-%m-%d").strftime("%d/%m/%Y") if lp_start else ""
          lp_end_f = datetime.strptime(lp_end, "%Y-%m-%d").strftime("%d/%m/%Y") if lp_end else ""
          if lp_start_f or lp_end_f:
              periodo_linea = f"{lp_start_f}-{lp_end_f}"
      except Exception:
          periodo_linea = f"{lp_start}-{lp_end}"
  \<close>
  (with U+2013 where this text has a hyphen).
\<close>

definition periodo_linea_of :: "externals \<Rightarrow> element \<Rightarrow> string" where
  "periodo_linea_of ext line =
     (case et_find line [Child ''LineItemPeriod''] of
        None \<Rightarrow> []
      | Some lp \<Rightarrow>
          (let lp_start = str_or (et_findtext lp [Child ''StartDate''] []) [];
               lp_end = str_or (et_findtext lp [Child ''EndDate''] []) [];
               lp_start_f = (if lp_start \<noteq> [] then reformat_date ext lp_start else Some []);
               lp_end_f = (if lp_end \<noteq> [] then reformat_date ext lp_end else Some [])
           in case lp_start_f of
                None \<Rightarrow> lp_start @ en_dash @ lp_end
              | Some s \<Rightarrow>
                  (case lp_end_f of
                     None \<Rightarrow> lp_start @ en_dash @ lp_end
                   | Some e \<Rightarrow> if s \<noteq> [] \<or> e \<noteq> [] then s @ en_dash @ e else [])))"

record concepto =
  Descripcion :: string
  Cantidad :: string
  Precio_Unitario :: string
  Importe :: string
  Observaciones :: string
  Periodo :: string
  Cargos :: "dict list"
  Descuentos :: "dict list"

definition concepto_of :: "externals \<Rightarrow> element \<Rightarrow> concepto" where
  "concepto_of ext line =
     \<lparr>Descripcion = et_findtext line [Child ''ItemDescription''] na,
      Cantidad = et_findtext line [Child ''Quantity''] na,
      Precio_Unitario = et_findtext line [Child ''UnitPriceWithoutTax''] na,
      Importe = et_findtext line [Child ''TotalCost''] na,
      Observaciones = strip (str_or (et_findtext line [Child ''AdditionalLineItemInformation''] []) []),
      Periodo = periodo_linea_of ext line,
      Cargos = map (\<lambda>c. dict_of
                      [(''reason'', strip (str_or (et_findtext c [Child ''ChargeReason''] []) ''Cargo'')),
                       (''amount'', text_or c [Child ''ChargeAmount''] ''0'')])
                 (et_findall line [Descendant ''Charges'', Child ''Charge'']),
      Descuentos = map (\<lambda>d. dict_of
                      [(''reason'', strip (str_or (et_findtext d [Child ''DiscountReason''] []) ''Dcto.'')),
                       (''amount'', text_or d [Child ''DiscountAmount''] ''0'')])
                 (et_findall line [Descendant ''Discounts'', Child ''Discount''])\<rparr>"

text \<open>
  The record \<^verbatim>\<open>_extract_invoice_data_from_xml\<close> returns, one field for each key of its
  dictionary \<^verbatim>\<open>data\<close>, in the order of the source.
\<close>

record invoice_data =
  Numero_de_Factura :: string
  Fecha :: string
  Tipo_Dcomento :: string
  Moneda :: string
  Clase_Factura :: string
  PeriodoFactura :: dict
  Total_Factura :: string
  Totales :: dict
  Emisor :: dict
  Receptor :: dict
  Tercero :: dict
  Conceptos :: "concepto list"
  Firma :: dict
  InfoAdicional :: string
  ReferenciasLegales :: "string list"
  TaxesWithheldDetails :: "dict list"
  TaxesOutputDetails :: "dict list"
  PaymentDetails :: dict

definition extract_invoice_data_from_xml ::
  "externals \<Rightarrow> int \<Rightarrow> int \<Rightarrow> element \<Rightarrow> invoice_data" where
  "extract_invoice_data_from_xml ext now today xml_root =
     (let emitter = emitter_of xml_root;
          receptor = receptor_of xml_root;
          tercero = extract_party_full xml_root ''ThirdParty'';
          invoice_element = et_find xml_root [Descendant ''Invoices'', Child ''Invoice''];
          hdr = header_of ext invoice_element;
          invoice_additional_info = strip (str_or
            (et_findtext xml_root
               [Descendant ''AdditionalData'', Child ''InvoiceAdditionalInformation''] []) []);
          legal_references = legal_references_of xml_root;
          totals = totals_of invoice_element;
          taxes_withheld_details = taxes_withheld_details_of invoice_element;
          taxes_output_details = taxes_output_details_of invoice_element;
          payment_details = payment_details_of ext invoice_element;
          items = (case invoice_element of
                     None \<Rightarrow> []
                   | Some invoice \<Rightarrow>
                       map (concepto_of ext)
                         (et_findall invoice [Descendant ''Items'', Child ''InvoiceLine'']))
      in \<lparr>Numero_de_Factura = invoice_number hdr,
          Fecha = issue_date hdr,
          Tipo_Dcomento = invoice_type hdr,
          Moneda = invoice_currency hdr,
          Clase_Factura = invoice_class_desc hdr,
          PeriodoFactura = invoicing_period hdr,
          Total_Factura = dict_str_get totals ''InvoiceTotal'' na,
          Totales = totals,
          Emisor = emitter,
          Receptor = receptor,
          Tercero = tercero,
          Conceptos = items,
          Firma = extract_signature_info_from_xml ext now today xml_root,
          InfoAdicional = invoice_additional_info,
          ReferenciasLegales = legal_references,
          TaxesWithheldDetails = taxes_withheld_details,
          TaxesOutputDetails = taxes_output_details,
          PaymentDetails = payment_details\<rparr>)"

subsection \<open>A sample environment and sample documents\<close>

text \<open>
  Concrete arguments for the closed theorems below: a certificate valid from instant
  \<open>1000\<close> to instant \<open>2000\<close>, a decoder that knows one certificate text, a date parser
  that knows a full timestamp, a time of day (which it completes with the day it reads from
  the clock, here instant \<open>today\<close>) and a timestamp one hour before the end of year
  9999 in a zone one hour behind UTC, and four documents.
\<close>

definition sample_certificate :: certificate where
  "sample_certificate =
     \<lparr>subject_common_name = Some ''ACME SL'',
      subject_serial_number = None,
      issuer_common_name = Some ''AC Raiz'',
      signature_hash_name = Some ''sha256'',
      not_valid_before = Naive 1000,
      not_valid_after = Aware 2000 0\<rparr>"

definition sample_externals :: externals where
  "sample_externals =
     \<lparr>load_certificate = (\<lambda>s. if s = ''Q0VSVA=='' then Inr sample_certificate
                                else Inl ''Incorrect padding''),
      dateutil_parse =
        (\<lambda>today s. if s = ''1970-01-01T00:00:00.001500Z'' then Inr (Aware 1500 0)
                   else if s = ''00:00:00.000750'' then Inr (Naive (today + 750))
                   else if s = ''9999-12-31T23:59:59.999999-01:00''
                   then Inr (Aware datetime_max (- 3600000000))
                   else Inl (''Unknown string format: '' @ s)),
      strftime_ymd = (\<lambda>t. ''1970-01-01''),
      reformat_date = (\<lambda>s. if s = ''2024-01-31'' then Some ''31/01/2024'' else None)\<rparr>"

definition sample_signature :: "string \<Rightarrow> string \<Rightarrow> element" where
  "sample_signature cert_text signing_time =
     Element ''{http://www.w3.org/2000/09/xmldsig#}Signature'' None
       [Element ''{http://www.w3.org/2000/09/xmldsig#}KeyInfo'' None
          [Element ''{http://www.w3.org/2000/09/xmldsig#}X509Data'' None
             [Element ds_X509Certificate (Some cert_text) []]],
        Element ''{http://www.w3.org/2000/09/xmldsig#}Object'' None
          [Element xades_SigningTime (Some signing_time) []]]"

definition sample_spain :: element where
  "sample_spain =
     Element ''AddressInSpain'' None
       [Element ''Address'' (Some ''Calle Uno 1'') [],
        Element ''PostCode'' (Some ''41001'') [],
        Element ''Town'' (Some ''Sevilla'') []]"

definition sample_legal :: element where
  "sample_legal =
     Element ''LegalEntity'' None [Element ''CorporateName'' (Some '' ACME SL '') [], sample_spain]"

definition sample_seller :: element where
  "sample_seller =
     Element ''SellerParty'' None
       [Element ''TaxIdentification'' None
          [Element ''TaxIdentificationNumber'' (Some ''A12345678'') []],
        sample_legal]"

definition sample_installment :: element where
  "sample_installment =
     Element ''Installment'' None
       [Element ''InstallmentDueDate'' (Some ''2024-01-31'') [],
        Element ''PaymentMeans'' (Some '' 99 '') []]"

definition sample_invoice_element :: element where
  "sample_invoice_element =
     Element ''Invoice'' None
       [Element ''InvoiceHeader'' None
          [Element ''InvoiceNumber'' (Some ''5'') [],
           Element ''InvoiceSeriesCode'' (Some ''A'') [],
           Element ''InvoiceClass'' (Some ''XX'') []],
        Element ''InvoiceIssueData'' None
          [Element ''IssueDate'' (Some ''2024-01-31'') []],
        Element ''PaymentDetails'' None [sample_installment]]"

definition sample_invoice :: element where
  "sample_invoice =
     Element ''Facturae'' None
       [Element ''Parties'' None [sample_seller],
        Element ''Invoices'' None [sample_invoice_element],
        sample_signature ''Q0VSVA=='' ''ayer'']"

definition sample_time_of_day :: element where
  "sample_time_of_day =
     Element ''Facturae'' None [sample_signature ''Q0VSVA=='' ''00:00:00.000750'']"

definition empty_invoice :: element where
  "empty_invoice = Element ''Facturae'' None []"

definition sample_overseas :: element where
  "sample_overseas = Element ''OverseasAddress'' None []"

definition sample_person :: element where
  "sample_person = Element ''Individual'' None [sample_overseas]"

definition sample_person_seller :: element where
  "sample_person_seller = Element ''SellerParty'' None [sample_person]"

definition sample_buyer :: element where
  "sample_buyer =
     Element ''BuyerParty'' None
       [Element ''AdministrativeCentres'' None
          [Element ''AdministrativeCentre'' None
             [Element ''CentreCode'' (Some ''L01'') []]]]"

definition sample_individual :: element where
  "sample_individual =
     Element ''Facturae'' None [Element ''Parties'' None [sample_person_seller, sample_buyer]]"

subsection \<open>Names for stating the properties of a party record\<close>

text \<open>
  The six keys of a complete party record, and the element the name and the address of a
  party are read from: its \<^verbatim>\<open>LegalEntity\<close> when it has one, else its
  \<^verbatim>\<open>Individual\<close>.
\<close>

definition party_keys :: "string list" where
  "party_keys = [''Nombre'', ''NIF'', k_Direccion, ''Poblacion'', ''Cod.Postal'', ''Provincia'']"

definition party_entity :: "element \<Rightarrow> element option" where
  "party_entity party =
     (case et_find party [Descendant ''LegalEntity''] of
        Some l \<Rightarrow> Some l
      | None \<Rightarrow> et_find party [Descendant ''Individual''])"

subsection \<open>Floats: parsing and formatting to two decimals\<close>

text \<open>
  A Python \<^verbatim>\<open>float\<close> is a binary64 number: not-a-number, an infinity with its sign, or a
  sign, a significand \<open>m\<close> and an exponent \<open>e\<close>, of magnitude \<open>m * 2 ^ e\<close>.
\<close>

datatype pyfloat = NaN | Infinity bool | Finite bool nat int

text \<open>
  A magnitude to be rounded is a fraction \<open>n / d\<close> of two naturals, \<open>d\<close> positive.
  \<open>bit_length\<close> is the number of binary digits, \<open>frac_ge_pow2 n d k\<close> is
  \<open>2 ^ k \<le> n / d\<close>, and \<open>floor_log2 n d\<close> is the largest \<open>k\<close> of that kind, for a
  positive fraction.
\<close>

fun bit_length :: "nat \<Rightarrow> nat" where
  "bit_length n = (if n = 0 then 0 else Suc (bit_length (n div 2)))"

declare bit_length.simps [simp del]

definition frac_ge_pow2 :: "nat \<Rightarrow> nat \<Rightarrow> int \<Rightarrow> bool" where
  "frac_ge_pow2 n d k = (if 0 \<le> k then d * 2 ^ nat k \<le> n else d \<le> n * 2 ^ nat (- k))"

definition floor_log2 :: "nat \<Rightarrow> nat \<Rightarrow> int" where
  "floor_log2 n d =
     (let k = int (bit_length n) - int (bit_length d)
      in if frac_ge_pow2 n d k then k else k - 1)"

text \<open>The integer nearest to \<open>n / d\<close>, a tie to the even one.\<close>

definition round_half_even :: "nat \<Rightarrow> nat \<Rightarrow> nat" where
  "round_half_even n d =
     (let f = n div d; r = n mod d
      in if 2 * r < d then f else if d < 2 * r then f + 1 else if even f then f else f + 1)"

text \<open>
  The binary64 number nearest to \<open>n / d\<close> (a tie to the even significand): a significand
  of 53 bits, the exponent of its last bit not below \<open>-1074\<close>. The result is the
  significand and the exponent; \<open>None\<close> when the rounded value reaches \<open>2 ^ 1024\<close>,
  which gives an infinity.
\<close>

definition binary64 :: "nat \<Rightarrow> nat \<Rightarrow> (nat \<times> int) option" where
  "binary64 n d =
     (if n = 0 then Some (0, 0)
      else (let e = max (floor_log2 n d - 52) (- 1074);
                m = (if 0 \<le> e then round_half_even n (d * 2 ^ nat e)
                     else round_half_even (n * 2 ^ nat (- e)) d)
            in if 0 \<le> e \<and> 2 ^ 1024 \<le> m * 2 ^ nat e then None else Some (m, e)))"

text \<open>\<^verbatim>\<open>s.lower()\<close> on ASCII letters.\<close>

definition lower :: "string \<Rightarrow> string" where
  "lower s = map (\<lambda>c. if 65 \<le> (of_char c :: nat) \<and> (of_char c :: nat) \<le> 90
                        then char_of ((of_char c :: nat) + 32) else c) s"

text \<open>
  A decimal literal: digits, an optional point and digits (at least one digit in all), and
  an optional exponent \<^verbatim>\<open>e\<close> or \<^verbatim>\<open>E\<close> with an optional sign and at least one digit.
  The result is the digits before the point, the digits after it and the exponent.
\<close>

definition parse_exponent :: "string \<Rightarrow> int option" where
  "parse_exponent r =
     (case r of
        [] \<Rightarrow> Some 0
      | c # t \<Rightarrow>
          if c = CHR ''e'' \<or> c = CHR ''E''
          then (let (eneg, ed) = split_sign t
                in if ed \<noteq> [] \<and> list_all is_decimal_char ed
                   then Some (if eneg then - int (digits_val ed) else int (digits_val ed))
                   else None)
          else None)"

definition parse_decimal :: "string \<Rightarrow> (string \<times> string \<times> int) option" where
  "parse_decimal s =
     (let ip = takeWhile is_decimal_char s;
          r1 = dropWhile is_decimal_char s;
          (fp, r2) = (case r1 of
                        [] \<Rightarrow> ([], r1)
                      | c # t \<Rightarrow>
                          if c = CHR ''.''
                          then (takeWhile is_decimal_char t, dropWhile is_decimal_char t)
                          else ([], r1))
      in if ip = [] \<and> fp = [] then None
         else (case parse_exponent r2 of
                 None \<Rightarrow> None
               | Some ex \<Rightarrow> Some (ip, fp, ex)))"

text \<open>The value of a decimal literal, as a fraction.\<close>

definition decimal_value :: "string \<Rightarrow> string \<Rightarrow> int \<Rightarrow> nat \<times> nat" where
  "decimal_value ip fp ex =
     (let m = digits_val (ip @ fp); e = ex - int (length fp)
      in if 0 \<le> e then (m * 10 ^ nat e, 1) else (m, 10 ^ nat (- e)))"

text \<open>
  \<^verbatim>\<open>float(s)\<close> for a string: white space around, single underscores between digits, an
  optional sign, then \<^verbatim>\<open>inf\<close>, \<^verbatim>\<open>infinity\<close> or \<^verbatim>\<open>nan\<close> in any case, or a decimal
  literal, which is rounded to binary64. \<open>None\<close> stands for \<^verbatim>\<open>ValueError\<close>.
\<close>

definition py_float :: "string \<Rightarrow> pyfloat option" where
  "py_float s =
     (case strip_underscores (strip s) of
        None \<Rightarrow> None
      | Some t \<Rightarrow>
          (let (neg, body) = split_sign t
           in if lower body = ''inf'' \<or> lower body = ''infinity'' then Some (Infinity neg)
              else if lower body = ''nan'' then Some NaN
              else (case parse_decimal body of
                      None \<Rightarrow> None
                    | Some (ip, fp, ex) \<Rightarrow>
                        (let (n, d) = decimal_value ip fp ex
                         in case binary64 n d of
                              None \<Rightarrow> Some (Infinity neg)
                            | Some (m, e) \<Rightarrow> Some (Finite neg m e)))))"

text \<open>
  \<^verbatim>\<open>f"{val:.2f}"\<close>: the sign, then the magnitude rounded to hundredths (a tie to the
  even hundredth), with two digits after the point.
\<close>

definition hundredths :: "nat \<Rightarrow> int \<Rightarrow> nat" where
  "hundredths m e =
     (if 0 \<le> e then m * 2 ^ nat e * 100 else round_half_even (m * 100) (2 ^ nat (- e)))"

definition format_hundredths :: "bool \<Rightarrow> nat \<Rightarrow> string" where
  "format_hundredths neg h =
     (if neg then ''-'' else []) @ show_nat (h div 100) @ ''.''
       @ [digit_char (h mod 100 div 10), digit_char (h mod 10)]"

definition format_2f :: "pyfloat \<Rightarrow> string" where
  "format_2f val =
     (case val of
        NaN \<Rightarrow> ''nan''
      | Infinity neg \<Rightarrow> (if neg then ''-inf'' else ''inf'')
      | Finite neg m e \<Rightarrow> format_hundredths neg (hundredths m e))"

text \<open>
  \<^verbatim>\<open>
  def _fmt_rate(x: str) -> str:
      try:
          val = float(str(x).replace(",", "."))
          s = f"{val:.2f}"
          return s.rstrip("0").rstrip(".")
      except Exception:
          return (x or "").strip()
  \<close>
\<close>

definition fmt_rate :: "string \<Rightarrow> string" where
  "fmt_rate x =
     (case py_float (replace_char (CHR '','') (CHR ''.'') x) of
        Some val \<Rightarrow> rstrip_chars ''.'' (rstrip_chars ''0'' (format_2f val))
      | None \<Rightarrow> strip (str_or x []))"

section \<open>Properties\<close>

subsection \<open>The container unwrapper\<close>

lemma occurs_at_Cons_Suc: "occurs_at (x # xs) sub (Suc i) = occurs_at xs sub i"
  by (simp add: occurs_at_def)

lemma occurs_at_Cons_0: "occurs_at (x # xs) sub 0 = (take (length sub) (x # xs) = sub)"
  by (simp add: occurs_at_def)

lemma bytes_find_ge: "bytes_find xs sub \<ge> -1"
  by (induction xs) (auto simp: Let_def)

lemma bytes_find_none:
  "bytes_find xs sub = -1 \<longleftrightarrow> (\<forall>i. \<not> occurs_at xs sub i)"
proof (induction xs)
  case Nil
  then show ?case by (auto simp: occurs_at_def)
next
  case (Cons x xs)
  have step: "occurs_at (x # xs) sub (Suc i) = occurs_at xs sub i" for i
    by (simp add: occurs_at_def)
  have zero: "occurs_at (x # xs) sub 0 = (take (length sub) (x # xs) = sub)"
    by (simp add: occurs_at_def)
  show ?case
  proof (cases "take (length sub) (x # xs) = sub")
    case True
    then show ?thesis using zero by auto
  next
    case False
    have "(\<forall>i. \<not> occurs_at (x # xs) sub i) = (\<forall>i. \<not> occurs_at xs sub i)"
    proof
      assume "\<forall>i. \<not> occurs_at (x # xs) sub i"
      then show "\<forall>i. \<not> occurs_at xs sub i" using step by blast
    next
      assume a: "\<forall>i. \<not> occurs_at xs sub i"
      show "\<forall>i. \<not> occurs_at (x # xs) sub i"
      proof
        fix i show "\<not> occurs_at (x # xs) sub i"
          using a False zero step by (cases i) auto
      qed
    qed
    then show ?thesis using False Cons.IH bytes_find_ge[of xs sub]
      by (auto simp: Let_def)
  qed
qed

lemma bytes_find_first:
  "bytes_find xs sub = int s \<Longrightarrow>
     occurs_at xs sub s \<and> (\<forall>j<s. \<not> occurs_at xs sub j)"
proof (induction xs arbitrary: s)
  case Nil
  then show ?case by (auto simp: occurs_at_def split: if_splits)
next
  case (Cons x xs)
  have step: "occurs_at (x # xs) sub (Suc i) = occurs_at xs sub i" for i
    by (simp add: occurs_at_def)
  have zero: "occurs_at (x # xs) sub 0 = (take (length sub) (x # xs) = sub)"
    by (simp add: occurs_at_def)
  show ?case
  proof (cases "take (length sub) (x # xs) = sub")
    case True
    then show ?thesis using Cons.prems zero by auto
  next
    case False
    with Cons.prems have r: "bytes_find xs sub \<noteq> -1" "bytes_find xs sub + 1 = int s"
      by (auto simp: Let_def split: if_splits)
    with bytes_find_ge[of xs sub] obtain t where t: "s = Suc t" "bytes_find xs sub = int t"
      by (cases s) auto
    from Cons.IH[OF t(2)] have ih: "occurs_at xs sub t" "\<forall>j<t. \<not> occurs_at xs sub j" by auto
    have "\<not> occurs_at (x # xs) sub j" if "j < s" for j
      using that t ih False zero step by (cases j) auto
    then show ?thesis using ih t step by auto
  qed
qed

lemma bytes_rfind_ge: "bytes_rfind xs sub \<ge> -1"
  by (induction xs) (auto simp: Let_def)

lemma bytes_rfind_none:
  "bytes_rfind xs sub = -1 \<longleftrightarrow> (\<forall>i. \<not> occurs_at xs sub i)"
proof (induction xs)
  case Nil
  then show ?case by (auto simp: occurs_at_def)
next
  case (Cons x xs)
  have step: "occurs_at (x # xs) sub (Suc i) = occurs_at xs sub i" for i
    by (simp add: occurs_at_def)
  have zero: "occurs_at (x # xs) sub 0 = (take (length sub) (x # xs) = sub)"
    by (simp add: occurs_at_def)
  have all: "(\<forall>i. \<not> occurs_at (x # xs) sub i) =
             (take (length sub) (x # xs) \<noteq> sub \<and> (\<forall>i. \<not> occurs_at xs sub i))"
  proof -
    have "(\<forall>i. \<not> occurs_at (x # xs) sub i) =
          (\<not> occurs_at (x # xs) sub 0 \<and> (\<forall>i. \<not> occurs_at (x # xs) sub (Suc i)))"
      by (metis not0_implies_Suc)
    then show ?thesis using step zero by simp
  qed
  show ?case using Cons.IH bytes_rfind_ge[of xs sub] all
    by (auto simp: Let_def)
qed

lemma bytes_rfind_last:
  "bytes_rfind xs sub = int e \<Longrightarrow>
     occurs_at xs sub e \<and> (\<forall>j>e. \<not> occurs_at xs sub j)"
proof (induction xs arbitrary: e)
  case Nil
  then show ?case by (auto simp: occurs_at_def split: if_splits)
next
  case (Cons x xs)
  have step: "occurs_at (x # xs) sub (Suc i) = occurs_at xs sub i" for i
    by (simp add: occurs_at_def)
  have zero: "occurs_at (x # xs) sub 0 = (take (length sub) (x # xs) = sub)"
    by (simp add: occurs_at_def)
  show ?case
  proof (cases "bytes_rfind xs sub = -1")
    case True
    with Cons.prems have e0: "e = 0" "take (length sub) (x # xs) = sub"
      by (auto simp: Let_def split: if_splits)
    from True have none: "\<forall>i. \<not> occurs_at xs sub i" by (simp add: bytes_rfind_none)
    have "\<not> occurs_at (x # xs) sub j" if "j > e" for j
      using that none step by (cases j) auto
    then show ?thesis using e0 zero by auto
  next
    case False
    with Cons.prems have r: "bytes_rfind xs sub + 1 = int e"
      by (auto simp: Let_def split: if_splits)
    with False bytes_rfind_ge[of xs sub] obtain t where t: "e = Suc t" "bytes_rfind xs sub = int t"
      by (cases e) auto
    from Cons.IH[OF t(2)] have ih: "occurs_at xs sub t" "\<forall>j>t. \<not> occurs_at xs sub j" by auto
    have "\<not> occurs_at (x # xs) sub j" if "j > e" for j
      using that t ih step by (cases j) auto
    then show ?thesis using ih t step by auto
  qed
qed

text \<open>The three specifications of a position determine what \<open>find\<close> and \<open>rfind\<close> return.\<close>

lemma bytes_find_eq_first:
  assumes "first_occurrence xs sub s"
  shows "bytes_find xs sub = int s"
proof -
  from assms have occ: "occurs_at xs sub s" and before: "\<forall>j<s. \<not> occurs_at xs sub j"
    by (auto simp: first_occurrence_def)
  from occ have "bytes_find xs sub \<noteq> -1" by (auto simp: bytes_find_none)
  with bytes_find_ge[of xs sub] have "0 \<le> bytes_find xs sub" by linarith
  then obtain t where t: "bytes_find xs sub = int t"
    using nonneg_int_cases by blast
  from bytes_find_first[OF t] have "occurs_at xs sub t" "\<forall>j<t. \<not> occurs_at xs sub j"
    by auto
  with occ before have "t = s" by (meson linorder_neqE_nat)
  with t show ?thesis by simp
qed

lemma bytes_rfind_eq_last:
  assumes "last_occurrence xs sub e"
  shows "bytes_rfind xs sub = int e"
proof -
  from assms have occ: "occurs_at xs sub e"
    and bounded: "\<forall>j \<in> set [Suc e..<Suc (length xs)]. \<not> occurs_at xs sub j"
    unfolding last_occurrence_def by blast+
  have after: "\<not> occurs_at xs sub j" if "e < j" "j \<le> length xs" for j
  proof -
    from that have "j \<in> set [Suc e..<Suc (length xs)]"
      by (simp only: set_upt atLeastLessThan_iff) linarith
    with bounded show ?thesis by blast
  qed
  from occ have "bytes_rfind xs sub \<noteq> -1" by (auto simp: bytes_rfind_none)
  with bytes_rfind_ge[of xs sub] have "0 \<le> bytes_rfind xs sub" by linarith
  then obtain t where t: "bytes_rfind xs sub = int t"
    using nonneg_int_cases by blast
  from bytes_rfind_last[OF t] have l: "occurs_at xs sub t" "\<forall>j>t. \<not> occurs_at xs sub j"
    by auto
  from l(1) have "t \<le> length xs" by (simp add: occurs_at_def)
  have "t = e"
  proof (rule ccontr)
    assume "t \<noteq> e"
    then consider "t < e" | "e < t" by linarith
    then show False
    proof cases
      case 1
      with l(2) occ show False by blast
    next
      case 2
      with after[of t] \<open>t \<le> length xs\<close> l(1) show False by blast
    qed
  qed
  with t show ?thesis by simp
qed

lemma bytes_find_eq_none:
  assumes "no_occurrence xs sub"
  shows "bytes_find xs sub = -1"
proof -
  have "\<not> occurs_at xs sub i" for i
    using assms by (cases "i \<le> length xs") (auto simp: no_occurrence_def occurs_at_def)
  then show ?thesis by (simp add: bytes_find_none)
qed

lemma drop_past_two: "drop (length p + (length m + length b)) (p @ m @ b @ r) = r"
  by simp

lemma drop_past_two_more:
  "drop (length p + (length m + length b) + Suc k) (p @ m @ b @ c # r) = drop k r"
proof -
  have "drop (length p + (length m + length b) + Suc k) (p @ m @ b @ c # r)
        = drop (Suc k) (drop (length p + (length m + length b)) (p @ m @ b @ c # r))"
    by (simp only: drop_drop add.commute)
  then show ?thesis by (simp only: drop_past_two drop_Suc_Cons)
qed

lemma positions_of_decomposition:
  assumes xs: "xs = pre @ m @ body @ c # suf"
    and before: "\<forall>j \<in> set [0..<length pre]. \<not> occurs_at xs m j"
    and after: "c \<notin> set suf"
  shows "first_occurrence xs m (length pre)"
    and "last_occurrence xs [c] (length pre + (length m + length body))"
proof -
  let ?e = "length pre + (length m + length body)"
  have "occurs_at xs m (length pre)"
    by (simp add: occurs_at_def xs)
  with before show "first_occurrence xs m (length pre)"
    unfolding first_occurrence_def by blast
  have de: "drop ?e xs = c # suf"
    unfolding xs by (rule drop_past_two)
  have len: "length xs = ?e + 1 + length suf" by (simp add: xs)
  have occ: "occurs_at xs [c] ?e"
    unfolding occurs_at_def using de len by simp
  have later: "\<not> occurs_at xs [c] j" if "?e < j" for j
  proof
    assume o: "occurs_at xs [c] j"
    from that obtain k where k: "j = ?e + Suc k"
      by (metis less_iff_Suc_add add_Suc_right)
    have "drop j xs = drop k suf"
      unfolding k xs by (rule drop_past_two_more)
    with o have "take 1 (drop k suf) = [c]" by (simp add: occurs_at_def)
    then have "c \<in> set (take 1 (drop k suf))" by simp
    then have "c \<in> set suf"
      by (meson in_set_dropD in_set_takeD)
    with after show False by simp
  qed
  show "last_occurrence xs [c] ?e"
    unfolding last_occurrence_def
  proof (intro conjI ballI)
    show "occurs_at xs [c] ?e" by (rule occ)
  next
    fix j assume "j \<in> set [Suc ?e..<Suc (length xs)]"
    then have "?e < j"
      by (simp only: set_upt atLeastLessThan_iff) linarith
    then show "\<not> occurs_at xs [c] j" by (rule later)
  qed
qed

lemma take_drop_decomposition:
  "take (length p + (length m + length b) + 1 - length p) (drop (length p) (p @ m @ b @ c # r))
     = m @ b @ [c]"
  by simp

text \<open>
  Claim C1. Let the first \<^verbatim>\<open><?xml\<close> of the input be at index \<open>s\<close> and its last
  \<^verbatim>\<open>>\<close> at index \<open>e\<close>. When \<open>s < e\<close> the unwrapper returns the bytes from \<open>s\<close> to
  \<open>e\<close>, both included. When the input has no \<^verbatim>\<open><?xml\<close>, or when \<open>e \<le> s\<close>, it
  returns the input unchanged. In particular, an input
  \<open>pre @ ''<?xml'' @ body @ ''>'' @ suf\<close> whose prefix region holds no earlier marker and
  whose suffix holds no \<^verbatim>\<open>>\<close> is unwrapped to \<open>''<?xml'' @ body @ ''>''\<close>.
\<close>

theorem unwrapper_first_marker_to_last_gt:
  "(first_occurrence xs ''<?xml'' s \<and> last_occurrence xs ''>'' e \<and> s < e \<longrightarrow>
      extract_xml_from_xsig_bytes xs = take (e + 1 - s) (drop s xs))
   \<and> (no_occurrence xs ''<?xml'' \<longrightarrow> extract_xml_from_xsig_bytes xs = xs)
   \<and> (first_occurrence xs ''<?xml'' s \<and> last_occurrence xs ''>'' e \<and> e \<le> s \<longrightarrow>
      extract_xml_from_xsig_bytes xs = xs)
   \<and> (xs = pre @ ''<?xml'' @ body @ ''>'' @ suf
      \<and> (\<forall>j \<in> set [0..<length pre]. \<not> occurs_at xs ''<?xml'' j)
      \<and> CHR ''>'' \<notin> set suf \<longrightarrow>
      extract_xml_from_xsig_bytes xs = ''<?xml'' @ body @ ''>'')"
proof (intro conjI impI)
  assume a: "first_occurrence xs ''<?xml'' s \<and> last_occurrence xs ''>'' e \<and> s < e"
  then have f: "bytes_find xs ''<?xml'' = int s" and r: "bytes_rfind xs ''>'' = int e"
    by (simp_all add: bytes_find_eq_first bytes_rfind_eq_last)
  from a have "occurs_at xs ''>'' e" by (simp add: last_occurrence_def)
  then have "e < length xs"
    by (cases "e = length xs") (auto simp: occurs_at_def)
  moreover have "nat (int e + 1) = e + 1" by simp
  ultimately show "extract_xml_from_xsig_bytes xs = take (e + 1 - s) (drop s xs)"
    using a f r
    by (simp add: extract_xml_from_xsig_bytes_def py_slice_def py_index_def Let_def
        del: of_nat_Suc)
next
  assume "no_occurrence xs ''<?xml''"
  then show "extract_xml_from_xsig_bytes xs = xs"
    by (simp add: extract_xml_from_xsig_bytes_def bytes_find_eq_none)
next
  assume a: "first_occurrence xs ''<?xml'' s \<and> last_occurrence xs ''>'' e \<and> e \<le> s"
  then have f: "bytes_find xs ''<?xml'' = int s" and r: "bytes_rfind xs ''>'' = int e"
    by (simp_all add: bytes_find_eq_first bytes_rfind_eq_last)
  from a have "take 1 (drop s xs) = ''<''" "take 1 (drop e xs) = ''>''"
    by (auto simp: first_occurrence_def last_occurrence_def occurs_at_def
        dest: arg_cong[where f = "take 1"])
  then have "e \<noteq> s" by auto
  with a f r show "extract_xml_from_xsig_bytes xs = xs"
    by (simp add: extract_xml_from_xsig_bytes_def)
next
  assume a: "xs = pre @ ''<?xml'' @ body @ ''>'' @ suf
      \<and> (\<forall>j \<in> set [0..<length pre]. \<not> occurs_at xs ''<?xml'' j)
      \<and> CHR ''>'' \<notin> set suf"
  let ?m = "''<?xml''"
  let ?s = "length pre" and ?e = "length pre + (length ?m + length body)"
  from a have xs: "xs = pre @ ?m @ body @ CHR ''>'' # suf" by simp
  from a have before: "\<forall>j \<in> set [0..<length pre]. \<not> occurs_at xs ?m j"
    and after: "CHR ''>'' \<notin> set suf"
    by blast+
  note pos = positions_of_decomposition[OF xs before after]
  from pos have f: "bytes_find xs ?m = int ?s" and r: "bytes_rfind xs ''>'' = int ?e"
    by (simp_all only: bytes_find_eq_first bytes_rfind_eq_last)
  have len: "length xs = ?e + 1 + length suf" by (simp add: xs)
  have "nat (int ?e + 1) = ?e + 1" by simp
  then have "extract_xml_from_xsig_bytes xs = take (?e + 1 - ?s) (drop ?s xs)"
    using f r len
    by (simp add: extract_xml_from_xsig_bytes_def py_slice_def py_index_def Let_def
        del: of_nat_Suc of_nat_add)
  also have "\<dots> = ?m @ body @ ''>''"
    unfolding xs by (rule take_drop_decomposition)
  finally show "extract_xml_from_xsig_bytes xs = ''<?xml'' @ body @ ''>''" .
qed

theorem unwrapper_first_marker_to_last_gt_witness:
  "extract_xml_from_xsig_bytes ''PK<?xml v?><a>b</a>\<newline>sig'' = ''<?xml v?><a>b</a>''
   \<and> extract_xml_from_xsig_bytes ''<a>b</a>'' = ''<a>b</a>''
   \<and> extract_xml_from_xsig_bytes ''a>b<?xml v'' = ''a>b<?xml v''
   \<and> extract_xml_from_xsig_bytes (''PK'' @ ''<?xml'' @ '' v?><a/'' @ ''>'' @ ''sig'')
       = ''<?xml'' @ '' v?><a/'' @ ''>''"
proof -
  have h1: "first_occurrence ''PK<?xml v?><a>b</a>\<newline>sig'' ''<?xml'' 2
            \<and> last_occurrence ''PK<?xml v?><a>b</a>\<newline>sig'' ''>'' 18 \<and> (2::nat) < 18"
    by code_simp
  have h2: "no_occurrence ''<a>b</a>'' ''<?xml''"
    by code_simp
  have h3: "first_occurrence ''a>b<?xml v'' ''<?xml'' 3
            \<and> last_occurrence ''a>b<?xml v'' ''>'' 1 \<and> (1::nat) \<le> 3"
    by code_simp
  have h4: "''PK'' @ ''<?xml'' @ '' v?><a/'' @ ''>'' @ ''sig''
              = ''PK'' @ ''<?xml'' @ '' v?><a/'' @ ''>'' @ ''sig''
            \<and> (\<forall>j \<in> set [0..<length ''PK''].
                  \<not> occurs_at (''PK'' @ ''<?xml'' @ '' v?><a/'' @ ''>'' @ ''sig'') ''<?xml'' j)
            \<and> CHR ''>'' \<notin> set ''sig''"
    by code_simp
  have t1: "take (18 + 1 - 2) (drop 2 ''PK<?xml v?><a>b</a>\<newline>sig'') = ''<?xml v?><a>b</a>''"
    by code_simp
  show ?thesis
    using unwrapper_first_marker_to_last_gt
            [of "''PK<?xml v?><a>b</a>\<newline>sig''" 2 18 "''PK''" "'' v?><a/''" "''sig''"]
          unwrapper_first_marker_to_last_gt
            [of "''<a>b</a>''" 0 0 "[]" "[]" "[]"]
          unwrapper_first_marker_to_last_gt
            [of "''a>b<?xml v''" 3 1 "[]" "[]" "[]"]
          unwrapper_first_marker_to_last_gt
            [of "''PK'' @ ''<?xml'' @ '' v?><a/'' @ ''>'' @ ''sig''" 0 0 "''PK''" "'' v?><a/''" "''sig''"]
          h1 h2 h3 h4 t1
    by presburger
qed

subsection \<open>Text\<close>

lemma strip_Nil [simp]: "strip [] = []"
  by (simp add: strip_def)

lemma zfill_length: "width \<le> length (zfill width s)"
  by (cases s) (auto simp: zfill_def)

lemma isdigit_no_sign: "isdigit s \<Longrightarrow> hd s \<noteq> CHR ''+'' \<and> hd s \<noteq> CHR ''-''"
  by (cases s) (auto simp: isdigit_def isdigit_char_def is_decimal_char_def)

lemma zfill_isdigit:
  "isdigit s \<Longrightarrow> zfill 2 s = replicate (2 - length s) (CHR ''0'') @ s"
  using isdigit_no_sign[of s] by (cases s) (auto simp: zfill_def isdigit_def)

subsection \<open>Area codes\<close>

text \<open>
  Claim C8, as the code has it. \<^verbatim>\<open>_normalize_area_code\<close> returns the empty string for
  \<^verbatim>\<open>None\<close> and for the empty string, pads the trimmed input with zeros on the left to
  two characters exactly when it is all digits (so \<^verbatim>\<open>"1"\<close> gives \<^verbatim>\<open>"01"\<close>), and
  returns any other input trimmed and otherwise unchanged. \<^verbatim>\<open>normalizar_area\<close> does the
  same, except that it first tries \<^verbatim>\<open>int\<close>: an input that \<^verbatim>\<open>int\<close> accepts is
  returned as that integer in at least two digits.
\<close>

theorem area_code_normalisation:
  "normalize_area_code None = [] \<and> normalize_area_code (Some []) = []
   \<and> normalize_area_code (Some ''1'') = ''01''
   \<and> (isdigit (strip a) \<longrightarrow>
        normalize_area_code (Some a) = replicate (2 - length (strip a)) (CHR ''0'') @ strip a)
   \<and> (\<not> isdigit (strip a) \<longrightarrow> normalize_area_code (Some a) = strip a)
   \<and> normalizar_area None = [] \<and> normalizar_area (Some []) = []
   \<and> normalizar_area (Some ''1'') = ''01''
   \<and> (py_int (strip a) = Some n \<longrightarrow> normalizar_area (Some a) = format_02d n)
   \<and> (py_int (strip a) = None \<and> isdigit (strip a) \<longrightarrow>
        normalizar_area (Some a) = replicate (2 - length (strip a)) (CHR ''0'') @ strip a)
   \<and> (py_int (strip a) = None \<and> \<not> isdigit (strip a) \<longrightarrow> normalizar_area (Some a) = strip a)"
proof (intro conjI impI)
  show "normalize_area_code None = []" "normalize_area_code (Some []) = []"
    by (simp_all add: normalize_area_code_def)
  show "normalize_area_code (Some ''1'') = ''01''"
    by code_simp
  show "normalizar_area None = []"
    by (simp add: normalizar_area_def Let_def)
  show "normalizar_area (Some []) = []"
    by code_simp
  show "normalizar_area (Some ''1'') = ''01''"
    by code_simp
next
  assume d: "isdigit (strip a)"
  then have "a \<noteq> []" by (auto simp: isdigit_def)
  with d show "normalize_area_code (Some a) = replicate (2 - length (strip a)) (CHR ''0'') @ strip a"
    by (simp add: normalize_area_code_def zfill_isdigit Let_def)
next
  assume "\<not> isdigit (strip a)"
  then show "normalize_area_code (Some a) = strip a"
    by (simp add: normalize_area_code_def Let_def)
next
  assume "py_int (strip a) = Some n"
  then show "normalizar_area (Some a) = format_02d n"
    by (simp add: normalizar_area_def Let_def)
next
  assume "py_int (strip a) = None \<and> isdigit (strip a)"
  then show "normalizar_area (Some a) = replicate (2 - length (strip a)) (CHR ''0'') @ strip a"
    by (simp add: normalizar_area_def zfill_isdigit Let_def)
next
  assume "py_int (strip a) = None \<and> \<not> isdigit (strip a)"
  then show "normalizar_area (Some a) = strip a"
    by (simp add: normalizar_area_def Let_def)
qed

theorem area_code_normalisation_witness:
  "normalize_area_code (Some '' 7 '') = ''07''
   \<and> normalize_area_code (Some '' A1'') = ''A1''
   \<and> normalizar_area (Some '' 007'') = ''07''
   \<and> normalizar_area (Some [CHR 0xB2]) = [CHR ''0'', CHR 0xB2]
   \<and> normalizar_area (Some ''A1 '') = ''A1''"
proof -
  have s: "strip '' 7 '' = ''7''" "strip '' A1'' = ''A1''" "strip '' 007'' = ''007''"
    "strip [CHR 0xB2] = [CHR 0xB2]" "strip ''A1 '' = ''A1''"
    by code_simp+
  have h1: "isdigit (strip '' 7 '')" by code_simp
  have h2: "\<not> isdigit (strip '' A1'')" by code_simp
  have h3: "py_int (strip '' 007'') = Some 7" by code_simp
  have h4: "py_int (strip [CHR 0xB2]) = None \<and> isdigit (strip [CHR 0xB2])" by code_simp
  have h5: "py_int (strip ''A1 '') = None \<and> \<not> isdigit (strip ''A1 '')" by code_simp
  have f: "format_02d 7 = ''07''" by code_simp
  from area_code_normalisation[of "'' 7 ''" 0]
       area_code_normalisation[of "'' A1''" 0]
       area_code_normalisation[of "'' 007''" 7]
       area_code_normalisation[of "[CHR 0xB2]" 0]
       area_code_normalisation[of "''A1 ''" 0]
       h1 h2 h3 h4 h5 f s
  show ?thesis by simp
qed

text \<open>
  \<^verbatim>\<open>normalizar_area\<close> changes an input that is not all digits: \<^verbatim>\<open>int("+1")\<close> is
  \<open>1\<close>, so \<^verbatim>\<open>"+1"\<close> becomes \<^verbatim>\<open>"01"\<close>.
\<close>

theorem normalizar_area_signed_counterexample:
  "\<not> isdigit (strip ''+1'') \<and> normalizar_area (Some ''+1'') = ''01''
   \<and> normalizar_area (Some ''+1'') \<noteq> strip ''+1''"
  by code_simp

subsection \<open>The area table\<close>

lemma load_rows_dom:
  "k \<in> dom (load_rows rows d) \<Longrightarrow>
     k \<in> dom d \<or> (\<exists>row \<in> set rows. 2 \<le> length row \<and> strip (row ! 0) \<noteq> []
                      \<and> k = zfill 2 (strip (row ! 0)))"
proof (induction rows arbitrary: d)
  case Nil
  then show ?case by simp
next
  case (Cons row rows)
  show ?case
  proof (cases "row = [] \<or> length row < 2")
    case True
    with Cons.prems have "k \<in> dom (load_rows rows d)" by simp
    from Cons.IH[OF this] show ?thesis by auto
  next
    case False
    show ?thesis
    proof (cases "strip (row ! 0) = []")
      case True
      with False Cons.prems have "k \<in> dom (load_rows rows d)" by (simp add: Let_def)
      from Cons.IH[OF this] show ?thesis by auto
    next
      case nonempty: False
      with False Cons.prems
      have "k \<in> dom (load_rows rows (d(zfill 2 (strip (row ! 0)) \<mapsto> strip (row ! 1))))"
        by (simp add: Let_def)
      from Cons.IH[OF this] False nonempty show ?thesis by auto
    qed
  qed
qed

lemma wrapped_keys:
  assumes "cargar_diccionario_areas_wrapped fs csv_path = Inr d" "k \<in> dom d"
  shows "2 \<le> length k
       \<and> (\<exists>p rows row. csv_path = Some p \<and> fs p = Rows rows \<and> row \<in> set rows
              \<and> 2 \<le> length row \<and> strip (row ! 0) \<noteq> []
              \<and> k = zfill 2 (strip (row ! 0)))"
proof -
  from assms obtain p rows where p: "csv_path = Some p" "fs p = Rows rows"
    and d: "d = load_rows rows Map.empty"
    by (auto simp: cargar_diccionario_areas_wrapped_def
        split: option.splits if_splits file_state.splits)
  from load_rows_dom[of k rows Map.empty] assms(2) d
  obtain row where row: "row \<in> set rows" "2 \<le> length row" "strip (row ! 0) \<noteq> []"
      "k = zfill 2 (strip (row ! 0))"
    by auto
  have "2 \<le> length k" using row(4) zfill_length[of 2] by simp
  with p row show ?thesis by blast
qed

lemma wrapped_no_path:
  "csv_path = None \<or> csv_path = Some [] \<Longrightarrow>
     cargar_diccionario_areas_wrapped fs csv_path = Inr Map.empty"
  by (auto simp: cargar_diccionario_areas_wrapped_def)

lemma wrapped_missing:
  "csv_path = Some p \<Longrightarrow> fs p = Missing \<Longrightarrow>
     cargar_diccionario_areas_wrapped fs csv_path = Inr Map.empty"
  by (auto simp: cargar_diccionario_areas_wrapped_def)

lemma cache_miss:
  "cache = None \<or> fst (the cache) \<noteq> csv_path \<Longrightarrow>
     fst (cargar_diccionario_areas cache fs csv_path)
       = cargar_diccionario_areas_wrapped fs csv_path"
  by (auto simp: cargar_diccionario_areas_def Let_def split: option.splits sum.splits)

lemma cache_hit:
  "cache = Some (csv_path, d) \<Longrightarrow>
     cargar_diccionario_areas cache fs csv_path = (Inr d, cache)"
  by (simp add: cargar_diccionario_areas_def Let_def)

lemma cache_entry_loaded:
  "cache_after calls = Some (p, d) \<Longrightarrow>
     \<exists>fs'. fs' \<in> fst ` set calls \<and> cargar_diccionario_areas_wrapped fs' p = Inr d"
proof (induction calls)
  case Nil
  then show ?case by simp
next
  case (Cons c calls)
  show ?case
  proof (cases "cache_after calls = Some (p, d)")
    case True
    from Cons.IH[OF this] show ?thesis by auto
  next
    case False
    with Cons.prems have "snd c = p \<and> cargar_diccionario_areas_wrapped (fst c) (snd c) = Inr d"
      by (auto simp: cargar_diccionario_areas_def Let_def
          split: option.splits sum.splits if_splits)
    then show ?thesis by auto
  qed
qed

text \<open>
  Claim C10, as the code has it. Let the loader be called after any run of earlier calls.
  For the path \<^verbatim>\<open>None\<close> and the empty path it returns the empty dictionary. For a path
  that names no file it returns the empty dictionary when the cache does not hold an entry
  for that path. When the cache holds an entry for the path, that entry is returned
  without looking at the file system, and it is what the body returned at an earlier call.
  The loader raises only when the file exists and cannot be opened, decoded or split
  into rows. Every key of a dictionary it
  returns is the first field of a row of the file, as it is now or as it was at an earlier
  call, trimmed, not empty and filled with zeros by \<^verbatim>\<open>zfill(2)\<close>, and so has at least two
  characters.
\<close>

theorem area_table_loader:
  "((csv_path = None \<or> csv_path = Some []) \<longrightarrow>
       fst (cargar_diccionario_areas (cache_after calls) fs csv_path) = Inr Map.empty)
   \<and> ((\<exists>p. csv_path = Some p \<and> fs p = Missing)
        \<and> (cache_after calls = None \<or> fst (the (cache_after calls)) \<noteq> csv_path) \<longrightarrow>
       fst (cargar_diccionario_areas (cache_after calls) fs csv_path) = Inr Map.empty)
   \<and> (cache_after calls = Some (csv_path, d) \<longrightarrow>
       fst (cargar_diccionario_areas (cache_after calls) fs csv_path) = Inr d
       \<and> (\<exists>fs'. fs' \<in> fst ` set calls \<and> cargar_diccionario_areas_wrapped fs' csv_path = Inr d))
   \<and> (fst (cargar_diccionario_areas (cache_after calls) fs csv_path) = Inl e \<longrightarrow>
       (\<exists>p msg. csv_path = Some p \<and> p \<noteq> []
            \<and> (fs p = Unreadable msg \<and> e = IOError msg
               \<or> fs p = Undecodable msg \<and> e = UnicodeDecodeError msg
               \<or> fs p = Malformed msg \<and> e = CsvError msg)))
   \<and> (fst (cargar_diccionario_areas (cache_after calls) fs csv_path) = Inr d \<and> k \<in> dom d \<longrightarrow>
       2 \<le> length k
       \<and> (\<exists>fs' p rows row. (fs' = fs \<or> fs' \<in> fst ` set calls)
              \<and> csv_path = Some p \<and> fs' p = Rows rows \<and> row \<in> set rows
              \<and> 2 \<le> length row \<and> strip (row ! 0) \<noteq> []
              \<and> k = zfill 2 (strip (row ! 0))))"
proof (intro conjI impI)
  assume a: "csv_path = None \<or> csv_path = Some []"
  show "fst (cargar_diccionario_areas (cache_after calls) fs csv_path) = Inr Map.empty"
  proof (cases "cache_after calls = None \<or> fst (the (cache_after calls)) \<noteq> csv_path")
    case True
    from cache_miss[OF this] wrapped_no_path[OF a] show ?thesis by simp
  next
    case False
    then obtain d' where c: "cache_after calls = Some (csv_path, d')" by auto
    from cache_entry_loaded[OF c] wrapped_no_path[OF a] have "d' = Map.empty" by auto
    with cache_hit[OF c] show ?thesis by simp
  qed
next
  assume a: "(\<exists>p. csv_path = Some p \<and> fs p = Missing)
        \<and> (cache_after calls = None \<or> fst (the (cache_after calls)) \<noteq> csv_path)"
  then have "cargar_diccionario_areas_wrapped fs csv_path = Inr Map.empty"
    using wrapped_missing by blast
  with a cache_miss[of "cache_after calls" csv_path fs]
  show "fst (cargar_diccionario_areas (cache_after calls) fs csv_path) = Inr Map.empty"
    by simp
next
  assume c: "cache_after calls = Some (csv_path, d)"
  from cache_hit[OF c]
  show "fst (cargar_diccionario_areas (cache_after calls) fs csv_path) = Inr d" by simp
  from cache_entry_loaded[OF c]
  show "\<exists>fs'. fs' \<in> fst ` set calls \<and> cargar_diccionario_areas_wrapped fs' csv_path = Inr d" .
next
  assume "fst (cargar_diccionario_areas (cache_after calls) fs csv_path) = Inl e"
  then have "cargar_diccionario_areas_wrapped fs csv_path = Inl e"
    by (auto simp: cargar_diccionario_areas_def Let_def
        split: option.splits sum.splits if_splits)
  then show "\<exists>p msg. csv_path = Some p \<and> p \<noteq> []
            \<and> (fs p = Unreadable msg \<and> e = IOError msg
               \<or> fs p = Undecodable msg \<and> e = UnicodeDecodeError msg
               \<or> fs p = Malformed msg \<and> e = CsvError msg)"
    by (auto simp: cargar_diccionario_areas_wrapped_def
        split: option.splits if_splits file_state.splits)
next
  assume a: "fst (cargar_diccionario_areas (cache_after calls) fs csv_path) = Inr d \<and> k \<in> dom d"
  have "\<exists>fs'. (fs' = fs \<or> fs' \<in> fst ` set calls)
              \<and> cargar_diccionario_areas_wrapped fs' csv_path = Inr d"
  proof (cases "cache_after calls = None \<or> fst (the (cache_after calls)) \<noteq> csv_path")
    case True
    from cache_miss[OF this] a show ?thesis by auto
  next
    case False
    then obtain d' where c: "cache_after calls = Some (csv_path, d')" by auto
    with cache_hit[OF c] a have "d' = d" by simp
    with cache_entry_loaded[OF c] show ?thesis by auto
  qed
  then obtain fs' where f: "fs' = fs \<or> fs' \<in> fst ` set calls"
    and w: "cargar_diccionario_areas_wrapped fs' csv_path = Inr d" by blast
  from wrapped_keys[OF w] a
  have k: "2 \<le> length k"
    and r: "\<exists>p rows row. csv_path = Some p \<and> fs' p = Rows rows \<and> row \<in> set rows
              \<and> 2 \<le> length row \<and> strip (row ! 0) \<noteq> []
              \<and> k = zfill 2 (strip (row ! 0))"
    by blast+
  show "2 \<le> length k" by (rule k)
  from f r show "\<exists>fs' p rows row. (fs' = fs \<or> fs' \<in> fst ` set calls)
              \<and> csv_path = Some p \<and> fs' p = Rows rows \<and> row \<in> set rows
              \<and> 2 \<le> length row \<and> strip (row ! 0) \<noteq> []
              \<and> k = zfill 2 (strip (row ! 0))"
    by blast
qed

theorem area_table_loader_witness:
  "fst (cargar_diccionario_areas (cache_after [(fs_with_table, Some ''areas.csv'')])
          fs_with_table None) = Inr Map.empty
   \<and> fst (cargar_diccionario_areas (cache_after [(fs_with_table, Some ''areas.csv'')])
          fs_with_table (Some ''nada.csv'')) = Inr Map.empty
   \<and> fst (cargar_diccionario_areas (cache_after [(fs_with_table, Some ''areas.csv'')])
          fs_without_table (Some ''areas.csv'')) = Inr (load_rows sample_rows Map.empty)
   \<and> load_rows sample_rows Map.empty ''01'' = Some ''Hacienda''
   \<and> load_rows sample_rows Map.empty ''12'' = Some ''Cultura''
   \<and> 2 \<le> length ''01''"
proof -
  let ?calls = "[(fs_with_table, Some ''areas.csv'')]"
  let ?d = "load_rows sample_rows Map.empty"
  note T = area_table_loader
  have cache: "cache_after ?calls = Some (Some ''areas.csv'', ?d)"
    by (simp add: cargar_diccionario_areas_def cargar_diccionario_areas_wrapped_def
        fs_with_table_def)
  have v1: "?d ''01'' = Some ''Hacienda''" by code_simp
  have v2: "?d ''12'' = Some ''Cultura''" by code_simp
  from v1 have key: "''01'' \<in> dom ?d" by blast
  have 1: "fst (cargar_diccionario_areas (cache_after ?calls) fs_with_table None) = Inr Map.empty"
    using T[where csv_path = None and calls = ?calls and fs = fs_with_table
              and d = ?d and k = "''01''" and e = "IOError []"]
    by simp
  have h2: "(\<exists>p. Some ''nada.csv'' = Some p \<and> fs_with_table p = Missing)
             \<and> (cache_after ?calls = None
                  \<or> fst (the (cache_after ?calls)) \<noteq> Some ''nada.csv'')"
    unfolding cache by (simp add: fs_with_table_def)
  have 2: "fst (cargar_diccionario_areas (cache_after ?calls) fs_with_table (Some ''nada.csv''))
             = Inr Map.empty"
    using T[where csv_path = "Some ''nada.csv''" and calls = ?calls and fs = fs_with_table
              and d = ?d and k = "''01''" and e = "IOError []"] h2
    by blast
  have 3: "fst (cargar_diccionario_areas (cache_after ?calls) fs_without_table
                  (Some ''areas.csv'')) = Inr ?d \<and> 2 \<le> length ''01''"
    using T[where csv_path = "Some ''areas.csv''" and calls = ?calls and fs = fs_without_table
              and d = ?d and k = "''01''" and e = "IOError []"] cache key
    by blast
  from 1 2 3 v1 v2 show ?thesis by blast
qed

text \<open>
  The path names no file, and the loader returns a dictionary that is not empty: the table
  was loaded by an earlier call and the file has been deleted since.
\<close>

theorem stale_area_table_counterexample:
  "fs_without_table ''areas.csv'' = Missing
   \<and> fst (cargar_diccionario_areas (cache_after [(fs_with_table, Some ''areas.csv'')])
            fs_without_table (Some ''areas.csv'')) \<noteq> Inr Map.empty"
proof -
  have cache: "cache_after [(fs_with_table, Some ''areas.csv'')]
                 = Some (Some ''areas.csv'', load_rows sample_rows Map.empty)"
    by (simp add: cargar_diccionario_areas_def cargar_diccionario_areas_wrapped_def
        fs_with_table_def)
  have v: "load_rows sample_rows Map.empty ''01'' = Some ''Hacienda''" by code_simp
  then have "load_rows sample_rows Map.empty \<noteq> Map.empty" by auto
  with cache_hit[OF cache, of fs_without_table] show ?thesis
    by (simp add: fs_without_table_def)
qed

subsection \<open>The conformity report\<close>

lemma motivo_msg_text:
  "motivo_msg = ''motivo_no_conformidad es obligatorio cuando resultado_conformidad = ''
                  @ [CHR 0x27] @ ''no_conforme'' @ [CHR 0x27]"
  "take 21 motivo_msg = ''motivo_no_conformidad''"
  "resultado_msg \<noteq> motivo_msg"
  by (simp_all add: motivo_msg_def resultado_msg_def)

lemma get_first_well_formed:
  assumes "\<forall>k \<in> set ks. string_or_none (dict_get kvs k)"
  shows "\<exists>s. get_first (JObj kvs) ks = Inr (JStr s)"
  using assms
proof (induction ks)
  case Nil
  then show ?case by simp
next
  case (Cons k ks)
  then have s: "string_or_none (dict_get kvs k)" by simp
  show ?case
  proof (cases "truthy (dict_get kvs k)")
    case True
    with s show ?thesis
      by (cases "dict_get kvs k") (auto simp: item_get_def string_or_none_def)
  next
    case False
    with Cons show ?thesis by (simp add: item_get_def)
  qed
qed

lemma stripped_first_well_formed:
  assumes "aplicacion_item item"
    and "set ks \<subseteq> {''org'', ''vaplorg'', ''fun'', ''vaplfun'', ''eco'', ''vapleco''}"
  shows "\<exists>s. stripped_first item ks = Inr s"
proof -
  from assms(1) obtain kvs where item: "item = JObj kvs"
    and all: "\<forall>k \<in> {''org'', ''vaplorg'', ''fun'', ''vaplfun'', ''eco'', ''vapleco''}.
                string_or_none (dict_get kvs k)"
    by (cases item) (auto simp: aplicacion_item_def)
  from all assms(2) have "\<forall>k \<in> set ks. string_or_none (dict_get kvs k)" by blast
  from get_first_well_formed[OF this] obtain s where "get_first (JObj kvs) ks = Inr (JStr s)"
    by blast
  with item show ?thesis by (simp add: stripped_first_def py_strip_def)
qed

lemma aplicaciones_of_well_formed:
  "list_all aplicacion_item items \<Longrightarrow>
     \<exists>apps. aplicaciones_of items = Inr apps \<and> length apps = length items"
proof (induction items)
  case Nil
  then show ?case by simp
next
  case (Cons item items)
  then have i: "aplicacion_item item" by simp
  from stripped_first_well_formed[OF i, of "[''org'', ''vaplorg'']"]
  obtain a where a: "stripped_first item [''org'', ''vaplorg''] = Inr a" by auto
  from stripped_first_well_formed[OF i, of "[''fun'', ''vaplfun'']"]
  obtain b where b: "stripped_first item [''fun'', ''vaplfun''] = Inr b" by auto
  from stripped_first_well_formed[OF i, of "[''eco'', ''vapleco'', ''vapleco'']"]
  obtain c where c: "stripped_first item [''eco'', ''vapleco'', ''vapleco''] = Inr c" by auto
  from Cons obtain rest where "aplicaciones_of items = Inr rest" "length rest = length items"
    by auto
  with a b c show ?case by simp
qed

lemma aplicaciones_payload_loop:
  assumes "aplicaciones_payload payload"
  shows "\<exists>items apps. py_iter (py_or (dict_get payload ''aplicaciones'') (JList [])) = Inr items
            \<and> aplicaciones_of items = Inr apps \<and> length apps = length items"
proof -
  from assms have "\<exists>items. py_or (dict_get payload ''aplicaciones'') (JList []) = JList items
                     \<and> list_all aplicacion_item items"
    by (auto simp: aplicaciones_payload_def dict_get_def py_or_def
        split: option.splits json.splits)
  then obtain items where "py_or (dict_get payload ''aplicaciones'') (JList []) = JList items"
    and "list_all aplicacion_item items" by blast
  with aplicaciones_of_well_formed[of items] show ?thesis
    by (auto simp: py_iter_def)
qed

lemma conformidad_blank:
  "map_of payload ''resultado_conformidad'' = Some (JStr ''no_conforme'') \<Longrightarrow>
   blank_reason (map_of payload ''motivo_no_conformidad'') \<Longrightarrow>
     conformidad payload = Inl (ValueError motivo_msg)"
  by (auto simp: conformidad_def dict_get_default_def dict_get_def blank_reason_def
      py_or_def py_strip_def split: option.splits json.splits)

lemma conformidad_conforme:
  "map_of payload ''resultado_conformidad'' = None
     \<or> map_of payload ''resultado_conformidad'' = Some (JStr ''conforme'') \<Longrightarrow>
     conformidad payload = Inr (JStr ''conforme'')"
  by (auto simp: conformidad_def dict_get_default_def)

lemma conformidad_reason:
  "map_of payload ''resultado_conformidad'' = Some (JStr ''no_conforme'') \<Longrightarrow>
   map_of payload ''motivo_no_conformidad'' = Some (JStr s) \<Longrightarrow> strip s \<noteq> [] \<Longrightarrow>
     conformidad payload = Inr (JStr ''no_conforme'')"
  by (auto simp: conformidad_def dict_get_default_def dict_get_def py_or_def py_strip_def)

lemma conformidad_motivo_error:
  assumes "conformidad payload = Inl (ValueError motivo_msg)"
  shows "map_of payload ''resultado_conformidad'' = Some (JStr ''no_conforme'')
       \<and> (\<forall>v. map_of payload ''motivo_no_conformidad'' = Some v \<longrightarrow>
              \<not> truthy v \<or> (\<exists>s. v = JStr s \<and> strip s = []))"
proof -
  let ?r = "dict_get_default payload ''resultado_conformidad'' (JStr ''conforme'')"
  let ?m = "py_or (dict_get payload ''motivo_no_conformidad'') (JStr [])"
  from assms motivo_msg_text(3) have r: "?r = JStr ''no_conforme''"
    by (auto simp: conformidad_def Let_def split: if_splits)
  then have 1: "map_of payload ''resultado_conformidad'' = Some (JStr ''no_conforme'')"
    by (auto simp: dict_get_default_def split: option.splits)
  from assms r have "\<exists>s. ?m = JStr s \<and> strip s = []"
    by (cases ?m) (auto simp: conformidad_def Let_def py_strip_def no_attribute_def
        split: if_splits)
  then have "\<forall>v. map_of payload ''motivo_no_conformidad'' = Some v \<longrightarrow>
              \<not> truthy v \<or> (\<exists>s. v = JStr s \<and> strip s = [])"
    by (auto simp: py_or_def dict_get_def split: if_splits)
  with 1 show ?thesis by blast
qed

lemma strip_text_errors:
  "py_strip v \<noteq> Inl (ValueError msg)"
  by (cases v) (auto simp: py_strip_def no_attribute_def)

lemma get_first_errors: "get_first item ks \<noteq> Inl (ValueError msg)"
  by (induction ks) (auto simp: item_get_def no_attribute_def split: json.splits)

lemma stripped_first_errors: "stripped_first item ks \<noteq> Inl (ValueError msg)"
  using get_first_errors[of item ks msg]
  by (auto simp: stripped_first_def strip_text_errors split: sum.splits)

lemma aplicaciones_of_errors: "aplicaciones_of items \<noteq> Inl (ValueError msg)"
proof (induction items)
  case Nil
  then show ?case by simp
next
  case (Cons item items)
  with stripped_first_errors[of item _ msg] show ?case
    by (auto split: sum.splits)
qed

lemma py_iter_errors: "py_iter v \<noteq> Inl (ValueError msg)"
  by (cases v) (auto simp: py_iter_def not_iterable_def)

lemma informe_motivo_error:
  assumes "informe_con_areas env areas_dict payload = Inl (ValueError motivo_msg)"
  shows "conformidad payload = Inl (ValueError motivo_msg)
       \<or> (\<exists>data. generate_acta_pdf env data = Inl (ValueError motivo_msg))"
  using assms py_iter_errors[of _ motivo_msg] aplicaciones_of_errors[of _ motivo_msg]
    strip_text_errors[of _ motivo_msg]
  by (auto simp: informe_con_areas_def Let_def split: sum.splits)

lemma informe_rendered:
  assumes "aplicaciones_payload payload"
    and "conformidad payload = Inr r"
    and "string_or_none (dict_get payload ''observaciones'')"
    and "string_or_none (dict_get payload ''motivo_no_conformidad'')"
  shows "\<exists>data. informe_con_areas env areas_dict payload = generate_acta_pdf env data
          \<and> resultado_conformidad data = r
          \<and> motivo_no_conformidad data
              = strip (case dict_get payload ''motivo_no_conformidad'' of
                         JStr s \<Rightarrow> s | _ \<Rightarrow> [])
          \<and> observaciones data
              = strip (case dict_get payload ''observaciones'' of JStr s \<Rightarrow> s | _ \<Rightarrow> [])
          \<and> area_code data
              = normalize_area_code (area_code_argument env (dict_get payload ''area_code''))
          \<and> num_rcf data = dict_get_default payload ''num_rcf'' (JStr [])"
proof -
  from aplicaciones_payload_loop[OF assms(1)] obtain items apps
    where l: "py_iter (py_or (dict_get payload ''aplicaciones'') (JList [])) = Inr items"
      "aplicaciones_of items = Inr apps" by blast
  have o: "py_strip (py_or (dict_get payload ''observaciones'') (JStr []))
             = Inr (strip (case dict_get payload ''observaciones'' of JStr s \<Rightarrow> s | _ \<Rightarrow> []))"
    using assms(3)
    by (cases "dict_get payload ''observaciones''")
       (auto simp: string_or_none_def py_or_def py_strip_def)
  have m: "py_strip (py_or (dict_get payload ''motivo_no_conformidad'') (JStr []))
             = Inr (strip (case dict_get payload ''motivo_no_conformidad'' of
                             JStr s \<Rightarrow> s | _ \<Rightarrow> []))"
    using assms(4)
    by (cases "dict_get payload ''motivo_no_conformidad''")
       (auto simp: string_or_none_def py_or_def py_strip_def)
  show ?thesis
    using l o m assms(2)
    by (simp add: informe_con_areas_def Let_def split del: if_split)
       (rule exI, rule conjI, rule refl, simp)
qed

text \<open>
  Claim C7, as the code has it. The function loads the area table and walks the
  applications before it looks at the result, and both can raise. An exception of the
  loader is the outcome, whatever the payload. When the table loads and the applications
  are well formed, a payload whose result is \<^verbatim>\<open>no_conforme\<close> and whose reason is absent,
  \<^verbatim>\<open>None\<close>, empty or white space only is rejected with the \<^verbatim>\<open>ValueError\<close> whose message
  begins with \<^verbatim>\<open>motivo_no_conformidad\<close> and says it is mandatory; when the applications
  begin with a string, the outcome is an \<^verbatim>\<open>AttributeError\<close> instead. A payload whose
  result is \<^verbatim>\<open>conforme\<close> (also by default), or \<^verbatim>\<open>no_conforme\<close> with a reason that is not
  blank, whose applications are well formed and whose observations are a string or
  \<^verbatim>\<open>None\<close>, reaches the renderer with that result and the trimmed reason. The function
  itself raises the error about the reason only for a result \<^verbatim>\<open>no_conforme\<close> with a
  reason that is not true or is a blank string. The validator of the request model raises
  the same error for a result \<^verbatim>\<open>no_conforme\<close> with a blank reason and returns the
  reason otherwise.
\<close>

theorem conformity_reason_required:
  "(fst (cargar_diccionario_areas cache fs (Some areas_csv_path)) = Inl e \<longrightarrow>
      fst (generar_informe_conformidad_pdf_desde_payload env cache fs payload areas_csv_path)
        = Inl e)
   \<and> (fst (cargar_diccionario_areas cache fs (Some areas_csv_path)) = Inr d
      \<and> aplicaciones_payload payload
      \<and> map_of payload ''resultado_conformidad'' = Some (JStr ''no_conforme'')
      \<and> blank_reason (map_of payload ''motivo_no_conformidad'') \<longrightarrow>
      fst (generar_informe_conformidad_pdf_desde_payload env cache fs payload areas_csv_path)
        = Inl (ValueError
                 (''motivo_no_conformidad es obligatorio cuando resultado_conformidad = ''
                    @ [CHR 0x27] @ ''no_conforme'' @ [CHR 0x27])))
   \<and> (fst (cargar_diccionario_areas cache fs (Some areas_csv_path)) = Inr d
      \<and> map_of payload ''aplicaciones'' = Some (JList (JStr s # items)) \<longrightarrow>
      fst (generar_informe_conformidad_pdf_desde_payload env cache fs payload areas_csv_path)
        = Inl (AttributeError
                 ([CHR 0x27] @ ''str'' @ [CHR 0x27] @ '' object has no attribute ''
                    @ [CHR 0x27] @ ''get'' @ [CHR 0x27])))
   \<and> (fst (cargar_diccionario_areas cache fs (Some areas_csv_path)) = Inr d
      \<and> aplicaciones_payload payload
      \<and> string_or_none (dict_get payload ''observaciones'')
      \<and> (map_of payload ''resultado_conformidad'' = None
           \<and> string_or_none (dict_get payload ''motivo_no_conformidad'') \<and> r = ''conforme''
         \<or> map_of payload ''resultado_conformidad'' = Some (JStr ''conforme'')
           \<and> string_or_none (dict_get payload ''motivo_no_conformidad'') \<and> r = ''conforme''
         \<or> map_of payload ''resultado_conformidad'' = Some (JStr ''no_conforme'')
           \<and> map_of payload ''motivo_no_conformidad'' = Some (JStr m) \<and> strip m \<noteq> []
           \<and> r = ''no_conforme'') \<longrightarrow>
      (\<exists>data.
          fst (generar_informe_conformidad_pdf_desde_payload env cache fs payload areas_csv_path)
            = generate_acta_pdf env data
          \<and> resultado_conformidad data = JStr r
          \<and> motivo_no_conformidad data
              = strip (case dict_get payload ''motivo_no_conformidad'' of
                         JStr s \<Rightarrow> s | _ \<Rightarrow> [])
          \<and> observaciones data
              = strip (case dict_get payload ''observaciones'' of JStr s \<Rightarrow> s | _ \<Rightarrow> [])
          \<and> area_code data
              = normalize_area_code (area_code_argument env (dict_get payload ''area_code''))
          \<and> num_rcf data = dict_get_default payload ''num_rcf'' (JStr [])))
   \<and> (fst (generar_informe_conformidad_pdf_desde_payload env cache fs payload areas_csv_path)
        = Inl (ValueError motivo_msg) \<longrightarrow>
      map_of payload ''resultado_conformidad'' = Some (JStr ''no_conforme'')
        \<and> (\<forall>v. map_of payload ''motivo_no_conformidad'' = Some v \<longrightarrow>
               \<not> truthy v \<or> (\<exists>s. v = JStr s \<and> strip s = []))
      \<or> (\<exists>data. generate_acta_pdf env data = Inl (ValueError motivo_msg)))
   \<and> snd (generar_informe_conformidad_pdf_desde_payload env cache fs payload areas_csv_path)
       = snd (cargar_diccionario_areas cache fs (Some areas_csv_path))
   \<and> (map_of vals ''resultado_conformidad'' = Some (JStr ''no_conforme'')
      \<and> (v = None \<or> (\<exists>s. v = Some s \<and> strip s = [])) \<longrightarrow>
      motivo_required_when_no_conforme v vals = Inl (ValueError motivo_msg))
   \<and> (map_of vals ''resultado_conformidad'' \<noteq> Some (JStr ''no_conforme'')
      \<or> (\<exists>s. v = Some s \<and> strip s \<noteq> []) \<longrightarrow>
      motivo_required_when_no_conforme v vals = Inr v)
   \<and> take 21 motivo_msg = ''motivo_no_conformidad''"
proof -
  let ?load = "cargar_diccionario_areas cache fs (Some areas_csv_path)"
  let ?G = "generar_informe_conformidad_pdf_desde_payload env cache fs payload areas_csv_path"
  have G: "?G = (case fst ?load of
                   Inl e \<Rightarrow> (Inl e, snd ?load)
                 | Inr areas_dict \<Rightarrow> (informe_con_areas env areas_dict payload, snd ?load))"
    by (cases ?load) (auto simp: generar_informe_conformidad_pdf_desde_payload_def
        split: sum.splits)
  have c1: "fst ?load = Inl e \<longrightarrow> fst ?G = Inl e"
    by (simp add: G)
  have c2: "fst ?load = Inr d \<and> aplicaciones_payload payload
      \<and> map_of payload ''resultado_conformidad'' = Some (JStr ''no_conforme'')
      \<and> blank_reason (map_of payload ''motivo_no_conformidad'') \<longrightarrow>
      fst ?G = Inl (ValueError
                 (''motivo_no_conformidad es obligatorio cuando resultado_conformidad = ''
                    @ [CHR 0x27] @ ''no_conforme'' @ [CHR 0x27]))"
  proof (intro impI, elim conjE)
    assume l: "fst ?load = Inr d" and a: "aplicaciones_payload payload"
      and r: "map_of payload ''resultado_conformidad'' = Some (JStr ''no_conforme'')"
      and b: "blank_reason (map_of payload ''motivo_no_conformidad'')"
    from aplicaciones_payload_loop[OF a] obtain items apps
      where i: "py_iter (py_or (dict_get payload ''aplicaciones'') (JList [])) = Inr items"
        "aplicaciones_of items = Inr apps" by blast
    have "informe_con_areas env d payload = Inl (ValueError motivo_msg)"
      using i conformidad_blank[OF r b] by (simp add: informe_con_areas_def Let_def)
    with l show "fst ?G = Inl (ValueError
                 (''motivo_no_conformidad es obligatorio cuando resultado_conformidad = ''
                    @ [CHR 0x27] @ ''no_conforme'' @ [CHR 0x27]))"
      unfolding motivo_msg_text(1)[symmetric] by (simp add: G)
  qed
  have c3: "fst ?load = Inr d
      \<and> map_of payload ''aplicaciones'' = Some (JList (JStr s # items)) \<longrightarrow>
      fst ?G = Inl (AttributeError
                 ([CHR 0x27] @ ''str'' @ [CHR 0x27] @ '' object has no attribute ''
                    @ [CHR 0x27] @ ''get'' @ [CHR 0x27]))"
  proof (intro impI, elim conjE)
    assume l: "fst ?load = Inr d"
      and a: "map_of payload ''aplicaciones'' = Some (JList (JStr s # items))"
    from a have i: "py_iter (py_or (dict_get payload ''aplicaciones'') (JList []))
                      = Inr (JStr s # items)"
      by (simp add: dict_get_def py_or_def py_iter_def)
    have "informe_con_areas env d payload
            = Inl (AttributeError
                 ([CHR 0x27] @ ''str'' @ [CHR 0x27] @ '' object has no attribute ''
                    @ [CHR 0x27] @ ''get'' @ [CHR 0x27]))"
      using i
      by (simp add: informe_con_areas_def Let_def stripped_first_def item_get_def
          no_attribute_def)
    with l show "fst ?G = Inl (AttributeError
                 ([CHR 0x27] @ ''str'' @ [CHR 0x27] @ '' object has no attribute ''
                    @ [CHR 0x27] @ ''get'' @ [CHR 0x27]))"
      by (simp add: G)
  qed
  have c4: "fst ?load = Inr d
      \<and> aplicaciones_payload payload
      \<and> string_or_none (dict_get payload ''observaciones'')
      \<and> (map_of payload ''resultado_conformidad'' = None
           \<and> string_or_none (dict_get payload ''motivo_no_conformidad'') \<and> r = ''conforme''
         \<or> map_of payload ''resultado_conformidad'' = Some (JStr ''conforme'')
           \<and> string_or_none (dict_get payload ''motivo_no_conformidad'') \<and> r = ''conforme''
         \<or> map_of payload ''resultado_conformidad'' = Some (JStr ''no_conforme'')
           \<and> map_of payload ''motivo_no_conformidad'' = Some (JStr m) \<and> strip m \<noteq> []
           \<and> r = ''no_conforme'') \<longrightarrow>
      (\<exists>data. fst ?G = generate_acta_pdf env data
          \<and> resultado_conformidad data = JStr r
          \<and> motivo_no_conformidad data
              = strip (case dict_get payload ''motivo_no_conformidad'' of
                         JStr s \<Rightarrow> s | _ \<Rightarrow> [])
          \<and> observaciones data
              = strip (case dict_get payload ''observaciones'' of JStr s \<Rightarrow> s | _ \<Rightarrow> [])
          \<and> area_code data
              = normalize_area_code (area_code_argument env (dict_get payload ''area_code''))
          \<and> num_rcf data = dict_get_default payload ''num_rcf'' (JStr []))"
  proof (intro impI, elim conjE)
    assume l: "fst ?load = Inr d" and a: "aplicaciones_payload payload"
      and o: "string_or_none (dict_get payload ''observaciones'')"
      and cases: "map_of payload ''resultado_conformidad'' = None
           \<and> string_or_none (dict_get payload ''motivo_no_conformidad'') \<and> r = ''conforme''
         \<or> map_of payload ''resultado_conformidad'' = Some (JStr ''conforme'')
           \<and> string_or_none (dict_get payload ''motivo_no_conformidad'') \<and> r = ''conforme''
         \<or> map_of payload ''resultado_conformidad'' = Some (JStr ''no_conforme'')
           \<and> map_of payload ''motivo_no_conformidad'' = Some (JStr m) \<and> strip m \<noteq> []
           \<and> r = ''no_conforme''"
    from cases have c: "conformidad payload = Inr (JStr r)"
      using conformidad_conforme[of payload] conformidad_reason[of payload m] by blast
    from cases have s: "string_or_none (dict_get payload ''motivo_no_conformidad'')"
      by (auto simp: dict_get_def string_or_none_def)
    from informe_rendered[OF a c o s, of env d] l
    show "\<exists>data. fst ?G = generate_acta_pdf env data
          \<and> resultado_conformidad data = JStr r
          \<and> motivo_no_conformidad data
              = strip (case dict_get payload ''motivo_no_conformidad'' of
                         JStr s \<Rightarrow> s | _ \<Rightarrow> [])
          \<and> observaciones data
              = strip (case dict_get payload ''observaciones'' of JStr s \<Rightarrow> s | _ \<Rightarrow> [])
          \<and> area_code data
              = normalize_area_code (area_code_argument env (dict_get payload ''area_code''))
          \<and> num_rcf data = dict_get_default payload ''num_rcf'' (JStr [])"
      by (simp add: G)
  qed
  have c5: "fst ?G = Inl (ValueError motivo_msg) \<longrightarrow>
      map_of payload ''resultado_conformidad'' = Some (JStr ''no_conforme'')
        \<and> (\<forall>v. map_of payload ''motivo_no_conformidad'' = Some v \<longrightarrow>
               \<not> truthy v \<or> (\<exists>s. v = JStr s \<and> strip s = []))
      \<or> (\<exists>data. generate_acta_pdf env data = Inl (ValueError motivo_msg))"
  proof
    assume g: "fst ?G = Inl (ValueError motivo_msg)"
    have "fst ?load \<noteq> Inl (ValueError motivo_msg)"
      by (auto simp: cargar_diccionario_areas_def cargar_diccionario_areas_wrapped_def Let_def
          split: option.splits sum.splits if_splits file_state.splits)
    with g obtain ad where "informe_con_areas env ad payload = Inl (ValueError motivo_msg)"
      by (cases "fst ?load") (auto simp: G)
    from informe_motivo_error[OF this] conformidad_motivo_error[of payload]
    show "map_of payload ''resultado_conformidad'' = Some (JStr ''no_conforme'')
        \<and> (\<forall>v. map_of payload ''motivo_no_conformidad'' = Some v \<longrightarrow>
               \<not> truthy v \<or> (\<exists>s. v = JStr s \<and> strip s = []))
      \<or> (\<exists>data. generate_acta_pdf env data = Inl (ValueError motivo_msg))"
      by blast
  qed
  have c6: "snd ?G = snd ?load"
    by (simp add: G split: sum.splits)
  have c7: "map_of vals ''resultado_conformidad'' = Some (JStr ''no_conforme'')
      \<and> (v = None \<or> (\<exists>s. v = Some s \<and> strip s = [])) \<longrightarrow>
      motivo_required_when_no_conforme v vals = Inl (ValueError motivo_msg)"
    by (cases v) (auto simp: motivo_required_when_no_conforme_def dict_get_def)
  have c8: "map_of vals ''resultado_conformidad'' \<noteq> Some (JStr ''no_conforme'')
      \<or> (\<exists>s. v = Some s \<and> strip s \<noteq> []) \<longrightarrow>
      motivo_required_when_no_conforme v vals = Inr v"
    by (cases v) (auto simp: motivo_required_when_no_conforme_def dict_get_def
        split: option.splits)
  from c1 c2 c3 c4 c5 c6 c7 c8 motivo_msg_text(2) show ?thesis by blast
qed

theorem conformity_reason_required_witness:
  "fst (generar_informe_conformidad_pdf_desde_payload sample_environment None fs_with_table
          payload_without_reason ''areas.csv'')
     = Inl (ValueError (''motivo_no_conformidad es obligatorio cuando resultado_conformidad = ''
                          @ [CHR 0x27] @ ''no_conforme'' @ [CHR 0x27]))
   \<and> fst (generar_informe_conformidad_pdf_desde_payload sample_environment None fs_directory
          payload_with_reason ''images'')
     = Inl (IOError (''[Errno 21] Is a directory: '' @ [CHR 0x27] @ ''images'' @ [CHR 0x27]))
   \<and> fst (generar_informe_conformidad_pdf_desde_payload sample_environment None fs_with_table
          payload_bad_item ''areas.csv'')
     = Inl (AttributeError ([CHR 0x27] @ ''str'' @ [CHR 0x27] @ '' object has no attribute ''
                              @ [CHR 0x27] @ ''get'' @ [CHR 0x27]))
   \<and> fst (generar_informe_conformidad_pdf_desde_payload sample_environment None fs_with_table
          payload_with_reason ''areas.csv'')
     = Inr ''%PDF falta firma''
   \<and> motivo_required_when_no_conforme (Some ''  '')
        [(''resultado_conformidad'', JStr ''no_conforme'')] = Inl (ValueError motivo_msg)
   \<and> motivo_required_when_no_conforme None
        [(''resultado_conformidad'', JStr ''conforme'')] = Inr None"
proof -
  let ?d = "load_rows sample_rows Map.empty"
  let ?dir = "''[Errno 21] Is a directory: '' @ [CHR 0x27] @ ''images'' @ [CHR 0x27]"
  let ?nc = "[(''resultado_conformidad'', JStr ''no_conforme'')]"
  let ?c = "[(''resultado_conformidad'', JStr ''conforme'')]"
  note T = conformity_reason_required
  have load: "fst (cargar_diccionario_areas None fs_with_table (Some ''areas.csv'')) = Inr ?d"
    by (simp add: cargar_diccionario_areas_def cargar_diccionario_areas_wrapped_def
        fs_with_table_def)
  have load_dir: "fst (cargar_diccionario_areas None fs_directory (Some ''images''))
                    = Inl (IOError ?dir)"
    by (simp add: cargar_diccionario_areas_def cargar_diccionario_areas_wrapped_def
        fs_directory_def)
  have p1: "aplicaciones_payload payload_without_reason"
    "map_of payload_without_reason ''resultado_conformidad'' = Some (JStr ''no_conforme'')"
    "blank_reason (map_of payload_without_reason ''motivo_no_conformidad'')"
    by code_simp+
  have p3: "map_of payload_bad_item ''aplicaciones'' = Some (JList (JStr ''12/920/22000'' # []))"
    by code_simp
  have p4: "aplicaciones_payload payload_with_reason"
    "string_or_none (dict_get payload_with_reason ''observaciones'')"
    "map_of payload_with_reason ''resultado_conformidad'' = Some (JStr ''no_conforme'')"
    "map_of payload_with_reason ''motivo_no_conformidad'' = Some (JStr '' falta firma '')"
    "strip '' falta firma '' \<noteq> []"
    by code_simp+
  have v4: "strip (case dict_get payload_with_reason ''motivo_no_conformidad'' of
                     JStr s \<Rightarrow> s | _ \<Rightarrow> []) = ''falta firma''"
    by code_simp
  have render: "generate_acta_pdf sample_environment data
                  = Inr (''%PDF '' @ motivo_no_conformidad data)" for data
    by (simp add: sample_environment_def)
  have blank: "strip ''  '' = []" by code_simp
  have 1: "fst (generar_informe_conformidad_pdf_desde_payload sample_environment None
                  fs_with_table payload_without_reason ''areas.csv'')
     = Inl (ValueError (''motivo_no_conformidad es obligatorio cuando resultado_conformidad = ''
                          @ [CHR 0x27] @ ''no_conforme'' @ [CHR 0x27]))"
    using T[where env = sample_environment and cache = None and fs = fs_with_table
              and payload = payload_without_reason and areas_csv_path = "''areas.csv''"
              and d = ?d and e = "IOError []" and s = "[]" and items = "[]" and r = "[]"
              and m = "[]" and vals = ?nc and v = None] load p1
    by blast
  have 2: "fst (generar_informe_conformidad_pdf_desde_payload sample_environment None
                  fs_directory payload_with_reason ''images'') = Inl (IOError ?dir)"
    using T[where env = sample_environment and cache = None and fs = fs_directory
              and payload = payload_with_reason and areas_csv_path = "''images''"
              and d = ?d and e = "IOError ?dir" and s = "[]" and items = "[]" and r = "[]"
              and m = "[]" and vals = ?nc and v = None] load_dir
    by blast
  have 3: "fst (generar_informe_conformidad_pdf_desde_payload sample_environment None
                  fs_with_table payload_bad_item ''areas.csv'')
     = Inl (AttributeError ([CHR 0x27] @ ''str'' @ [CHR 0x27] @ '' object has no attribute ''
                              @ [CHR 0x27] @ ''get'' @ [CHR 0x27]))"
    using T[where env = sample_environment and cache = None and fs = fs_with_table
              and payload = payload_bad_item and areas_csv_path = "''areas.csv''"
              and d = ?d and e = "IOError []" and s = "''12/920/22000''" and items = "[]"
              and r = "[]" and m = "[]" and vals = ?nc and v = None] load p3
    by blast
  have "\<exists>data. fst (generar_informe_conformidad_pdf_desde_payload sample_environment None
                        fs_with_table payload_with_reason ''areas.csv'')
                 = generate_acta_pdf sample_environment data
               \<and> motivo_no_conformidad data
                   = strip (case dict_get payload_with_reason ''motivo_no_conformidad'' of
                              JStr s \<Rightarrow> s | _ \<Rightarrow> [])"
    using T[where env = sample_environment and cache = None and fs = fs_with_table
              and payload = payload_with_reason and areas_csv_path = "''areas.csv''"
              and d = ?d and e = "IOError []" and s = "[]" and items = "[]"
              and r = "''no_conforme''" and m = "'' falta firma ''" and vals = ?nc
              and v = None] load p4
    by blast
  then have 4: "fst (generar_informe_conformidad_pdf_desde_payload sample_environment None
                  fs_with_table payload_with_reason ''areas.csv'') = Inr ''%PDF falta firma''"
    by (auto simp: render v4)
  have 5: "motivo_required_when_no_conforme (Some ''  '') ?nc = Inl (ValueError motivo_msg)"
    using T[where env = sample_environment and cache = None and fs = fs_with_table
              and payload = payload_with_reason and areas_csv_path = "''areas.csv''"
              and d = ?d and e = "IOError []" and s = "[]" and items = "[]"
              and r = "[]" and m = "[]" and vals = ?nc and v = "Some ''  ''"] blank
    by simp
  have 6: "motivo_required_when_no_conforme None ?c = Inr None"
    using T[where env = sample_environment and cache = None and fs = fs_with_table
              and payload = payload_with_reason and areas_csv_path = "''areas.csv''"
              and d = ?d and e = "IOError []" and s = "[]" and items = "[]"
              and r = "[]" and m = "[]" and vals = ?c and v = None]
    by simp
  from 1 2 3 4 5 6 show ?thesis by blast
qed

text \<open>
  Two payloads whose result is \<^verbatim>\<open>no_conforme\<close> and whose reason is blank or absent,
  and that are not rejected with the error about the reason: the path of the area table
  names a directory and the loader raises first; the applications hold a string and the
  loop raises first.
\<close>

theorem rejected_with_another_error_counterexample:
  "map_of payload_without_reason ''resultado_conformidad'' = Some (JStr ''no_conforme'')
   \<and> map_of payload_without_reason ''motivo_no_conformidad'' = Some (JStr ''  '')
   \<and> fst (generar_informe_conformidad_pdf_desde_payload sample_environment None fs_directory
            payload_without_reason ''images'')
       = Inl (IOError (''[Errno 21] Is a directory: '' @ [CHR 0x27] @ ''images'' @ [CHR 0x27]))
   \<and> fst (generar_informe_conformidad_pdf_desde_payload sample_environment None fs_directory
            payload_without_reason ''images'') \<noteq> Inl (ValueError motivo_msg)
   \<and> map_of payload_bad_item ''resultado_conformidad'' = Some (JStr ''no_conforme'')
   \<and> map_of payload_bad_item ''motivo_no_conformidad'' = None
   \<and> fst (generar_informe_conformidad_pdf_desde_payload sample_environment None fs_with_table
            payload_bad_item ''areas.csv'')
       = Inl (AttributeError ([CHR 0x27] @ ''str'' @ [CHR 0x27] @ '' object has no attribute ''
                                @ [CHR 0x27] @ ''get'' @ [CHR 0x27]))
   \<and> fst (generar_informe_conformidad_pdf_desde_payload sample_environment None fs_with_table
            payload_bad_item ''areas.csv'') \<noteq> Inl (ValueError motivo_msg)"
proof -
  have load: "cargar_diccionario_areas None fs_with_table (Some ''areas.csv'')
                = (Inr (load_rows sample_rows Map.empty),
                   Some (Some ''areas.csv'', load_rows sample_rows Map.empty))"
    by (simp add: cargar_diccionario_areas_def cargar_diccionario_areas_wrapped_def
        fs_with_table_def)
  have load_dir: "cargar_diccionario_areas None fs_directory (Some ''images'')
      = (Inl (IOError (''[Errno 21] Is a directory: '' @ [CHR 0x27] @ ''images'' @ [CHR 0x27])),
         None)"
    by (simp add: cargar_diccionario_areas_def cargar_diccionario_areas_wrapped_def
        fs_directory_def)
  have 1: "fst (generar_informe_conformidad_pdf_desde_payload sample_environment None
                  fs_directory payload_without_reason ''images'')
       = Inl (IOError (''[Errno 21] Is a directory: '' @ [CHR 0x27] @ ''images'' @ [CHR 0x27]))"
    by (simp add: generar_informe_conformidad_pdf_desde_payload_def load_dir)
  have i: "py_iter (py_or (dict_get payload_bad_item ''aplicaciones'') (JList []))
             = Inr [JStr ''12/920/22000'']"
    by code_simp
  have a: "aplicaciones_of [JStr ''12/920/22000'']
             = Inl (AttributeError ([CHR 0x27] @ ''str'' @ [CHR 0x27]
                      @ '' object has no attribute '' @ [CHR 0x27] @ ''get'' @ [CHR 0x27]))"
    by code_simp
  have 2: "fst (generar_informe_conformidad_pdf_desde_payload sample_environment None
                  fs_with_table payload_bad_item ''areas.csv'')
       = Inl (AttributeError ([CHR 0x27] @ ''str'' @ [CHR 0x27] @ '' object has no attribute ''
                                @ [CHR 0x27] @ ''get'' @ [CHR 0x27]))"
    by (simp add: generar_informe_conformidad_pdf_desde_payload_def load informe_con_areas_def
        Let_def i a del: aplicaciones_of.simps)
  have p: "map_of payload_without_reason ''resultado_conformidad'' = Some (JStr ''no_conforme'')"
    "map_of payload_without_reason ''motivo_no_conformidad'' = Some (JStr ''  '')"
    "map_of payload_bad_item ''resultado_conformidad'' = Some (JStr ''no_conforme'')"
    "map_of payload_bad_item ''motivo_no_conformidad'' = None"
    by code_simp+
  from 1 2 p show ?thesis by simp
qed

subsection \<open>Dictionaries\<close>

lemma map_of_dict_set:
  "map_of (dict_set d k v) k' = (if k' = k then Some v else map_of d k')"
  by (induction d) auto

lemma map_fst_dict_set:
  "map fst (dict_set d k v) = (if k \<in> set (map fst d) then map fst d else map fst d @ [k])"
  by (induction d) (force split: if_splits)+

lemma na_not_empty [simp]: "na \<noteq> []"
  by (simp add: na_def)

lemma str_or_na [simp]: "str_or s na \<noteq> []"
  by (simp add: str_or_def)

lemma dict_str_get_absent:
  "k \<notin> set (map fst d) \<Longrightarrow> dict_str_get d k dflt = dflt"
  by (simp add: dict_str_get_def map_of_eq_None_iff[THEN iffD2])

lemma k_Direccion_distinct [simp]:
  "k_Direccion \<noteq> ''Poblacion''" "k_Direccion \<noteq> ''Cod.Postal''" "k_Direccion \<noteq> ''Provincia''"
  "k_Direccion \<noteq> ''Nombre''" "k_Direccion \<noteq> ''NIF''"
  "''Poblacion'' \<noteq> k_Direccion" "''Cod.Postal'' \<noteq> k_Direccion" "''Provincia'' \<noteq> k_Direccion"
  "''Nombre'' \<noteq> k_Direccion" "''NIF'' \<noteq> k_Direccion"
  "k_Direccion \<noteq> ''OfiCont''" "k_Direccion \<noteq> ''OrgGest''" "k_Direccion \<noteq> ''Und.Tram''"
  "k_Direccion \<noteq> ''UndTram''"
  "''OfiCont'' \<noteq> k_Direccion" "''OrgGest'' \<noteq> k_Direccion" "''Und.Tram'' \<noteq> k_Direccion"
  "''UndTram'' \<noteq> k_Direccion"
  by (simp_all add: k_Direccion_def)

lemma et_findtext_absent: "et_find e p = None \<Longrightarrow> et_findtext e p d = d"
  by (simp add: et_findtext_def)

subsection \<open>The signature and its certificate\<close>

lemma status_texts_distinct:
  "certificado_aun_no_valido \<noteq> certificado_caducado"
  "certificado_aun_no_valido \<noteq> certificado_actualmente_valido"
  "certificado_caducado \<noteq> certificado_actualmente_valido"
  by (simp_all add: certificado_aun_no_valido_def certificado_caducado_def
      certificado_actualmente_valido_def)

text \<open>The dictionary of a found signature, key by key.\<close>

lemma signature_found:
  assumes "et_findtext xml_root [Descendant ds_X509Certificate] [] = c" and "c \<noteq> []"
    and "load_certificate ext c = Inr cert"
  shows "map_of (extract_signature_info_from_xml ext now today xml_root) ''estado''
           = Some estado_firma_encontrada"
    and "map_of (extract_signature_info_from_xml ext now today xml_root) ''estado_certificado''
           = Some (estado_actual now (utc_instant (not_valid_before cert))
                     (utc_instant (not_valid_after cert)))"
    and "map_of (extract_signature_info_from_xml ext now today xml_root) ''validez_en_firma''
           = Some (validez_en_firma ext today
                     (et_findtext xml_root [Descendant xades_SigningTime] ''No especificada'')
                     (utc_instant (not_valid_before cert)) (utc_instant (not_valid_after cert)))"
  using assms
  by (simp_all add: extract_signature_info_from_xml_def dict_of_def Let_def)

text \<open>
  Claim C3. For a document whose certificate decodes, with a validity window from
  \<open>valido_desde\<close> to \<open>valido_hasta\<close> (both made aware in UTC, the first not after the
  second) and the clock reading \<open>now\<close>: the entry \<^verbatim>\<open>estado_certificado\<close> is the
  currently-valid text when \<open>valido_desde \<le> now \<le> valido_hasta\<close>, the not-yet-valid text
  when \<open>now < valido_desde\<close>, and the expired text when \<open>now > valido_hasta\<close>. The three
  texts differ from each other.
\<close>

theorem current_status_by_window:
  assumes "et_findtext xml_root [Descendant ds_X509Certificate] [] = c" and "c \<noteq> []"
    and "load_certificate ext c = Inr cert"
    and "valido_desde = utc_instant (not_valid_before cert)"
    and "valido_hasta = utc_instant (not_valid_after cert)"
    and "valido_desde \<le> valido_hasta"
  shows "(valido_desde \<le> now \<and> now \<le> valido_hasta \<longrightarrow>
            map_of (extract_signature_info_from_xml ext now today xml_root) ''estado_certificado''
              = Some certificado_actualmente_valido)
       \<and> (now < valido_desde \<longrightarrow>
            map_of (extract_signature_info_from_xml ext now today xml_root) ''estado_certificado''
              = Some certificado_aun_no_valido)
       \<and> (now > valido_hasta \<longrightarrow>
            map_of (extract_signature_info_from_xml ext now today xml_root) ''estado_certificado''
              = Some certificado_caducado)
       \<and> certificado_aun_no_valido \<noteq> certificado_caducado
       \<and> certificado_aun_no_valido \<noteq> certificado_actualmente_valido
       \<and> certificado_caducado \<noteq> certificado_actualmente_valido"
  using assms signature_found(2)[OF assms(1,2,3), of now today] status_texts_distinct
  by (auto simp: estado_actual_def)

theorem current_status_by_window_witness:
  "map_of (extract_signature_info_from_xml sample_externals 1500 0 sample_invoice)
      ''estado_certificado'' = Some certificado_actualmente_valido
   \<and> map_of (extract_signature_info_from_xml sample_externals 500 0 sample_invoice)
      ''estado_certificado'' = Some certificado_aun_no_valido
   \<and> map_of (extract_signature_info_from_xml sample_externals 2500 0 sample_invoice)
      ''estado_certificado'' = Some certificado_caducado"
proof -
  have c: "et_findtext sample_invoice [Descendant ds_X509Certificate] [] = ''Q0VSVA==''"
    by code_simp
  have ne: "''Q0VSVA=='' \<noteq> []" by simp
  have l: "load_certificate sample_externals ''Q0VSVA=='' = Inr sample_certificate"
    by (simp add: sample_externals_def)
  have d: "(1000::int) = utc_instant (not_valid_before sample_certificate)"
    by (simp add: sample_certificate_def utc_instant_def)
  have h: "(2000::int) = utc_instant (not_valid_after sample_certificate)"
    by (simp add: sample_certificate_def utc_instant_def)
  have w: "(1000::int) \<le> 2000" by simp
  from current_status_by_window[OF c ne l d h w, where now = 1500 and today = 0]
       current_status_by_window[OF c ne l d h w, where now = 500 and today = 0]
       current_status_by_window[OF c ne l d h w, where now = 2500 and today = 0]
  show ?thesis by simp
qed

text \<open>
  Claim C4. When the certificate decodes and the date parser raises on the text of
  \<^verbatim>\<open>SigningTime\<close> with the message \<open>e\<close>, the validator returns the found-signature
  dictionary: \<^verbatim>\<open>estado\<close> is \<^verbatim>\<open>Firma encontrada\<close>, \<^verbatim>\<open>validez_en_firma\<close> is
  \<^verbatim>\<open>No se pudo validar la fecha de firma: \<close> followed by \<open>e\<close>, and
  \<^verbatim>\<open>estado_certificado\<close> is one of the three status texts, chosen by comparing the clock
  with the window as usual. The same holds, with the message
  \<^verbatim>\<open>date value out of range\<close>, when the text parses to a time whose conversion to UTC
  overflows. A text that parses gives the valid-at-signing text when the signing instant
  lies in the window, and the not-valid text otherwise. When decoding the certificate
  raises with the message \<open>e\<close>, the result is the dictionary whose only entry is
  \<^verbatim>\<open>Error al extraer firma: \<close> followed by \<open>e\<close>; without a certificate text it is the
  dictionary whose only entry is the not-found text. The validator raises nothing: its
  result is always one of these three forms.
\<close>

theorem unparsable_signing_time_and_captured_failures:
  "(et_findtext xml_root [Descendant ds_X509Certificate] [] = c \<and> c \<noteq> []
      \<and> load_certificate ext c = Inr cert
      \<and> dateutil_parse ext today
           (et_findtext xml_root [Descendant xades_SigningTime] ''No especificada'') = Inl e
      \<longrightarrow> map_of (extract_signature_info_from_xml ext now today xml_root) ''estado''
            = Some ''Firma encontrada''
        \<and> map_of (extract_signature_info_from_xml ext now today xml_root) ''validez_en_firma''
            = Some (''No se pudo validar la fecha de firma: '' @ e)
        \<and> map_of (extract_signature_info_from_xml ext now today xml_root) ''estado_certificado''
            = Some (if now < utc_instant (not_valid_before cert)
                    then ''Certificado a'' @ [CHR 0xFA] @ ''n no v'' @ [CHR 0xE1]
                           @ ''lido (vigencia futura)''
                    else if utc_instant (not_valid_after cert) < now
                    then ''Certificado caducado''
                    else ''Certificado actualmente v'' @ [CHR 0xE1] @ ''lido''))
   \<and> (et_findtext xml_root [Descendant ds_X509Certificate] [] = c \<and> c \<noteq> []
      \<and> load_certificate ext c = Inr cert
      \<and> dateutil_parse ext today
           (et_findtext xml_root [Descendant xades_SigningTime] ''No especificada'')
           = Inr (Aware wall off)
      \<and> (wall - off < datetime_min \<or> datetime_max < wall - off)
      \<longrightarrow> map_of (extract_signature_info_from_xml ext now today xml_root) ''estado''
            = Some ''Firma encontrada''
        \<and> map_of (extract_signature_info_from_xml ext now today xml_root) ''validez_en_firma''
            = Some ''No se pudo validar la fecha de firma: date value out of range'')
   \<and> (et_findtext xml_root [Descendant ds_X509Certificate] [] = c \<and> c \<noteq> []
      \<and> load_certificate ext c = Inr cert
      \<and> dateutil_parse ext today
           (et_findtext xml_root [Descendant xades_SigningTime] ''No especificada'') = Inr parsed
      \<and> signing_utc parsed = Inr t
      \<longrightarrow> map_of (extract_signature_info_from_xml ext now today xml_root) ''validez_en_firma''
            = Some (if utc_instant (not_valid_before cert) \<le> t
                       \<and> t \<le> utc_instant (not_valid_after cert)
                    then ''Certificado v'' @ [CHR 0xE1] @ ''lido en la fecha de la firma''
                    else ''Certificado NO era v'' @ [CHR 0xE1] @ ''lido en la fecha de la firma''))
   \<and> (et_findtext xml_root [Descendant ds_X509Certificate] [] = c \<and> c \<noteq> []
      \<and> load_certificate ext c = Inl e
      \<longrightarrow> extract_signature_info_from_xml ext now today xml_root
            = [(''estado'', ''Error al extraer firma: '' @ e)])
   \<and> (et_findtext xml_root [Descendant ds_X509Certificate] [] = []
      \<longrightarrow> extract_signature_info_from_xml ext now today xml_root
            = [(''estado'', ''No se encontr'' @ [CHR 0xF3] @ '' certificado'')])
   \<and> (extract_signature_info_from_xml ext now today xml_root
         = [(''estado'', ''No se encontr'' @ [CHR 0xF3] @ '' certificado'')]
       \<or> (\<exists>detail. extract_signature_info_from_xml ext now today xml_root
                      = [(''estado'', ''Error al extraer firma: '' @ detail)])
       \<or> map_of (extract_signature_info_from_xml ext now today xml_root) ''estado''
           = Some ''Firma encontrada'')"
proof (intro conjI impI)
  assume a: "et_findtext xml_root [Descendant ds_X509Certificate] [] = c \<and> c \<noteq> []
      \<and> load_certificate ext c = Inr cert
      \<and> dateutil_parse ext today
           (et_findtext xml_root [Descendant xades_SigningTime] ''No especificada'') = Inl e"
  then have f: "et_findtext xml_root [Descendant ds_X509Certificate] [] = c" "c \<noteq> []"
    "load_certificate ext c = Inr cert"
    by simp_all
  show "map_of (extract_signature_info_from_xml ext now today xml_root) ''estado''
            = Some ''Firma encontrada''"
    by (simp add: signature_found(1)[OF f] estado_firma_encontrada_def)
  show "map_of (extract_signature_info_from_xml ext now today xml_root) ''estado_certificado''
            = Some (if now < utc_instant (not_valid_before cert)
                    then ''Certificado a'' @ [CHR 0xFA] @ ''n no v'' @ [CHR 0xE1]
                           @ ''lido (vigencia futura)''
                    else if utc_instant (not_valid_after cert) < now
                    then ''Certificado caducado''
                    else ''Certificado actualmente v'' @ [CHR 0xE1] @ ''lido'')"
    by (simp add: signature_found(2)[OF f] estado_actual_def certificado_aun_no_valido_def
        certificado_caducado_def certificado_actualmente_valido_def)
  from a show "map_of (extract_signature_info_from_xml ext now today xml_root) ''validez_en_firma''
            = Some (''No se pudo validar la fecha de firma: '' @ e)"
    by (simp add: signature_found(3)[OF f] validez_en_firma_def no_se_pudo_validar_def)
next
  assume a: "et_findtext xml_root [Descendant ds_X509Certificate] [] = c \<and> c \<noteq> []
      \<and> load_certificate ext c = Inr cert
      \<and> dateutil_parse ext today
           (et_findtext xml_root [Descendant xades_SigningTime] ''No especificada'')
           = Inr (Aware wall off)
      \<and> (wall - off < datetime_min \<or> datetime_max < wall - off)"
  then have f: "et_findtext xml_root [Descendant ds_X509Certificate] [] = c" "c \<noteq> []"
    "load_certificate ext c = Inr cert"
    by simp_all
  show "map_of (extract_signature_info_from_xml ext now today xml_root) ''estado''
            = Some ''Firma encontrada''"
    by (simp add: signature_found(1)[OF f] estado_firma_encontrada_def)
  from a have "signing_utc (Aware wall off) = Inl ''date value out of range''"
    by (auto simp: signing_utc_def)
  with a show "map_of (extract_signature_info_from_xml ext now today xml_root) ''validez_en_firma''
            = Some ''No se pudo validar la fecha de firma: date value out of range''"
    by (simp add: signature_found(3)[OF f] validez_en_firma_def no_se_pudo_validar_def)
next
  assume a: "et_findtext xml_root [Descendant ds_X509Certificate] [] = c \<and> c \<noteq> []
      \<and> load_certificate ext c = Inr cert
      \<and> dateutil_parse ext today
           (et_findtext xml_root [Descendant xades_SigningTime] ''No especificada'') = Inr parsed
      \<and> signing_utc parsed = Inr t"
  then have f: "et_findtext xml_root [Descendant ds_X509Certificate] [] = c" "c \<noteq> []"
    "load_certificate ext c = Inr cert"
    by simp_all
  from a show "map_of (extract_signature_info_from_xml ext now today xml_root) ''validez_en_firma''
            = Some (if utc_instant (not_valid_before cert) \<le> t
                       \<and> t \<le> utc_instant (not_valid_after cert)
                    then ''Certificado v'' @ [CHR 0xE1] @ ''lido en la fecha de la firma''
                    else ''Certificado NO era v'' @ [CHR 0xE1] @ ''lido en la fecha de la firma'')"
    by (simp add: signature_found(3)[OF f] validez_en_firma_def valido_en_firma_def
        no_valido_en_firma_def)
next
  assume "et_findtext xml_root [Descendant ds_X509Certificate] [] = c \<and> c \<noteq> []
      \<and> load_certificate ext c = Inl e"
  then show "extract_signature_info_from_xml ext now today xml_root
               = [(''estado'', ''Error al extraer firma: '' @ e)]"
    by (simp add: extract_signature_info_from_xml_def dict_of_def estado_error_def)
next
  assume "et_findtext xml_root [Descendant ds_X509Certificate] [] = []"
  then show "extract_signature_info_from_xml ext now today xml_root
               = [(''estado'', ''No se encontr'' @ [CHR 0xF3] @ '' certificado'')]"
    by (simp add: extract_signature_info_from_xml_def dict_of_def estado_no_encontrado_def)
next
  show "extract_signature_info_from_xml ext now today xml_root
         = [(''estado'', ''No se encontr'' @ [CHR 0xF3] @ '' certificado'')]
       \<or> (\<exists>detail. extract_signature_info_from_xml ext now today xml_root
                      = [(''estado'', ''Error al extraer firma: '' @ detail)])
       \<or> map_of (extract_signature_info_from_xml ext now today xml_root) ''estado''
           = Some ''Firma encontrada''"
    by (simp add: extract_signature_info_from_xml_def dict_of_def Let_def
        estado_no_encontrado_def estado_error_def estado_firma_encontrada_def
        split: sum.splits)
qed

theorem unparsable_signing_time_and_captured_failures_witness:
  "map_of (extract_signature_info_from_xml sample_externals 1500 0 sample_invoice) ''estado''
      = Some ''Firma encontrada''
   \<and> map_of (extract_signature_info_from_xml sample_externals 1500 0 sample_invoice)
        ''validez_en_firma''
      = Some ''No se pudo validar la fecha de firma: Unknown string format: ayer''
   \<and> map_of (extract_signature_info_from_xml sample_externals 1500 0 sample_invoice)
        ''estado_certificado'' = Some (''Certificado actualmente v'' @ [CHR 0xE1] @ ''lido'')
   \<and> map_of (extract_signature_info_from_xml sample_externals 1500 0
        (Element ''Facturae'' None
           [sample_signature ''Q0VSVA=='' ''9999-12-31T23:59:59.999999-01:00'']))
        ''validez_en_firma''
      = Some ''No se pudo validar la fecha de firma: date value out of range''
   \<and> map_of (extract_signature_info_from_xml sample_externals 1500 1000
        sample_time_of_day)
        ''validez_en_firma''
      = Some (''Certificado v'' @ [CHR 0xE1] @ ''lido en la fecha de la firma'')
   \<and> map_of (extract_signature_info_from_xml sample_externals 1500 5000
        sample_time_of_day)
        ''validez_en_firma''
      = Some (''Certificado NO era v'' @ [CHR 0xE1] @ ''lido en la fecha de la firma'')
   \<and> extract_signature_info_from_xml sample_externals 1500 0
        (Element ''Facturae'' None [sample_signature ''####'' ''ayer''])
      = [(''estado'', ''Error al extraer firma: Incorrect padding'')]
   \<and> extract_signature_info_from_xml sample_externals 1500 0 empty_invoice
      = [(''estado'', ''No se encontr'' @ [CHR 0xF3] @ '' certificado'')]"
proof -
  let ?far = "Element ''Facturae'' None
                [sample_signature ''Q0VSVA=='' ''9999-12-31T23:59:59.999999-01:00'']"
  let ?bad = "Element ''Facturae'' None [sample_signature ''####'' ''ayer'']"
  have cert: "load_certificate sample_externals ''Q0VSVA=='' = Inr sample_certificate"
    "load_certificate sample_externals ''####'' = Inl ''Incorrect padding''"
    by (simp_all add: sample_externals_def)
  have window: "utc_instant (not_valid_before sample_certificate) = 1000"
    "utc_instant (not_valid_after sample_certificate) = 2000"
    by (simp_all add: sample_certificate_def utc_instant_def)
  have c1: "et_findtext sample_invoice [Descendant ds_X509Certificate] [] = ''Q0VSVA==''"
    "et_findtext ?far [Descendant ds_X509Certificate] [] = ''Q0VSVA==''"
    "et_findtext sample_time_of_day [Descendant ds_X509Certificate] [] = ''Q0VSVA==''"
    "et_findtext ?bad [Descendant ds_X509Certificate] [] = ''####''"
    "et_findtext empty_invoice [Descendant ds_X509Certificate] [] = []"
    by code_simp+
  have s1: "et_findtext sample_invoice [Descendant xades_SigningTime] ''No especificada'' = ''ayer''"
    "et_findtext ?far [Descendant xades_SigningTime] ''No especificada''
       = ''9999-12-31T23:59:59.999999-01:00''"
    "et_findtext sample_time_of_day [Descendant xades_SigningTime] ''No especificada'' = ''00:00:00.000750''"
    by code_simp+
  have p1: "dateutil_parse sample_externals 0 ''ayer'' = Inl ''Unknown string format: ayer''"
    "dateutil_parse sample_externals 0 ''9999-12-31T23:59:59.999999-01:00''
       = Inr (Aware datetime_max (- 3600000000))"
    "dateutil_parse sample_externals 1000 ''00:00:00.000750'' = Inr (Naive 1750)"
    "dateutil_parse sample_externals 5000 ''00:00:00.000750'' = Inr (Naive 5750)"
    by (simp_all add: sample_externals_def)
  have over: "datetime_max - (- 3600000000) < datetime_min
               \<or> datetime_max < datetime_max - (- 3600000000)"
    by (simp add: datetime_max_def)
  have su: "signing_utc (Naive 1750) = Inr 1750" "signing_utc (Naive 5750) = Inr 5750"
    by (simp_all add: signing_utc_def)
  note T = unparsable_signing_time_and_captured_failures
  from T[where xml_root = sample_invoice and c = "''Q0VSVA==''" and ext = sample_externals
           and cert = sample_certificate and today = 0 and now = 1500
           and e = "''Unknown string format: ayer''"]
       cert c1 s1 p1 window
  have 1: "map_of (extract_signature_info_from_xml sample_externals 1500 0 sample_invoice) ''estado''
             = Some ''Firma encontrada''
     \<and> map_of (extract_signature_info_from_xml sample_externals 1500 0 sample_invoice)
          ''validez_en_firma''
        = Some ''No se pudo validar la fecha de firma: Unknown string format: ayer''
     \<and> map_of (extract_signature_info_from_xml sample_externals 1500 0 sample_invoice)
          ''estado_certificado'' = Some (''Certificado actualmente v'' @ [CHR 0xE1] @ ''lido'')"
    by simp
  from T[where xml_root = ?far and c = "''Q0VSVA==''" and ext = sample_externals
           and cert = sample_certificate and today = 0 and now = 1500
           and wall = datetime_max and off = "- 3600000000"]
       cert c1 s1 p1 over
  have 2: "map_of (extract_signature_info_from_xml sample_externals 1500 0 ?far)
             ''validez_en_firma''
           = Some ''No se pudo validar la fecha de firma: date value out of range''"
    by simp
  from T[where xml_root = sample_time_of_day and c = "''Q0VSVA==''" and ext = sample_externals
           and cert = sample_certificate and today = 1000 and now = 1500
           and parsed = "Naive 1750" and t = 1750]
       cert c1 s1 p1 su window
  have 3: "map_of (extract_signature_info_from_xml sample_externals 1500 1000 sample_time_of_day)
             ''validez_en_firma''
           = Some (''Certificado v'' @ [CHR 0xE1] @ ''lido en la fecha de la firma'')"
    by simp
  from T[where xml_root = sample_time_of_day and c = "''Q0VSVA==''" and ext = sample_externals
           and cert = sample_certificate and today = 5000 and now = 1500
           and parsed = "Naive 5750" and t = 5750]
       cert c1 s1 p1 su window
  have 4: "map_of (extract_signature_info_from_xml sample_externals 1500 5000 sample_time_of_day)
             ''validez_en_firma''
           = Some (''Certificado NO era v'' @ [CHR 0xE1] @ ''lido en la fecha de la firma'')"
    by simp
  from T[where xml_root = ?bad and c = "''####''" and ext = sample_externals
           and today = 0 and now = 1500 and e = "''Incorrect padding''"]
       cert c1
  have 5: "extract_signature_info_from_xml sample_externals 1500 0 ?bad
           = [(''estado'', ''Error al extraer firma: Incorrect padding'')]"
    by simp
  from T[where xml_root = empty_invoice and ext = sample_externals and today = 0 and now = 1500]
       c1
  have 6: "extract_signature_info_from_xml sample_externals 1500 0 empty_invoice
           = [(''estado'', ''No se encontr'' @ [CHR 0xF3] @ '' certificado'')]"
    by simp
  from 1 2 3 4 5 6 show ?thesis by blast
qed

subsection \<open>The payment means and the invoice class\<close>

text \<open>
  Claim C9. The payment-means table has the 19 keys \<^verbatim>\<open>01\<close> to \<^verbatim>\<open>19\<close>. For a code
  that is none of them, the label is the code itself: the entries \<^verbatim>\<open>means\<close> and
  \<^verbatim>\<open>means_code\<close> of the payment terms are both the trimmed text of
  \<^verbatim>\<open>PaymentMeans\<close>. An invoice class that is not a key of the class table is described
  as \<^verbatim>\<open>N/A\<close>.
\<close>

theorem unknown_payment_means_keeps_code:
  "map fst payment_means_map =
     [''01'', ''02'', ''03'', ''04'', ''05'', ''06'', ''07'', ''08'', ''09'', ''10'',
      ''11'', ''12'', ''13'', ''14'', ''15'', ''16'', ''17'', ''18'', ''19'']
   \<and> (code \<notin> set (map fst payment_means_map) \<longrightarrow> payment_means_of code = code)
   \<and> (et_find xml_root [Descendant ''Invoices'', Child ''Invoice''] = Some invoice
      \<and> et_find invoice [Descendant ''PaymentDetails'', Child ''Installment''] = Some payment
      \<and> code = strip (str_or (et_findtext payment [Child ''PaymentMeans''] []) [])
      \<and> code \<notin> set (map fst payment_means_map)
      \<longrightarrow> map_of (PaymentDetails (extract_invoice_data_from_xml ext now today xml_root)) ''means''
            = Some code
        \<and> map_of (PaymentDetails (extract_invoice_data_from_xml ext now today xml_root)) ''means_code''
            = Some code)
   \<and> (cls \<notin> set (map fst invoice_class_map) \<longrightarrow> invoice_class_desc_of cls = na)
   \<and> (et_find xml_root [Descendant ''Invoices'', Child ''Invoice''] = Some invoice
      \<and> cls = et_findtext invoice [Descendant ''InvoiceHeader'', Child ''InvoiceClass''] na
      \<and> cls \<notin> set (map fst invoice_class_map)
      \<longrightarrow> Clase_Factura (extract_invoice_data_from_xml ext now today xml_root) = na)"
proof (intro conjI impI)
  show "map fst payment_means_map =
     [''01'', ''02'', ''03'', ''04'', ''05'', ''06'', ''07'', ''08'', ''09'', ''10'',
      ''11'', ''12'', ''13'', ''14'', ''15'', ''16'', ''17'', ''18'', ''19'']"
    by (simp add: payment_means_map_def)
next
  assume "code \<notin> set (map fst payment_means_map)"
  then show "payment_means_of code = code"
    unfolding payment_means_of_def by (rule dict_str_get_absent)
next
  assume a: "et_find xml_root [Descendant ''Invoices'', Child ''Invoice''] = Some invoice
      \<and> et_find invoice [Descendant ''PaymentDetails'', Child ''Installment''] = Some payment
      \<and> code = strip (str_or (et_findtext payment [Child ''PaymentMeans''] []) [])
      \<and> code \<notin> set (map fst payment_means_map)"
  then have "code \<notin> set (map fst payment_means_map)" by blast
  then have m: "payment_means_of code = code"
    unfolding payment_means_of_def by (rule dict_str_get_absent)
  from a have pd: "PaymentDetails (extract_invoice_data_from_xml ext now today xml_root)
                   = payment_details_of ext (Some invoice)"
    by (simp add: extract_invoice_data_from_xml_def Let_def)
  from a m show "map_of (PaymentDetails (extract_invoice_data_from_xml ext now today xml_root)) ''means''
            = Some code"
    unfolding pd by (simp add: payment_details_of_def Let_def dict_of_def text_or_def)
  from a m show "map_of (PaymentDetails (extract_invoice_data_from_xml ext now today xml_root)) ''means_code''
            = Some code"
    unfolding pd by (simp add: payment_details_of_def Let_def dict_of_def text_or_def)
next
  assume "cls \<notin> set (map fst invoice_class_map)"
  then show "invoice_class_desc_of cls = na"
    unfolding invoice_class_desc_of_def by (rule dict_str_get_absent)
next
  assume a: "et_find xml_root [Descendant ''Invoices'', Child ''Invoice''] = Some invoice
      \<and> cls = et_findtext invoice [Descendant ''InvoiceHeader'', Child ''InvoiceClass''] na
      \<and> cls \<notin> set (map fst invoice_class_map)"
  then have "cls \<notin> set (map fst invoice_class_map)" by blast
  then have "invoice_class_desc_of cls = na"
    unfolding invoice_class_desc_of_def by (rule dict_str_get_absent)
  with a show "Clase_Factura (extract_invoice_data_from_xml ext now today xml_root) = na"
    by (simp add: extract_invoice_data_from_xml_def Let_def header_of_def)
qed


theorem unknown_payment_means_keeps_code_witness:
  "map_of (PaymentDetails (extract_invoice_data_from_xml sample_externals 1500 0 sample_invoice))
      ''means'' = Some ''99''
   \<and> map_of (PaymentDetails (extract_invoice_data_from_xml sample_externals 1500 0 sample_invoice))
      ''means_code'' = Some ''99''
   \<and> payment_means_of ''99'' = ''99''
   \<and> invoice_class_desc_of ''XX'' = na
   \<and> Clase_Factura (extract_invoice_data_from_xml sample_externals 1500 0 sample_invoice) = na"
proof -
  let ?invoice = "sample_invoice_element"
  let ?payment = "the (et_find ?invoice [Descendant ''PaymentDetails'', Child ''Installment''])"
  have i: "et_find sample_invoice [Descendant ''Invoices'', Child ''Invoice''] = Some ?invoice"
    by code_simp
  have p: "et_find ?invoice [Descendant ''PaymentDetails'', Child ''Installment''] = Some ?payment"
    by code_simp
  have c: "''99'' = strip (str_or (et_findtext ?payment [Child ''PaymentMeans''] []) [])"
    by code_simp
  have u: "''99'' \<notin> set (map fst payment_means_map)"
    by code_simp
  have k: "''XX'' = et_findtext ?invoice [Descendant ''InvoiceHeader'', Child ''InvoiceClass''] na"
    by code_simp
  have x: "''XX'' \<notin> set (map fst invoice_class_map)"
    by code_simp
  from unknown_payment_means_keeps_code
         [of "''99''" sample_invoice ?invoice ?payment sample_externals 1500 0 "''XX''"]
       i p c u k x
  show ?thesis by blast
qed

subsection \<open>Parties\<close>

lemma address_components_none:
  "address_components None
     = [(k_Direccion, na), (''Poblacion'', na), (''Cod.Postal'', na), (''Provincia'', na)]"
  by (simp add: address_components_def dict_of_def)

lemma address_components_no_address:
  assumes "et_find e [Child ''AddressInSpain''] = None"
    and "et_find e [Child ''OverseasAddress''] = None"
  shows "address_components (Some e)
     = [(k_Direccion, na), (''Poblacion'', na), (''Cod.Postal'', na), (''Provincia'', na)]"
  using assms by (simp add: address_components_def dict_of_def)

lemma str_or_Nil [simp]: "str_or s [] = s"
  by (simp add: str_or_def)

lemma address_components_spain:
  assumes "et_find e [Child ''AddressInSpain''] = Some a"
  shows "address_components (Some e)
     = [(k_Direccion,
         str_or (join '', ''
                   (filter (\<lambda>p. p \<noteq> [])
                      [et_findtext a [Child ''Address''] [],
                       strip (et_findtext a [Child ''PostCode''] [] @ '' ''
                                @ et_findtext a [Child ''Town''] []),
                       et_findtext a [Child ''Province''] [],
                       et_findtext a [Child ''CountryCode''] []])) na),
        (''Poblacion'', str_or (et_findtext a [Child ''Town''] []) na),
        (''Cod.Postal'', str_or (et_findtext a [Child ''PostCode''] []) na),
        (''Provincia'', str_or (et_findtext a [Child ''Province''] []) na)]"
  using assms
  by (simp add: address_components_def dict_of_def Let_def)

lemma address_components_overseas:
  assumes "et_find e [Child ''AddressInSpain''] = None"
    and "et_find e [Child ''OverseasAddress''] = Some a"
  shows "address_components (Some e)
     = [(k_Direccion,
         str_or (join '', ''
                   (filter (\<lambda>p. p \<noteq> [])
                      [et_findtext a [Child ''Address''] [],
                       et_findtext a [Child ''PostCodeAndTown''] [],
                       et_findtext a [Child ''Province''] [],
                       et_findtext a [Child ''CountryCode''] []])) na),
        (''Poblacion'', na), (''Cod.Postal'', na), (''Provincia'', na)]"
  using assms
  by (simp add: address_components_def dict_of_def Let_def)

lemma address_components_shape:
  "\<exists>d p c v. address_components e
       = [(k_Direccion, d), (''Poblacion'', p), (''Cod.Postal'', c), (''Provincia'', v)]
     \<and> d \<noteq> [] \<and> p \<noteq> [] \<and> c \<noteq> [] \<and> v \<noteq> []"
proof (cases e)
  case None
  then show ?thesis by (simp add: address_components_none)
next
  case (Some x)
  show ?thesis
  proof (cases "et_find x [Child ''AddressInSpain'']")
    case spain: (Some a)
    from address_components_spain[OF spain] Some show ?thesis by simp
  next
    case no_spain: None
    show ?thesis
    proof (cases "et_find x [Child ''OverseasAddress'']")
      case None
      from address_components_no_address[OF no_spain None] Some show ?thesis by simp
    next
      case (Some a)
      from address_components_overseas[OF no_spain Some] \<open>e = Some x\<close> show ?thesis by simp
    qed
  qed
qed

text \<open>The record of a party that is present, with its name as the three branches compute it.\<close>

lemma extract_party_full_present:
  assumes "et_find parent [Descendant tg] = Some party"
  shows "extract_party_full parent tg
       = [(''Nombre'',
           (case et_find party [Descendant ''LegalEntity''] of
              Some l \<Rightarrow> str_or (strip (et_findtext l [Child ''CorporateName''] [])) na
            | None \<Rightarrow>
                (case et_find party [Descendant ''Individual''] of
                   Some i \<Rightarrow>
                     str_or (strip (strip (et_findtext i [Child ''Name''] []) @ '' ''
                                    @ strip (et_findtext i [Child ''FirstSurname''] []) @ '' ''
                                    @ strip (et_findtext i [Child ''SecondSurname''] []))) na
                 | None \<Rightarrow> na))),
          (''NIF'', str_or (et_findtext party
             [Descendant ''TaxIdentification'', Child ''TaxIdentificationNumber''] na) na),
          (k_Direccion, dict_str_get (address_components (party_entity party)) k_Direccion na),
          (''Poblacion'', dict_str_get (address_components (party_entity party)) ''Poblacion'' na),
          (''Cod.Postal'', dict_str_get (address_components (party_entity party)) ''Cod.Postal'' na),
          (''Provincia'', dict_str_get (address_components (party_entity party)) ''Provincia'' na)]"
proof -
  obtain d p c v where a: "address_components (party_entity party)
       = [(k_Direccion, d), (''Poblacion'', p), (''Cod.Postal'', c), (''Provincia'', v)]"
    using address_components_shape by blast
  show ?thesis
  proof (cases "et_find party [Descendant ''LegalEntity'']")
    case (Some l)
    then have pe: "party_entity party = Some l" by (simp add: party_entity_def)
    show ?thesis
      using assms Some a[unfolded pe]
      by (simp add: extract_party_full_def pe Let_def dict_of_def
          copy_if_present_def dict_str_get_def)
  next
    case None
    show ?thesis
    proof (cases "et_find party [Descendant ''Individual'']")
      case (Some i)
      with None have pe: "party_entity party = Some i" by (simp add: party_entity_def)
      show ?thesis
        using assms None Some a[unfolded pe]
        by (simp add: extract_party_full_def pe Let_def dict_of_def
            copy_if_present_def dict_str_get_def)
    next
      case no_ind: None
      with None have pe: "party_entity party = None" by (simp add: party_entity_def)
      show ?thesis
        using assms None no_ind
        by (simp add: extract_party_full_def pe Let_def dict_of_def
            copy_if_present_def dict_str_get_def address_components_none)
    qed
  qed
qed

lemma extract_party_full_nonempty:
  "et_find parent [Descendant tg] = Some party \<Longrightarrow> extract_party_full parent tg \<noteq> []"
  by (simp add: extract_party_full_present)

lemma strip_two_spaces: "strip ''  '' = []"
  by code_simp

lemma join_no_parts: "join sep (filter (\<lambda>p. p \<noteq> []) [[], [], [], []]) = []"
  by simp

lemma destinos_no_buyer:
  "et_find xml_root [Descendant ''BuyerParty''] = None \<Longrightarrow> destinos_of xml_root = []"
  by (simp add: destinos_of_def)

lemma extract_party_full_absent:
  "et_find parent [Descendant tg] = None \<Longrightarrow> extract_party_full parent tg = []"
  by (simp add: extract_party_full_def)

lemma receptor_no_buyer:
  assumes "et_find xml_root [Descendant ''BuyerParty''] = None"
  shows "receptor_of xml_root
     = [(''Nombre'', na), (''NIF'', na), (k_Direccion, na), (''OfiCont'', na),
        (''OrgGest'', na), (''Und.Tram'', na), (''UndTram'', na)]"
  using assms
  by (simp add: receptor_of_def extract_party_full_absent destinos_no_buyer dict_or_def
      dict_of_def nth_or_def dict_str_get_def Let_def)

lemma receptor_with_buyer:
  assumes "et_find xml_root [Descendant ''BuyerParty''] = Some party"
  shows "k \<in> set party_keys \<Longrightarrow>
           map_of (receptor_of xml_root) k = map_of (extract_party_full xml_root ''BuyerParty'') k"
    and "map_of (receptor_of xml_root) ''OfiCont'' = Some (nth_or (destinos_of xml_root) 0 na)"
    and "map_of (receptor_of xml_root) ''OrgGest'' = Some (nth_or (destinos_of xml_root) 1 na)"
    and "map_of (receptor_of xml_root) ''Und.Tram'' = Some (nth_or (destinos_of xml_root) 2 na)"
    and "map_of (receptor_of xml_root) ''UndTram'' = Some (nth_or (destinos_of xml_root) 2 na)"
proof -
  from extract_party_full_nonempty[OF assms]
  have r: "dict_or (extract_party_full xml_root ''BuyerParty'')
               (dict_of [(''Nombre'', na), (''NIF'', na), (k_Direccion, na)])
             = extract_party_full xml_root ''BuyerParty''"
    by (simp add: dict_or_def)
  show "map_of (receptor_of xml_root) k = map_of (extract_party_full xml_root ''BuyerParty'') k"
    if "k \<in> set party_keys"
  proof -
    from that
    have "k \<noteq> ''OfiCont''" "k \<noteq> ''OrgGest''" "k \<noteq> ''Und.Tram''" "k \<noteq> ''UndTram''"
      by (auto simp: party_keys_def)
    with r show ?thesis
      by (simp add: receptor_of_def Let_def map_of_dict_set)
  qed
  show "map_of (receptor_of xml_root) ''OfiCont'' = Some (nth_or (destinos_of xml_root) 0 na)"
    "map_of (receptor_of xml_root) ''OrgGest'' = Some (nth_or (destinos_of xml_root) 1 na)"
    "map_of (receptor_of xml_root) ''Und.Tram'' = Some (nth_or (destinos_of xml_root) 2 na)"
    "map_of (receptor_of xml_root) ''UndTram'' = Some (nth_or (destinos_of xml_root) 2 na)"
    by (simp_all add: receptor_of_def Let_def map_of_dict_set dict_str_get_def)
qed

text \<open>
  Claim C2, as the code has it. A party element that is present gives a record with
  exactly the six keys \<^verbatim>\<open>Nombre\<close>, \<^verbatim>\<open>NIF\<close>, \<^verbatim>\<open>Direccion\<close>,
  \<^verbatim>\<open>Poblacion\<close>, \<^verbatim>\<open>Cod.Postal\<close> and \<^verbatim>\<open>Provincia\<close>, none of them empty.
  Each field is given by the text of its node, and is \<^verbatim>\<open>N/A\<close> when the node is
  absent: the tax number; the name of a legal entity without a corporate name, of an
  individual without name and surnames, and of a party that is neither; the address
  fields when the entity has no address, when a Spanish address lacks the town, the post
  code or the province (or every part, for the composed line), and the town, post code and
  province of an overseas address (and its composed line when every part is absent). In
  the extractor's output, the seller's record is that record, or six \<^verbatim>\<open>N/A\<close> when
  there is no seller; the buyer's record has the same six entries when there is a buyer,
  and only \<^verbatim>\<open>Nombre\<close>, \<^verbatim>\<open>NIF\<close> and \<^verbatim>\<open>Direccion\<close> when there is none,
  followed in both cases by the four administrative entries, which are \<^verbatim>\<open>N/A\<close>
  where the buyer has no such centre; the third party's record is that record, or the
  empty dictionary when there is no third party.
\<close>

theorem party_fields_sentinel:
  "na = ''N/A''
   \<and> (et_find parent [Descendant tg] = Some party \<longrightarrow>
      map fst (extract_party_full parent tg) = party_keys
      \<and> (\<forall>kv \<in> set (extract_party_full parent tg). snd kv \<noteq> [])
      \<and> map_of (extract_party_full parent tg) ''NIF''
          = Some (str_or (et_findtext party
               [Descendant ''TaxIdentification'', Child ''TaxIdentificationNumber''] na) na)
      \<and> (et_find party [Descendant ''TaxIdentification'', Child ''TaxIdentificationNumber''] = None
          \<longrightarrow> map_of (extract_party_full parent tg) ''NIF'' = Some na)
      \<and> (et_find party [Descendant ''LegalEntity''] = None
          \<and> et_find party [Descendant ''Individual''] = None
          \<longrightarrow> extract_party_full parent tg
                = [(''Nombre'', na),
                   (''NIF'', str_or (et_findtext party
                      [Descendant ''TaxIdentification'', Child ''TaxIdentificationNumber''] na) na),
                   (k_Direccion, na), (''Poblacion'', na), (''Cod.Postal'', na),
                   (''Provincia'', na)])
      \<and> (\<forall>l. et_find party [Descendant ''LegalEntity''] = Some l
          \<longrightarrow> map_of (extract_party_full parent tg) ''Nombre''
                = Some (str_or (strip (et_findtext l [Child ''CorporateName''] [])) na)
            \<and> (et_find l [Child ''CorporateName''] = None
                 \<longrightarrow> map_of (extract_party_full parent tg) ''Nombre'' = Some na))
      \<and> (\<forall>i. et_find party [Descendant ''LegalEntity''] = None
              \<and> et_find party [Descendant ''Individual''] = Some i
          \<longrightarrow> map_of (extract_party_full parent tg) ''Nombre''
                = Some (str_or (strip (strip (et_findtext i [Child ''Name''] []) @ '' ''
                                       @ strip (et_findtext i [Child ''FirstSurname''] []) @ '' ''
                                       @ strip (et_findtext i [Child ''SecondSurname''] []))) na)
            \<and> (et_find i [Child ''Name''] = None \<and> et_find i [Child ''FirstSurname''] = None
                 \<and> et_find i [Child ''SecondSurname''] = None
                 \<longrightarrow> map_of (extract_party_full parent tg) ''Nombre'' = Some na))
      \<and> (\<forall>e. party_entity party = Some e \<and> et_find e [Child ''AddressInSpain''] = None
              \<and> et_find e [Child ''OverseasAddress''] = None
          \<longrightarrow> map_of (extract_party_full parent tg) k_Direccion = Some na
            \<and> map_of (extract_party_full parent tg) ''Poblacion'' = Some na
            \<and> map_of (extract_party_full parent tg) ''Cod.Postal'' = Some na
            \<and> map_of (extract_party_full parent tg) ''Provincia'' = Some na)
      \<and> (\<forall>e a. party_entity party = Some e \<and> et_find e [Child ''AddressInSpain''] = Some a
          \<longrightarrow> map_of (extract_party_full parent tg) k_Direccion
                = Some (str_or (join '', ''
                     (filter (\<lambda>p. p \<noteq> [])
                        [et_findtext a [Child ''Address''] [],
                         strip (et_findtext a [Child ''PostCode''] [] @ '' ''
                                  @ et_findtext a [Child ''Town''] []),
                         et_findtext a [Child ''Province''] [],
                         et_findtext a [Child ''CountryCode''] []])) na)
            \<and> map_of (extract_party_full parent tg) ''Poblacion''
                = Some (str_or (et_findtext a [Child ''Town''] []) na)
            \<and> map_of (extract_party_full parent tg) ''Cod.Postal''
                = Some (str_or (et_findtext a [Child ''PostCode''] []) na)
            \<and> map_of (extract_party_full parent tg) ''Provincia''
                = Some (str_or (et_findtext a [Child ''Province''] []) na)
            \<and> (et_find a [Child ''Town''] = None
                 \<longrightarrow> map_of (extract_party_full parent tg) ''Poblacion'' = Some na)
            \<and> (et_find a [Child ''PostCode''] = None
                 \<longrightarrow> map_of (extract_party_full parent tg) ''Cod.Postal'' = Some na)
            \<and> (et_find a [Child ''Province''] = None
                 \<longrightarrow> map_of (extract_party_full parent tg) ''Provincia'' = Some na)
            \<and> (et_find a [Child ''Address''] = None \<and> et_find a [Child ''PostCode''] = None
                 \<and> et_find a [Child ''Town''] = None \<and> et_find a [Child ''Province''] = None
                 \<and> et_find a [Child ''CountryCode''] = None
                 \<longrightarrow> map_of (extract_party_full parent tg) k_Direccion = Some na))
      \<and> (\<forall>e a. party_entity party = Some e \<and> et_find e [Child ''AddressInSpain''] = None
              \<and> et_find e [Child ''OverseasAddress''] = Some a
          \<longrightarrow> map_of (extract_party_full parent tg) k_Direccion
                = Some (str_or (join '', ''
                     (filter (\<lambda>p. p \<noteq> [])
                        [et_findtext a [Child ''Address''] [],
                         et_findtext a [Child ''PostCodeAndTown''] [],
                         et_findtext a [Child ''Province''] [],
                         et_findtext a [Child ''CountryCode''] []])) na)
            \<and> map_of (extract_party_full parent tg) ''Poblacion'' = Some na
            \<and> map_of (extract_party_full parent tg) ''Cod.Postal'' = Some na
            \<and> map_of (extract_party_full parent tg) ''Provincia'' = Some na
            \<and> (et_find a [Child ''Address''] = None \<and> et_find a [Child ''PostCodeAndTown''] = None
                 \<and> et_find a [Child ''Province''] = None \<and> et_find a [Child ''CountryCode''] = None
                 \<longrightarrow> map_of (extract_party_full parent tg) k_Direccion = Some na)))
   \<and> Emisor (extract_invoice_data_from_xml ext now today xml_root)
       = (if et_find xml_root [Descendant ''SellerParty''] = None
          then map (\<lambda>k. (k, na)) party_keys
          else extract_party_full xml_root ''SellerParty'')
   \<and> (et_find xml_root [Descendant ''BuyerParty''] = None \<longrightarrow>
        Receptor (extract_invoice_data_from_xml ext now today xml_root)
          = map (\<lambda>k. (k, na))
              [''Nombre'', ''NIF'', k_Direccion, ''OfiCont'', ''OrgGest'', ''Und.Tram'', ''UndTram''])
   \<and> (\<forall>buyer. et_find xml_root [Descendant ''BuyerParty''] = Some buyer \<longrightarrow>
        (\<forall>k \<in> set party_keys.
           map_of (Receptor (extract_invoice_data_from_xml ext now today xml_root)) k
             = map_of (extract_party_full xml_root ''BuyerParty'') k)
        \<and> map (map_of (Receptor (extract_invoice_data_from_xml ext now today xml_root)))
             [''OfiCont'', ''OrgGest'', ''Und.Tram'', ''UndTram'']
           = (let ds = map (\<lambda>admin. et_findtext admin [Child ''CentreCode''] na @ '' - ''
                                      @ et_findtext admin [Child ''Name''] na)
                         (et_findall buyer
                            [Descendant ''AdministrativeCentres'', Child ''AdministrativeCentre''])
              in [Some (if 0 < length ds then ds ! 0 else na),
                  Some (if 1 < length ds then ds ! 1 else na),
                  Some (if 2 < length ds then ds ! 2 else na),
                  Some (if 2 < length ds then ds ! 2 else na)]))
   \<and> Tercero (extract_invoice_data_from_xml ext now today xml_root)
       = (if et_find xml_root [Descendant ''ThirdParty''] = None then []
          else extract_party_full xml_root ''ThirdParty'')"
proof (intro conjI impI allI)
  show "na = ''N/A''" by (simp add: na_def)
next
  assume present: "et_find parent [Descendant tg] = Some party"
  let ?P = "extract_party_full parent tg"
  let ?A = "address_components (party_entity party)"
  note P = extract_party_full_present[OF present]
  obtain d p c v where A: "?A = [(k_Direccion, d), (''Poblacion'', p), (''Cod.Postal'', c),
      (''Provincia'', v)]" and nonempty: "d \<noteq> []" "p \<noteq> []" "c \<noteq> []" "v \<noteq> []"
    using address_components_shape by blast
  show "map fst ?P = party_keys"
    by (simp add: P party_keys_def)
  show "\<forall>kv \<in> set ?P. snd kv \<noteq> []"
    using nonempty by (simp add: P A dict_str_get_def split: option.splits)
  show "map_of ?P ''NIF'' = Some (str_or (et_findtext party
               [Descendant ''TaxIdentification'', Child ''TaxIdentificationNumber''] na) na)"
    by (simp add: P)
  show "map_of ?P ''NIF'' = Some na"
    if "et_find party [Descendant ''TaxIdentification'', Child ''TaxIdentificationNumber''] = None"
    using that by (simp add: P et_findtext_absent str_or_def)
  show "?P = [(''Nombre'', na),
              (''NIF'', str_or (et_findtext party
                 [Descendant ''TaxIdentification'', Child ''TaxIdentificationNumber''] na) na),
              (k_Direccion, na), (''Poblacion'', na), (''Cod.Postal'', na), (''Provincia'', na)]"
    if h: "et_find party [Descendant ''LegalEntity''] = None
           \<and> et_find party [Descendant ''Individual''] = None"
  proof -
    from h have "party_entity party = None" by (simp add: party_entity_def)
    with h show ?thesis
      by (simp add: P address_components_none dict_str_get_def)
  qed
  show "map_of ?P ''Nombre'' = Some (str_or (strip (et_findtext l [Child ''CorporateName''] [])) na)"
    if "et_find party [Descendant ''LegalEntity''] = Some l" for l
    using that by (simp add: P)
  show "map_of ?P ''Nombre'' = Some na"
    if "et_find party [Descendant ''LegalEntity''] = Some l" "et_find l [Child ''CorporateName''] = None"
    for l
    using that by (simp add: P et_findtext_absent str_or_def)
  show "map_of ?P ''Nombre''
          = Some (str_or (strip (strip (et_findtext i [Child ''Name''] []) @ '' ''
                                 @ strip (et_findtext i [Child ''FirstSurname''] []) @ '' ''
                                 @ strip (et_findtext i [Child ''SecondSurname''] []))) na)"
    if "et_find party [Descendant ''LegalEntity''] = None
        \<and> et_find party [Descendant ''Individual''] = Some i" for i
    using that by (simp add: P)
  show "map_of ?P ''Nombre'' = Some na"
    if "et_find party [Descendant ''LegalEntity''] = None
        \<and> et_find party [Descendant ''Individual''] = Some i"
       "et_find i [Child ''Name''] = None \<and> et_find i [Child ''FirstSurname''] = None
        \<and> et_find i [Child ''SecondSurname''] = None" for i
    using that by (simp add: P et_findtext_absent strip_two_spaces str_or_def)
  show "map_of ?P k_Direccion = Some na"
       "map_of ?P ''Poblacion'' = Some na"
       "map_of ?P ''Cod.Postal'' = Some na"
       "map_of ?P ''Provincia'' = Some na"
    if "party_entity party = Some e \<and> et_find e [Child ''AddressInSpain''] = None
              \<and> et_find e [Child ''OverseasAddress''] = None" for e
    using that by (simp_all add: P address_components_no_address dict_str_get_def)
  {
    fix e a
    assume h: "party_entity party = Some e \<and> et_find e [Child ''AddressInSpain''] = Some a"
    then have s: "?A = [(k_Direccion,
         str_or (join '', ''
                   (filter (\<lambda>p. p \<noteq> [])
                      [et_findtext a [Child ''Address''] [],
                       strip (et_findtext a [Child ''PostCode''] [] @ '' ''
                                @ et_findtext a [Child ''Town''] []),
                       et_findtext a [Child ''Province''] [],
                       et_findtext a [Child ''CountryCode''] []])) na),
        (''Poblacion'', str_or (et_findtext a [Child ''Town''] []) na),
        (''Cod.Postal'', str_or (et_findtext a [Child ''PostCode''] []) na),
        (''Provincia'', str_or (et_findtext a [Child ''Province''] []) na)]"
      using address_components_spain[of e a] by simp
    show "map_of ?P k_Direccion
                = Some (str_or (join '', ''
                     (filter (\<lambda>p. p \<noteq> [])
                        [et_findtext a [Child ''Address''] [],
                         strip (et_findtext a [Child ''PostCode''] [] @ '' ''
                                  @ et_findtext a [Child ''Town''] []),
                         et_findtext a [Child ''Province''] [],
                         et_findtext a [Child ''CountryCode''] []])) na)"
      by (simp add: P s dict_str_get_def)
    show "map_of ?P ''Poblacion'' = Some (str_or (et_findtext a [Child ''Town''] []) na)"
      "map_of ?P ''Cod.Postal'' = Some (str_or (et_findtext a [Child ''PostCode''] []) na)"
      "map_of ?P ''Provincia'' = Some (str_or (et_findtext a [Child ''Province''] []) na)"
      by (simp_all add: P s dict_str_get_def)
    show "map_of ?P ''Poblacion'' = Some na" if "et_find a [Child ''Town''] = None"
      using that by (simp add: P s dict_str_get_def et_findtext_absent str_or_def)
    show "map_of ?P ''Cod.Postal'' = Some na" if "et_find a [Child ''PostCode''] = None"
      using that by (simp add: P s dict_str_get_def et_findtext_absent str_or_def)
    show "map_of ?P ''Provincia'' = Some na" if "et_find a [Child ''Province''] = None"
      using that by (simp add: P s dict_str_get_def et_findtext_absent str_or_def)
    show "map_of ?P k_Direccion = Some na"
      if "et_find a [Child ''Address''] = None \<and> et_find a [Child ''PostCode''] = None
                 \<and> et_find a [Child ''Town''] = None \<and> et_find a [Child ''Province''] = None
                 \<and> et_find a [Child ''CountryCode''] = None"
    proof -
      have "strip '' '' = []" by code_simp
      with that show ?thesis
        by (simp add: P s dict_str_get_def et_findtext_absent str_or_def)
    qed
  }
  {
    fix e a
    assume h: "party_entity party = Some e \<and> et_find e [Child ''AddressInSpain''] = None
              \<and> et_find e [Child ''OverseasAddress''] = Some a"
    then have s: "?A = [(k_Direccion,
         str_or (join '', ''
                   (filter (\<lambda>p. p \<noteq> [])
                      [et_findtext a [Child ''Address''] [],
                       et_findtext a [Child ''PostCodeAndTown''] [],
                       et_findtext a [Child ''Province''] [],
                       et_findtext a [Child ''CountryCode''] []])) na),
        (''Poblacion'', na), (''Cod.Postal'', na), (''Provincia'', na)]"
      using address_components_overseas[of e a] by simp
    show "map_of ?P k_Direccion
                = Some (str_or (join '', ''
                     (filter (\<lambda>p. p \<noteq> [])
                        [et_findtext a [Child ''Address''] [],
                         et_findtext a [Child ''PostCodeAndTown''] [],
                         et_findtext a [Child ''Province''] [],
                         et_findtext a [Child ''CountryCode''] []])) na)"
      by (simp add: P s dict_str_get_def)
    show "map_of ?P ''Poblacion'' = Some na" "map_of ?P ''Cod.Postal'' = Some na"
      "map_of ?P ''Provincia'' = Some na"
      by (simp_all add: P s dict_str_get_def)
    show "map_of ?P k_Direccion = Some na"
      if "et_find a [Child ''Address''] = None \<and> et_find a [Child ''PostCodeAndTown''] = None
                 \<and> et_find a [Child ''Province''] = None \<and> et_find a [Child ''CountryCode''] = None"
      using that by (simp add: P s dict_str_get_def et_findtext_absent str_or_def)
  }
next
  show "Emisor (extract_invoice_data_from_xml ext now today xml_root)
       = (if et_find xml_root [Descendant ''SellerParty''] = None
          then map (\<lambda>k. (k, na)) party_keys
          else extract_party_full xml_root ''SellerParty'')"
  proof (cases "et_find xml_root [Descendant ''SellerParty'']")
    case None
    then show ?thesis
      by (simp add: extract_invoice_data_from_xml_def Let_def emitter_of_def dict_or_def
          extract_party_full_absent dict_of_def party_keys_def)
  next
    case (Some party)
    from extract_party_full_nonempty[OF Some] Some show ?thesis
      by (simp add: extract_invoice_data_from_xml_def Let_def emitter_of_def dict_or_def)
  qed
next
  assume "et_find xml_root [Descendant ''BuyerParty''] = None"
  then show "Receptor (extract_invoice_data_from_xml ext now today xml_root)
          = map (\<lambda>k. (k, na))
              [''Nombre'', ''NIF'', k_Direccion, ''OfiCont'', ''OrgGest'', ''Und.Tram'', ''UndTram'']"
    by (simp add: extract_invoice_data_from_xml_def Let_def receptor_no_buyer)
next
  fix buyer
  assume b: "et_find xml_root [Descendant ''BuyerParty''] = Some buyer"
  have R: "Receptor (extract_invoice_data_from_xml ext now today xml_root) = receptor_of xml_root"
    by (simp add: extract_invoice_data_from_xml_def Let_def)
  show "\<forall>k \<in> set party_keys.
           map_of (Receptor (extract_invoice_data_from_xml ext now today xml_root)) k
             = map_of (extract_party_full xml_root ''BuyerParty'') k"
    unfolding R using receptor_with_buyer(1)[OF b] by blast
  show "map (map_of (Receptor (extract_invoice_data_from_xml ext now today xml_root)))
             [''OfiCont'', ''OrgGest'', ''Und.Tram'', ''UndTram'']
           = (let ds = map (\<lambda>admin. et_findtext admin [Child ''CentreCode''] na @ '' - ''
                                      @ et_findtext admin [Child ''Name''] na)
                         (et_findall buyer
                            [Descendant ''AdministrativeCentres'', Child ''AdministrativeCentre''])
              in [Some (if 0 < length ds then ds ! 0 else na),
                  Some (if 1 < length ds then ds ! 1 else na),
                  Some (if 2 < length ds then ds ! 2 else na),
                  Some (if 2 < length ds then ds ! 2 else na)])"
    unfolding R using b
    by (simp add: receptor_with_buyer(2-5)[OF b] destinos_of_def nth_or_def Let_def)
next
  show "Tercero (extract_invoice_data_from_xml ext now today xml_root)
       = (if et_find xml_root [Descendant ''ThirdParty''] = None then []
          else extract_party_full xml_root ''ThirdParty'')"
    by (simp add: extract_invoice_data_from_xml_def Let_def extract_party_full_absent)
qed

theorem party_fields_sentinel_witness:
  "map fst (extract_party_full sample_invoice ''SellerParty'')
     = [''Nombre'', ''NIF'', ''Direcci'' @ [CHR 0xF3] @ ''n'', ''Poblacion'', ''Cod.Postal'',
        ''Provincia'']
   \<and> map_of (extract_party_full sample_invoice ''SellerParty'') ''Nombre'' = Some ''ACME SL''
   \<and> map_of (extract_party_full sample_invoice ''SellerParty'') ''Provincia'' = Some ''N/A''
   \<and> map_of (extract_party_full sample_individual ''SellerParty'') ''Nombre'' = Some ''N/A''
   \<and> map_of (extract_party_full sample_individual ''SellerParty'') ''NIF'' = Some ''N/A''
   \<and> map_of (extract_party_full sample_individual ''SellerParty'')
        (''Direcci'' @ [CHR 0xF3] @ ''n'') = Some ''N/A''
   \<and> map (map_of (Receptor (extract_invoice_data_from_xml sample_externals 1500 0
                                sample_individual)))
        [''OfiCont'', ''OrgGest'', ''Und.Tram'', ''UndTram'']
      = [Some ''L01 - N/A'', Some ''N/A'', Some ''N/A'', Some ''N/A'']
   \<and> Receptor (extract_invoice_data_from_xml sample_externals 1500 0 sample_invoice)
       = [(''Nombre'', ''N/A''), (''NIF'', ''N/A''), (''Direcci'' @ [CHR 0xF3] @ ''n'', ''N/A''),
          (''OfiCont'', ''N/A''), (''OrgGest'', ''N/A''), (''Und.Tram'', ''N/A''),
          (''UndTram'', ''N/A'')]
   \<and> Emisor (extract_invoice_data_from_xml sample_externals 1500 0 empty_invoice)
       = [(''Nombre'', ''N/A''), (''NIF'', ''N/A''), (''Direcci'' @ [CHR 0xF3] @ ''n'', ''N/A''),
          (''Poblacion'', ''N/A''), (''Cod.Postal'', ''N/A''), (''Provincia'', ''N/A'')]"
proof -
  note T = party_fields_sentinel
  have n: "na = ''N/A''"
    using T[where ext = sample_externals and now = 1500 and today = 0
           and parent = empty_invoice and tg = "[]" and party = empty_invoice
           and xml_root = empty_invoice] by (rule conjunct1)
  have keys: "party_keys = [''Nombre'', ''NIF'', ''Direcci'' @ [CHR 0xF3] @ ''n'', ''Poblacion'',
      ''Cod.Postal'', ''Provincia'']"
    by (simp add: party_keys_def k_Direccion_def)
  have kd: "k_Direccion = ''Direcci'' @ [CHR 0xF3] @ ''n''"
    by (simp add: k_Direccion_def)
  have s1: "et_find sample_invoice [Descendant ''SellerParty''] = Some sample_seller"
    "et_find sample_seller [Descendant ''LegalEntity''] = Some sample_legal"
    "party_entity sample_seller = Some sample_legal \<and> et_find sample_legal [Child ''AddressInSpain''] = Some sample_spain"
    "et_find sample_spain [Child ''Province''] = None"
    "str_or (strip (et_findtext sample_legal [Child ''CorporateName''] [])) na = ''ACME SL''"
    by code_simp+
  have s2: "et_find sample_individual [Descendant ''SellerParty''] = Some sample_person_seller"
    "et_find sample_person_seller [Descendant ''LegalEntity''] = None
       \<and> et_find sample_person_seller [Descendant ''Individual''] = Some sample_person"
    "et_find sample_person [Child ''Name''] = None \<and> et_find sample_person [Child ''FirstSurname''] = None
       \<and> et_find sample_person [Child ''SecondSurname''] = None"
    "et_find sample_person_seller [Descendant ''TaxIdentification'', Child ''TaxIdentificationNumber''] = None"
    "party_entity sample_person_seller = Some sample_person \<and> et_find sample_person [Child ''AddressInSpain''] = None
       \<and> et_find sample_person [Child ''OverseasAddress''] = Some sample_overseas"
    "et_find sample_overseas [Child ''Address''] = None \<and> et_find sample_overseas [Child ''PostCodeAndTown''] = None
       \<and> et_find sample_overseas [Child ''Province''] = None \<and> et_find sample_overseas [Child ''CountryCode''] = None"
    by code_simp+
  have s3: "et_find sample_individual [Descendant ''BuyerParty''] = Some sample_buyer"
    "(let ds = map (\<lambda>admin. et_findtext admin [Child ''CentreCode''] na @ '' - ''
                                      @ et_findtext admin [Child ''Name''] na)
                         (et_findall sample_buyer
                            [Descendant ''AdministrativeCentres'', Child ''AdministrativeCentre''])
              in [Some (if 0 < length ds then ds ! 0 else na),
                  Some (if 1 < length ds then ds ! 1 else na),
                  Some (if 2 < length ds then ds ! 2 else na),
                  Some (if 2 < length ds then ds ! 2 else na)])
     = [Some ''L01 - N/A'', Some ''N/A'', Some ''N/A'', Some ''N/A'']"
    by code_simp+
  have s4: "et_find sample_invoice [Descendant ''BuyerParty''] = None"
    "et_find empty_invoice [Descendant ''SellerParty''] = None"
    by code_simp+
  from T[where parent = sample_invoice and tg = "''SellerParty''" and party = sample_seller
           and ext = sample_externals and now = 1500 and today = 0 and xml_root = empty_invoice] s1
  have 1: "map fst (extract_party_full sample_invoice ''SellerParty'') = party_keys"
    "map_of (extract_party_full sample_invoice ''SellerParty'') ''Nombre'' = Some ''ACME SL''"
    "map_of (extract_party_full sample_invoice ''SellerParty'') ''Provincia'' = Some na"
    by (simp_all add: et_findtext_absent str_or_def)
  from T[where parent = sample_individual and tg = "''SellerParty''" and party = sample_person_seller
           and ext = sample_externals and now = 1500 and today = 0 and xml_root = empty_invoice] s2
  have 2: "map_of (extract_party_full sample_individual ''SellerParty'') ''Nombre'' = Some na"
    "map_of (extract_party_full sample_individual ''SellerParty'') ''NIF'' = Some na"
    "map_of (extract_party_full sample_individual ''SellerParty'') k_Direccion = Some na"
    by (simp_all add: et_findtext_absent str_or_def strip_two_spaces)
  from T[where ext = sample_externals and now = 1500 and today = 0
           and parent = empty_invoice and tg = "[]" and party = empty_invoice
           and xml_root = sample_individual] s3(1)
  have "map (map_of (Receptor (extract_invoice_data_from_xml sample_externals 1500 0
                                sample_individual)))
        [''OfiCont'', ''OrgGest'', ''Und.Tram'', ''UndTram'']
      = (let ds = map (\<lambda>admin. et_findtext admin [Child ''CentreCode''] na @ '' - ''
                                      @ et_findtext admin [Child ''Name''] na)
                         (et_findall sample_buyer
                            [Descendant ''AdministrativeCentres'', Child ''AdministrativeCentre''])
              in [Some (if 0 < length ds then ds ! 0 else na),
                  Some (if 1 < length ds then ds ! 1 else na),
                  Some (if 2 < length ds then ds ! 2 else na),
                  Some (if 2 < length ds then ds ! 2 else na)])"
    by blast
  then have 3: "map (map_of (Receptor (extract_invoice_data_from_xml sample_externals 1500 0
                                sample_individual)))
        [''OfiCont'', ''OrgGest'', ''Und.Tram'', ''UndTram'']
      = [Some ''L01 - N/A'', Some ''N/A'', Some ''N/A'', Some ''N/A'']"
    by (simp only: s3(2))
  from T[where ext = sample_externals and now = 1500 and today = 0
           and parent = empty_invoice and tg = "[]" and party = empty_invoice
           and xml_root = sample_invoice] s4(1)
  have 4: "Receptor (extract_invoice_data_from_xml sample_externals 1500 0 sample_invoice)
          = map (\<lambda>k. (k, na))
              [''Nombre'', ''NIF'', k_Direccion, ''OfiCont'', ''OrgGest'', ''Und.Tram'', ''UndTram'']"
    by simp
  from T[where ext = sample_externals and now = 1500 and today = 0
           and parent = empty_invoice and tg = "[]" and party = empty_invoice
           and xml_root = empty_invoice] s4(2)
  have 5: "Emisor (extract_invoice_data_from_xml sample_externals 1500 0 empty_invoice)
       = map (\<lambda>k. (k, na)) party_keys"
    by simp
  show ?thesis
    using 1 2 3 4 5 by (simp add: n keys kd)
qed

text \<open>
  Without a buyer the buyer's record has no \<^verbatim>\<open>Poblacion\<close>, and without a third party
  the third party's record has no \<^verbatim>\<open>Nombre\<close>: fields of a party record can be
  omitted.
\<close>

theorem absent_buyer_and_third_party_counterexample:
  "et_find empty_invoice [Descendant ''BuyerParty''] = None
   \<and> map_of (Receptor (extract_invoice_data_from_xml sample_externals 1500 0 empty_invoice))
        ''Poblacion'' = None
   \<and> et_find empty_invoice [Descendant ''ThirdParty''] = None
   \<and> map_of (Tercero (extract_invoice_data_from_xml sample_externals 1500 0 empty_invoice))
        ''Nombre'' = None"
  by code_simp

subsection \<open>Two runs of the extractor\<close>

lemma firma_keys_and_values:
  "map fst (extract_signature_info_from_xml ext now1 today1 xml_root)
     = map fst (extract_signature_info_from_xml ext now2 today2 xml_root)
   \<and> (\<forall>k. k \<noteq> ''estado_certificado'' \<and> k \<noteq> ''validez_en_firma'' \<longrightarrow>
          map_of (extract_signature_info_from_xml ext now1 today1 xml_root) k
            = map_of (extract_signature_info_from_xml ext now2 today2 xml_root) k)"
  by (simp add: extract_signature_info_from_xml_def dict_of_def Let_def split: sum.splits)

text \<open>
  Claim C5, as the code has it. The extractor reads the clock for two entries of the
  signature: \<^verbatim>\<open>estado_certificado\<close> compares \<^verbatim>\<open>datetime.now(timezone.utc)\<close> with the
  validity window, and \<^verbatim>\<open>validez_en_firma\<close> comes from the date parser, which completes
  a text without a date from its own reading of the clock. Two runs on the same parsed
  document, with the readings \<open>now1\<close>, \<open>today1\<close> and \<open>now2\<close>, \<open>today2\<close>, give records that
  agree in every field except \<^verbatim>\<open>Firma\<close>, and signature dictionaries with the same keys
  and the same values except for those two entries. The two records are equal when the two
  instants lie on the same side of the validity window of the certificate (if one decodes)
  and the parser gives the same result for the signing time on both days.
\<close>

theorem extraction_reads_the_clock_for_two_entries:
  "extract_invoice_data_from_xml ext now1 today1 xml_root
     = (extract_invoice_data_from_xml ext now2 today2 xml_root)
         \<lparr>Firma := Firma (extract_invoice_data_from_xml ext now1 today1 xml_root)\<rparr>
   \<and> map fst (Firma (extract_invoice_data_from_xml ext now1 today1 xml_root))
       = map fst (Firma (extract_invoice_data_from_xml ext now2 today2 xml_root))
   \<and> (\<forall>k. k \<noteq> ''estado_certificado'' \<and> k \<noteq> ''validez_en_firma'' \<longrightarrow>
          map_of (Firma (extract_invoice_data_from_xml ext now1 today1 xml_root)) k
            = map_of (Firma (extract_invoice_data_from_xml ext now2 today2 xml_root)) k)
   \<and> ((\<forall>cert. load_certificate ext (et_findtext xml_root [Descendant ds_X509Certificate] [])
                 = Inr cert \<longrightarrow>
               (now1 < utc_instant (not_valid_before cert)
                  \<longleftrightarrow> now2 < utc_instant (not_valid_before cert))
               \<and> (utc_instant (not_valid_after cert) < now1
                  \<longleftrightarrow> utc_instant (not_valid_after cert) < now2))
        \<and> dateutil_parse ext today1
             (et_findtext xml_root [Descendant xades_SigningTime] ''No especificada'')
           = dateutil_parse ext today2
               (et_findtext xml_root [Descendant xades_SigningTime] ''No especificada'')
       \<longrightarrow> extract_invoice_data_from_xml ext now1 today1 xml_root
             = extract_invoice_data_from_xml ext now2 today2 xml_root)"
proof (intro conjI impI)
  show "extract_invoice_data_from_xml ext now1 today1 xml_root
     = (extract_invoice_data_from_xml ext now2 today2 xml_root)
         \<lparr>Firma := Firma (extract_invoice_data_from_xml ext now1 today1 xml_root)\<rparr>"
    by (simp add: extract_invoice_data_from_xml_def Let_def)
  have F: "Firma (extract_invoice_data_from_xml ext now today xml_root)
             = extract_signature_info_from_xml ext now today xml_root" for now today
    by (simp add: extract_invoice_data_from_xml_def Let_def)
  show "map fst (Firma (extract_invoice_data_from_xml ext now1 today1 xml_root))
       = map fst (Firma (extract_invoice_data_from_xml ext now2 today2 xml_root))"
    unfolding F using firma_keys_and_values by blast
  show "\<forall>k. k \<noteq> ''estado_certificado'' \<and> k \<noteq> ''validez_en_firma'' \<longrightarrow>
          map_of (Firma (extract_invoice_data_from_xml ext now1 today1 xml_root)) k
            = map_of (Firma (extract_invoice_data_from_xml ext now2 today2 xml_root)) k"
    unfolding F using firma_keys_and_values by blast
next
  assume same: "(\<forall>cert. load_certificate ext (et_findtext xml_root [Descendant ds_X509Certificate] [])
                 = Inr cert \<longrightarrow>
               (now1 < utc_instant (not_valid_before cert)
                  \<longleftrightarrow> now2 < utc_instant (not_valid_before cert))
               \<and> (utc_instant (not_valid_after cert) < now1
                  \<longleftrightarrow> utc_instant (not_valid_after cert) < now2))
        \<and> dateutil_parse ext today1
             (et_findtext xml_root [Descendant xades_SigningTime] ''No especificada'')
           = dateutil_parse ext today2
               (et_findtext xml_root [Descendant xades_SigningTime] ''No especificada'')"
  then have "extract_signature_info_from_xml ext now1 today1 xml_root
             = extract_signature_info_from_xml ext now2 today2 xml_root"
    by (simp add: extract_signature_info_from_xml_def Let_def estado_actual_def
        validez_en_firma_def split: sum.splits)
  then show "extract_invoice_data_from_xml ext now1 today1 xml_root
             = extract_invoice_data_from_xml ext now2 today2 xml_root"
    by (simp add: extract_invoice_data_from_xml_def Let_def)
qed

theorem extraction_reads_the_clock_for_two_entries_witness:
  "extract_invoice_data_from_xml sample_externals 1200 0 sample_invoice
     = extract_invoice_data_from_xml sample_externals 1800 86400000000 sample_invoice"
proof -
  have c: "et_findtext sample_invoice [Descendant ds_X509Certificate] [] = ''Q0VSVA==''"
    by code_simp
  have s: "et_findtext sample_invoice [Descendant xades_SigningTime] ''No especificada'' = ''ayer''"
    by code_simp
  have "(\<forall>cert. load_certificate sample_externals
                 (et_findtext sample_invoice [Descendant ds_X509Certificate] []) = Inr cert \<longrightarrow>
               ((1200::int) < utc_instant (not_valid_before cert)
                  \<longleftrightarrow> (1800::int) < utc_instant (not_valid_before cert))
               \<and> (utc_instant (not_valid_after cert) < (1200::int)
                  \<longleftrightarrow> utc_instant (not_valid_after cert) < (1800::int)))
        \<and> dateutil_parse sample_externals 0
             (et_findtext sample_invoice [Descendant xades_SigningTime] ''No especificada'')
           = dateutil_parse sample_externals 86400000000
               (et_findtext sample_invoice [Descendant xades_SigningTime] ''No especificada'')"
    by (auto simp: c s sample_externals_def sample_certificate_def utc_instant_def)
  with extraction_reads_the_clock_for_two_entries
         [of sample_externals 1200 0 sample_invoice 1800 86400000000]
  show ?thesis by blast
qed

text \<open>
  The same document, read while the certificate is valid and again after it has expired,
  gives two different records; so does a document whose signing time is a time of day,
  read on two different days.
\<close>

theorem two_runs_differ_counterexample:
  "extract_invoice_data_from_xml sample_externals 1500 0 sample_invoice
     \<noteq> extract_invoice_data_from_xml sample_externals 2500 0 sample_invoice
   \<and> extract_invoice_data_from_xml sample_externals 1500 1000 sample_time_of_day
     \<noteq> extract_invoice_data_from_xml sample_externals 1500 5000 sample_time_of_day"
proof -
  have 1: "map_of (Firma (extract_invoice_data_from_xml sample_externals 1500 0 sample_invoice))
                    ''estado_certificado'' = Some certificado_actualmente_valido"
    by code_simp
  have 2: "map_of (Firma (extract_invoice_data_from_xml sample_externals 2500 0 sample_invoice))
                    ''estado_certificado'' = Some certificado_caducado"
    by code_simp
  have 3: "map_of (Firma (extract_invoice_data_from_xml sample_externals 1500 1000
                            sample_time_of_day)) ''validez_en_firma'' = Some valido_en_firma"
    by code_simp
  have 4: "map_of (Firma (extract_invoice_data_from_xml sample_externals 1500 5000
                            sample_time_of_day)) ''validez_en_firma'' = Some no_valido_en_firma"
    by code_simp
  have d: "certificado_actualmente_valido \<noteq> certificado_caducado"
    "valido_en_firma \<noteq> no_valido_en_firma"
    by (simp_all add: certificado_actualmente_valido_def certificado_caducado_def
        valido_en_firma_def no_valido_en_firma_def)
  from 1 2 d(1) have "extract_invoice_data_from_xml sample_externals 1500 0 sample_invoice
     \<noteq> extract_invoice_data_from_xml sample_externals 2500 0 sample_invoice"
    by auto
  moreover from 3 4 d(2)
  have "extract_invoice_data_from_xml sample_externals 1500 1000 sample_time_of_day
     \<noteq> extract_invoice_data_from_xml sample_externals 1500 5000 sample_time_of_day"
    by auto
  ultimately show ?thesis by blast
qed

end
